theory Spec2Isabelle
  imports Complex_Main "HOL-Library.Word"
begin

unbundle bit_operations_syntax

section \<open>Wire codec: the fragment of \<open>struct.pack\<close> / \<open>struct.unpack\<close> used by pyKinesis.py\<close>

text \<open>
  Every message of \<^verbatim>\<open>pyKinesis.py\<close> is built with \<^verbatim>\<open>struct.pack('<...', ...)\<close>
  and every reply is taken apart with \<^verbatim>\<open>struct.unpack('<...', ...)\<close>. The format
  strings all start with \<^verbatim>\<open><\<close> (little-endian, no padding) and use the codes
  \<^verbatim>\<open>B\<close> (unsigned 8 bit), \<^verbatim>\<open>H\<close> (unsigned 16 bit), \<^verbatim>\<open>I\<close> (unsigned 32 bit)
  and \<^verbatim>\<open>Ns\<close> (N raw bytes). Python integers are unbounded, so the arguments are
  \<open>int\<close>; \<^verbatim>\<open>pack\<close> raises \<^verbatim>\<open>struct.error\<close> when an argument does not fit its
  field, and \<^verbatim>\<open>unpack\<close> raises \<^verbatim>\<open>struct.error\<close> when the buffer does not have
  exactly the size of the format.
\<close>

type_synonym byte = "8 word"

datatype error =
    StructError
  | AttributeError
  | PortNotOpenError
  | SerialException
  | ValueError
  | OverflowError
  | ZeroDivisionError
  | Exception string

datatype fmt = Fmt_B | Fmt_H | Fmt_I

fun pack_field :: "fmt \<Rightarrow> int \<Rightarrow> error + byte list" where
  "pack_field Fmt_B v =
     (if 0 \<le> v \<and> v < 256 then Inr [word_of_int v] else Inl StructError)"
| "pack_field Fmt_H v =
     (if 0 \<le> v \<and> v < 65536
      then Inr [word_of_int (v mod 256), word_of_int (v div 256)]
      else Inl StructError)"
| "pack_field Fmt_I v =
     (if 0 \<le> v \<and> v < 4294967296
      then Inr [word_of_int (v mod 256), word_of_int (v div 256 mod 256),
                word_of_int (v div 65536 mod 256), word_of_int (v div 16777216)]
      else Inl StructError)"

fun pack :: "(fmt \<times> int) list \<Rightarrow> error + byte list" where
  "pack [] = Inr []"
| "pack ((f, v) # rest) =
     (case pack_field f v of
        Inl e \<Rightarrow> Inl e
      | Inr bs \<Rightarrow> (case pack rest of Inl e \<Rightarrow> Inl e | Inr cs \<Rightarrow> Inr (bs @ cs)))"

text \<open>\<^verbatim>\<open>pack('<HBBBB', a, b, c, d, e)\<close>: the 6-byte short message.\<close>

definition pack_HBBBB :: "int \<Rightarrow> int \<Rightarrow> int \<Rightarrow> int \<Rightarrow> int \<Rightarrow> error + byte list" where
  "pack_HBBBB a b c d e =
     pack [(Fmt_H, a), (Fmt_B, b), (Fmt_B, c), (Fmt_B, d), (Fmt_B, e)]"

text \<open>\<^verbatim>\<open>pack('<HBBBBHI', a, b, c, d, e, f, g)\<close>: header, 16-bit field, 32-bit field.\<close>

definition pack_HBBBBHI ::
  "int \<Rightarrow> int \<Rightarrow> int \<Rightarrow> int \<Rightarrow> int \<Rightarrow> int \<Rightarrow> int \<Rightarrow> error + byte list" where
  "pack_HBBBBHI a b c d e f g =
     pack [(Fmt_H, a), (Fmt_B, b), (Fmt_B, c), (Fmt_B, d), (Fmt_B, e), (Fmt_H, f), (Fmt_I, g)]"

text \<open>The value of a little-endian unsigned field.\<close>

fun le_uint :: "byte list \<Rightarrow> int" where
  "le_uint [] = 0"
| "le_uint (b # bs) = uint b + 256 * le_uint bs"

text \<open>\<^verbatim>\<open>unpack('<HHBB', header)\<close> of \<^verbatim>\<open>getHWinfo\<close>: the receive-side header.\<close>

definition unpack_HHBB :: "byte list \<Rightarrow> error + (int \<times> int \<times> int \<times> int)" where
  "unpack_HHBB bs =
     (if length bs \<noteq> 6 then Inl StructError
      else Inr (le_uint (take 2 bs), le_uint (take 2 (drop 2 bs)),
                le_uint (take 1 (drop 4 bs)), le_uint (drop 5 bs)))"

text \<open>\<^verbatim>\<open>unpack('<6sHI', ...)\<close> of \<^verbatim>\<open>getPosition\<close> and \<^verbatim>\<open>getEncCounter\<close>.\<close>

definition unpack_6sHI :: "byte list \<Rightarrow> error + (byte list \<times> int \<times> int)" where
  "unpack_6sHI bs =
     (if length bs \<noteq> 12 then Inl StructError
      else Inr (take 6 bs, le_uint (take 2 (drop 6 bs)), le_uint (drop 8 bs)))"

text \<open>\<^verbatim>\<open>unpack('<8sIHHI', msg)\<close> of \<^verbatim>\<open>get_status_Update\<close>.\<close>

definition unpack_8sIHHI :: "byte list \<Rightarrow> error + (byte list \<times> int \<times> int \<times> int \<times> int)" where
  "unpack_8sIHHI bs =
     (if length bs \<noteq> 20 then Inl StructError
      else Inr (take 8 bs, le_uint (take 4 (drop 8 bs)), le_uint (take 2 (drop 12 bs)),
                le_uint (take 2 (drop 14 bs)), le_uint (drop 16 bs)))"

section \<open>Python floats\<close>

text \<open>
  A Python \<^verbatim>\<open>float\<close> is an IEEE 754 binary64 number: a finite double, an infinity or
  a NaN. The finite ones are carried by their real value (the sign of zero is not kept:
  nothing in \<^verbatim>\<open>pyKinesis.py\<close> depends on it). Every arithmetic operation returns
  the exact result rounded to the nearest double, ties to even: \<open>binade x\<close> is the
  exponent of \<open>x\<close>, \<open>ulp x\<close> the spacing of the doubles around \<open>x\<close> (constant below
  \<open>2^-1022\<close>, where the doubles are subnormal), \<open>rne\<close> rounds to the nearest integer
  with ties to even, and a rounded result of magnitude \<open>2^1024\<close> or more overflows to an
  infinity. Python raises no exception when a float product or quotient overflows.
\<close>

datatype pyfloat = Float real | PosInf | NegInf | NaN

definition binade :: "real \<Rightarrow> int" where
  "binade x = \<lfloor>log 2 \<bar>x\<bar>\<rfloor>"

definition ulp :: "real \<Rightarrow> real" where
  "ulp x = 2 powr real_of_int (max (binade x) (- 1022) - 52)"

definition rne :: "real \<Rightarrow> int" where
  "rne y =
     (let f = \<lfloor>y\<rfloor>; d = y - real_of_int f
      in if d < 1 / 2 then f else if 1 / 2 < d then f + 1 else if even f then f else f + 1)"

definition nearest :: "real \<Rightarrow> real" where
  "nearest x = (if x = 0 then 0 else real_of_int (rne (x / ulp x)) * ulp x)"

definition round_double :: "real \<Rightarrow> pyfloat" where
  "round_double x =
     (if 2 powr 1024 \<le> \<bar>nearest x\<bar> then (if 0 < x then PosInf else NegInf)
      else Float (nearest x))"

text \<open>\<^verbatim>\<open>a * b\<close> on two floats.\<close>

fun float_mul :: "pyfloat \<Rightarrow> pyfloat \<Rightarrow> pyfloat" where
  "float_mul (Float a) (Float b) = round_double (a * b)"
| "float_mul NaN b = NaN"
| "float_mul a NaN = NaN"
| "float_mul PosInf (Float b) = (if b = 0 then NaN else if 0 < b then PosInf else NegInf)"
| "float_mul NegInf (Float b) = (if b = 0 then NaN else if 0 < b then NegInf else PosInf)"
| "float_mul (Float a) PosInf = (if a = 0 then NaN else if 0 < a then PosInf else NegInf)"
| "float_mul (Float a) NegInf = (if a = 0 then NaN else if 0 < a then NegInf else PosInf)"
| "float_mul PosInf PosInf = PosInf"
| "float_mul PosInf NegInf = NegInf"
| "float_mul NegInf PosInf = NegInf"
| "float_mul NegInf NegInf = PosInf"

text \<open>
  \<^verbatim>\<open>int(x)\<close> on a float: truncation towards zero; it raises \<^verbatim>\<open>OverflowError\<close> on
  an infinity and \<^verbatim>\<open>ValueError\<close> on a NaN.
\<close>

definition py_trunc :: "real \<Rightarrow> int" where
  "py_trunc x = (if 0 \<le> x then \<lfloor>x\<rfloor> else \<lceil>x\<rceil>)"

fun py_int :: "pyfloat \<Rightarrow> error + int" where
  "py_int (Float x) = Inr (py_trunc x)"
| "py_int PosInf = Inl OverflowError"
| "py_int NegInf = Inl OverflowError"
| "py_int NaN = Inl ValueError"

text \<open>
  \<^verbatim>\<open>k / b\<close> for an integer \<open>k\<close> and a float \<open>b\<close>: the integer is converted to a float
  first (exactly: the integers divided in \<^verbatim>\<open>pyKinesis.py\<close> come out of 16-bit and
  32-bit fields), a zero divisor raises \<^verbatim>\<open>ZeroDivisionError\<close>, and the quotient is
  rounded.
\<close>

fun int_truediv :: "int \<Rightarrow> pyfloat \<Rightarrow> error + pyfloat" where
  "int_truediv k (Float b) =
     (if b = 0 then Inl ZeroDivisionError else Inr (round_double (real_of_int k / b)))"
| "int_truediv k PosInf = Inr (Float 0)"
| "int_truediv k NegInf = Inr (Float 0)"
| "int_truediv k NaN = Inr NaN"

text \<open>The literal \<^verbatim>\<open>204.8\<close>: the double nearest to it.\<close>

definition float_204_8 :: pyfloat where
  "float_204_8 = Float (3602879701896397 / 2 ^ 44)"

section \<open>The serial connection (pyserial) as seen by pyKinesis.py\<close>

text \<open>
  The connection object is external to the repository. The model keeps what the claims
  speak about: whether the port is open, the chunks that the successive \<^verbatim>\<open>read\<close>
  calls will return (chosen by the device and by timing; once they are used up every
  further \<^verbatim>\<open>read\<close> times out and returns the empty byte string), and the trace of
  all calls made on the connection so far. A \<^verbatim>\<open>read(n)\<close> returns at most \<open>n\<close>
  bytes. As in pyserial, \<^verbatim>\<open>write\<close>, \<^verbatim>\<open>read\<close> and the two buffer resets raise
  when the port is not open. \<^verbatim>\<open>time.sleep\<close> has no effect on the trace and is left
  out.
\<close>

datatype event =
    Write "byte list"
  | Read nat "byte list"
  | Reset_Input
  | Reset_Output
  | Close
  | Open

record serial_port =
  is_open :: bool
  incoming :: "byte list list"
  trace :: "event list"

text \<open>
  A call either returns a value or raises, and in both cases leaves a state behind:
  the result pairs an \<open>error + 'a\<close> with the state reached.
\<close>

type_synonym ('s, 'a) io = "'s \<Rightarrow> (error + 'a) \<times> 's"

definition io_return :: "'a \<Rightarrow> ('s, 'a) io" where
  "io_return x = (\<lambda>s. (Inr x, s))"

definition io_raise :: "error \<Rightarrow> ('s, 'a) io" where
  "io_raise e = (\<lambda>s. (Inl e, s))"

definition io_lift :: "error + 'a \<Rightarrow> ('s, 'a) io" where
  "io_lift r = (\<lambda>s. (r, s))"

definition io_bind :: "('s, 'a) io \<Rightarrow> ('a \<Rightarrow> ('s, 'b) io) \<Rightarrow> ('s, 'b) io" where
  "io_bind m f = (\<lambda>s. case m s of (Inl e, s') \<Rightarrow> (Inl e, s') | (Inr x, s') \<Rightarrow> f x s')"

definition io_then :: "('s, 'a) io \<Rightarrow> ('s, 'b) io \<Rightarrow> ('s, 'b) io" where
  "io_then m n = io_bind m (\<lambda>_. n)"

definition record_event :: "event \<Rightarrow> serial_port \<Rightarrow> serial_port" where
  "record_event e sp = sp\<lparr>trace := trace sp @ [e]\<rparr>"

definition port_write :: "byte list \<Rightarrow> (serial_port, unit) io" where
  "port_write msg sp =
     (if is_open sp then (Inr (), record_event (Write msg) sp) else (Inl PortNotOpenError, sp))"

definition port_read :: "nat \<Rightarrow> (serial_port, byte list) io" where
  "port_read n sp =
     (if is_open sp then
        (case incoming sp of
           [] \<Rightarrow> (Inr [], record_event (Read n []) sp)
         | c # cs \<Rightarrow> (Inr (take n c), record_event (Read n (take n c)) (sp\<lparr>incoming := cs\<rparr>)))
      else (Inl PortNotOpenError, sp))"

definition reset_input_buffer :: "(serial_port, unit) io" where
  "reset_input_buffer sp =
     (if is_open sp then (Inr (), record_event Reset_Input sp) else (Inl PortNotOpenError, sp))"

definition reset_output_buffer :: "(serial_port, unit) io" where
  "reset_output_buffer sp =
     (if is_open sp then (Inr (), record_event Reset_Output sp) else (Inl PortNotOpenError, sp))"

definition port_close :: "(serial_port, unit) io" where
  "port_close sp = (Inr (), if is_open sp then record_event Close (sp\<lparr>is_open := False\<rparr>) else sp)"

definition port_open :: "(serial_port, unit) io" where
  "port_open sp =
     (if is_open sp then (Inl SerialException, sp)
      else (Inr (), record_event Open (sp\<lparr>is_open := True\<rparr>)))"

section \<open>Device discovery: \<^verbatim>\<open>getDestination\<close>\<close>

text \<open>\<^verbatim>\<open>flushInput\<close> and \<^verbatim>\<open>flushOutput\<close> are pyserial's older names of the two resets.\<close>

definition getDestination :: "(serial_port, int) io" where
  "getDestination =
     (let dest = 0x50 in
      io_bind (io_lift (pack_HBBBB 0x0005 0x00 0x00 dest 0x01)) (\<lambda>msg.
      io_then (port_write msg) (
      io_bind (port_read 90) (\<lambda>rx.
      io_then reset_input_buffer (
      io_then reset_output_buffer (
      if length rx > 0 then io_return 0x50 else io_return 0x11))))))"

text \<open>
  \<^verbatim>\<open>getHWinfo(serial, destination)\<close>: the same request, then the 6-byte header, then as
  many payload bytes as the header's second word says, unpacked with
  \<^verbatim>\<open><I8sHI48s12xHHH\<close> (84 bytes); the serial number, the model and the number of
  channels are returned.
\<close>

definition unpack_hwinfo :: "byte list \<Rightarrow> error + (int \<times> byte list \<times> int)" where
  "unpack_hwinfo bs =
     (if length bs \<noteq> 84 then Inl StructError
      else Inr (le_uint (take 4 bs), take 8 (drop 4 bs), le_uint (take 2 (drop 82 bs))))"

definition getHWinfo :: "int \<Rightarrow> (serial_port, int \<times> byte list \<times> int) io" where
  "getHWinfo destination =
     io_bind (io_lift (pack_HBBBB 0x0005 0x00 0x00 destination 0x01)) (\<lambda>msg.
     io_then (port_write msg) (
     io_bind (port_read 6) (\<lambda>header.
     io_bind (io_lift (unpack_HHBB header)) (\<lambda>(msgid, length_word, destOR, source).
     io_bind (port_read (nat length_word)) (\<lambda>data.
     io_lift (unpack_hwinfo data))))))"

section \<open>The controller session: class \<^verbatim>\<open>ThorController\<close>\<close>

text \<open>
  The attributes set by \<^verbatim>\<open>__init__\<close>. \<^verbatim>\<open>Serial_Port\<close> is \<open>None\<close> on an object
  whose constructor never assigned the attribute. The scale factors are floats, as in
  the docstring's examples.
\<close>

record ThorController =
  Controller_Type :: string
  port :: string
  posScaleFactor :: pyfloat
  velScaleFactor :: pyfloat
  accScaleFactor :: pyfloat
  source_byte :: int
  Serial_Port :: "serial_port option"

text \<open>\<^verbatim>\<open>str.lower\<close> on the ASCII letters (other characters are left as they are).\<close>

definition lower_char :: "char \<Rightarrow> char" where
  "lower_char c =
     (case map_of (zip ''ABCDEFGHIJKLMNOPQRSTUVWXYZ'' ''abcdefghijklmnopqrstuvwxyz'') c of
        None \<Rightarrow> c | Some d \<Rightarrow> d)"

definition lower :: "string \<Rightarrow> string" where
  "lower s = map lower_char s"

definition Controller_Types :: "string list" where
  "Controller_Types = [''cube'', ''benchtop'']"

text \<open>
  What a call of the constructor leaves behind: the object or the exception raised,
  the ports on which \<^verbatim>\<open>serial.Serial(...)\<close> was called, and the lines printed.
\<close>

record construction =
  outcome :: "error + ThorController"
  open_attempts :: "string list"
  printed :: "string list"

definition port_error_message :: "string \<Rightarrow> string" where
  "port_error_message p =
     ''Port Error: Unable to connect to '' @ [CHR 0x27] @ p @ [CHR 0x27] @
     ''. Device may already be in use.''"

text \<open>
  \<^verbatim>\<open>__init__(self, PORT, Scale_Factors, Controller_Type)\<close>. The first argument of the
  model is the environment: what \<^verbatim>\<open>serial.Serial(port = ..., ...)\<close> does on a port
  name, either raising or returning an open connection. The three-way unpacking of
  \<^verbatim>\<open>Scale_Factors[:]\<close> raises \<^verbatim>\<open>ValueError\<close> on a list of another length.
\<close>

definition init ::
  "(string \<Rightarrow> error + serial_port) \<Rightarrow> string \<Rightarrow> pyfloat list \<Rightarrow> string \<Rightarrow> construction" where
  "init serial_Serial PORT Scale_Factors Controller_Type_arg =
     (let ct = lower Controller_Type_arg in
      if ct \<notin> set Controller_Types
      then \<lparr>outcome = Inl (Exception ''Error: Invalid Controller Type''),
            open_attempts = [], printed = []\<rparr>
      else
        (case Scale_Factors of
           [p, v, a] \<Rightarrow>
             (let self = \<lparr>Controller_Type = ct, port = PORT, posScaleFactor = p,
                          velScaleFactor = v, accScaleFactor = a, source_byte = 0x01,
                          Serial_Port = None\<rparr>
              in case serial_Serial PORT of
                   Inr sp \<Rightarrow> \<lparr>outcome = Inr (self\<lparr>Serial_Port := Some sp\<rparr>),
                              open_attempts = [PORT], printed = []\<rparr>
                 | Inl e \<Rightarrow> \<lparr>outcome = Inr self, open_attempts = [PORT],
                             printed = [port_error_message PORT]\<rparr>)
         | _ \<Rightarrow> \<lparr>outcome = Inl ValueError, open_attempts = [], printed = []\<rparr>))"

definition get_destination_byte :: "ThorController \<Rightarrow> int \<Rightarrow> int" where
  "get_destination_byte self channel_num =
     (if Controller_Type self = ''benchtop'' then 0x20 + channel_num else 0x50)"

text \<open>
  A method call \<^verbatim>\<open>self.Serial_Port.m(...)\<close> first looks the attribute up, which raises
  \<^verbatim>\<open>AttributeError\<close> when it was never set, then evaluates the arguments (a
  \<^verbatim>\<open>pack\<close> that may raise), then calls the method.
\<close>

definition Serial_Port_call :: "(serial_port, 'a) io \<Rightarrow> (ThorController, 'a) io" where
  "Serial_Port_call f self =
     (case Serial_Port self of
        None \<Rightarrow> (Inl AttributeError, self)
      | Some sp \<Rightarrow> (case f sp of (r, sp') \<Rightarrow> (r, self\<lparr>Serial_Port := Some sp'\<rparr>)))"

definition Serial_Port_write :: "error + byte list \<Rightarrow> (ThorController, unit) io" where
  "Serial_Port_write packed self =
     (case Serial_Port self of
        None \<Rightarrow> (Inl AttributeError, self)
      | Some sp \<Rightarrow>
          (case packed of
             Inl e \<Rightarrow> (Inl e, self)
           | Inr msg \<Rightarrow> Serial_Port_call (port_write msg) self))"

definition Close_Port :: "(ThorController, unit) io" where
  "Close_Port = Serial_Port_call port_close"

definition Open_Port :: "(ThorController, unit) io" where
  "Open_Port = Serial_Port_call port_open"

definition Flush_Buffers :: "(ThorController, unit) io" where
  "Flush_Buffers =
     io_then (Serial_Port_call reset_input_buffer) (Serial_Port_call reset_output_buffer)"

definition Stay_Alive :: "int \<Rightarrow> (ThorController, unit) io" where
  "Stay_Alive channel_num self =
     Serial_Port_write
       (pack_HBBBB 0x0492 0x00 0x00 (get_destination_byte self channel_num) (source_byte self))
       self"

definition Initialize :: "int \<Rightarrow> (ThorController, unit) io" where
  "Initialize channel_num self =
     (io_then (Serial_Port_write
        (pack_HBBBB 0x0005 0x00 0x00 (get_destination_byte self channel_num) (source_byte self))) (
      io_then (Serial_Port_call reset_input_buffer) (
      io_then (Serial_Port_call reset_output_buffer) (
      io_then (Serial_Port_write
        (pack_HBBBB 0x0018 0x00 0x00 (get_destination_byte self channel_num) (source_byte self)))
      Flush_Buffers)))) self"

definition Identify :: "int \<Rightarrow> (ThorController, unit) io" where
  "Identify channel_num self =
     (io_then
        (if Controller_Type self = ''cube''
         then Serial_Port_write (pack_HBBBB 0x0223 0x01 0x00 0x50 (source_byte self))
         else if Controller_Type self = ''benchtop''
         then Serial_Port_write (pack_HBBBB 0x0223 channel_num 0x00 0x11 (source_byte self))
         else io_return ()) (
      io_then (Stay_Alive channel_num)
      Flush_Buffers)) self"

definition Enable_Channel :: "int \<Rightarrow> (ThorController, unit) io" where
  "Enable_Channel channel_num self =
     (let Enable = 0x01 in
      io_then (Serial_Port_write
        (pack_HBBBB 0x0210 0x01 Enable (get_destination_byte self channel_num) (source_byte self))) (
      io_then Flush_Buffers (
      io_then (Stay_Alive channel_num) (
      if Controller_Type self = ''benchtop'' then
        io_then (Serial_Port_write
          (pack_HBBBB 0x0210 0x01 Enable (get_destination_byte self channel_num) (source_byte self))) (
        io_then Flush_Buffers
        (Stay_Alive channel_num))
      else io_return ())))) self"

definition Disable_Channel :: "int \<Rightarrow> (ThorController, unit) io" where
  "Disable_Channel channel_num self =
     (let Disable = 0x02 in
      io_then (Serial_Port_write
        (pack_HBBBB 0x0210 channel_num Disable (get_destination_byte self channel_num) (source_byte self))) (
      io_then Flush_Buffers (
      io_then (Stay_Alive channel_num) (
      if Controller_Type self = ''benchtop'' then
        io_then (Serial_Port_write
          (pack_HBBBB 0x0210 0x01 Disable (get_destination_byte self channel_num) (source_byte self))) (
        io_then Flush_Buffers
        (Stay_Alive channel_num))
      else io_return ())))) self"

text \<open>
  The blocking wait of \<^verbatim>\<open>Home\<close> and \<^verbatim>\<open>Move_Absolute\<close>:
  \<^verbatim>\<open>while Rx != code: Rx = self.Serial_Port.read(2)\<close>. The loop has no bound; a run
  that never leaves it has the value \<open>None\<close>.
\<close>

partial_function (option) wait_loop ::
  "byte list \<Rightarrow> byte list \<Rightarrow> ThorController \<Rightarrow> ((error + unit) \<times> ThorController) option" where
  "wait_loop code Rx self =
     (if Rx \<noteq> code then
        (case Serial_Port_call (port_read 2) self of
           (Inl e, self') \<Rightarrow> Some (Inl e, self')
         | (Inr Rx', self') \<Rightarrow> wait_loop code Rx' self')
      else Some (Inr (), self))"

text \<open>
  \<^verbatim>\<open>Rx = ''\<close> before the loop: the empty string differs from every packed code, so
  the loop body runs at least once; the model starts from the empty byte list.
\<close>

definition wait_for :: "int \<Rightarrow> ThorController \<Rightarrow> ((error + unit) \<times> ThorController) option" where
  "wait_for code self =
     (case pack [(Fmt_H, code)] of
        Inl e \<Rightarrow> Some (Inl e, self)
      | Inr bs \<Rightarrow> wait_loop bs [] self)"

definition Home :: "int \<Rightarrow> bool \<Rightarrow> ThorController \<Rightarrow> ((error + unit) \<times> ThorController) option" where
  "Home channel_num wait self =
     (case Serial_Port_write
             (pack_HBBBB 0x0443 0x01 0x00 (get_destination_byte self channel_num) (source_byte self))
             self of
        (Inl e, s1) \<Rightarrow> Some (Inl e, s1)
      | (Inr u, s1) \<Rightarrow>
          (case (if wait then wait_for 0x0444 s1 else Some (Inr (), s1)) of
             None \<Rightarrow> None
           | Some (Inl e, s2) \<Rightarrow> Some (Inl e, s2)
           | Some (Inr u, s2) \<Rightarrow> Some (io_then Flush_Buffers (Stay_Alive channel_num) s2)))"

text \<open>
  \<^verbatim>\<open>Move_Absolute\<close>. The position is a float. The first statement,
  \<^verbatim>\<open>dUnitpos = int(self.posScaleFactor*Position)\<close>, rounds the product to a double
  and truncates it; on an infinite or NaN product it raises, before the connection is
  looked up.
\<close>

definition Move_Absolute ::
  "pyfloat \<Rightarrow> int \<Rightarrow> bool \<Rightarrow> ThorController \<Rightarrow> ((error + unit) \<times> ThorController) option" where
  "Move_Absolute Position channel_num wait self =
     (case py_int (float_mul (posScaleFactor self) Position) of
        Inl e \<Rightarrow> Some (Inl e, self)
      | Inr dUnitpos \<Rightarrow>
          (case Serial_Port_write
                  (pack_HBBBBHI 0x0453 0x06 0x00 (get_destination_byte self channel_num OR 0x80)
                     (source_byte self) 0x01 dUnitpos)
                  self of
             (Inl e, s1) \<Rightarrow> Some (Inl e, s1)
           | (Inr u, s1) \<Rightarrow>
               (case (if wait then wait_for 0x0464 s1 else Some (Inr (), s1)) of
                  None \<Rightarrow> None
                | Some (Inl e, s2) \<Rightarrow> Some (Inl e, s2)
                | Some (Inr u, s2) \<Rightarrow> Some (io_then Flush_Buffers (Stay_Alive channel_num) s2))))"

text \<open>
  \<^verbatim>\<open>getPosition\<close> returns \<^verbatim>\<open>position_dUnits/float(self.posScaleFactor)\<close>: the
  scale factor is a float already, and the quotient is rounded to a double.
\<close>

definition getPosition :: "int \<Rightarrow> (ThorController, pyfloat) io" where
  "getPosition channel_num self =
     (io_then Flush_Buffers (
      io_then (Serial_Port_write
        (pack_HBBBB 0x0411 0x01 0x00 (get_destination_byte self channel_num) (source_byte self))) (
      io_bind (Serial_Port_call (port_read 12)) (\<lambda>rx.
      io_bind (io_lift (unpack_6sHI rx)) (\<lambda>(header, chan_dent, position_dUnits).
      io_then (Stay_Alive channel_num) (
      io_then Flush_Buffers (
      io_lift (int_truediv position_dUnits (posScaleFactor self))))))))) self"

definition get_status_Update :: "int \<Rightarrow> (ThorController, pyfloat \<times> pyfloat) io" where
  "get_status_Update channel_num self =
     (io_then Flush_Buffers (
      io_then (Serial_Port_write
        (pack_HBBBB 0x0490 0x01 0x00 (get_destination_byte self channel_num) (source_byte self))) (
      io_bind (Serial_Port_call (port_read 20)) (\<lambda>msg.
      io_bind (io_lift (unpack_8sIHHI msg)) (\<lambda>(unused, positionDU, velocityDU, reserved, status_bits).
      io_then Flush_Buffers (
      io_then (Stay_Alive channel_num) (
      io_bind (io_lift (int_truediv positionDU (posScaleFactor self))) (\<lambda>pos.
      io_bind (io_lift (int_truediv velocityDU float_204_8)) (\<lambda>vel.
      io_return (pos, vel)))))))))) self"

definition getEncCounter :: "int \<Rightarrow> (ThorController, pyfloat) io" where
  "getEncCounter channel_num self =
     (io_then Flush_Buffers (
      io_then (Serial_Port_write
        (pack_HBBBB 0x040A 0x01 0x00 (get_destination_byte self channel_num) (source_byte self))) (
      io_bind (Serial_Port_call (port_read 12)) (\<lambda>rx.
      io_bind (io_lift (unpack_6sHI rx)) (\<lambda>(header, chan_dent, EncCount).
      io_then (Stay_Alive channel_num) (
      io_then Flush_Buffers (
      io_lift (int_truediv EncCount (posScaleFactor self))))))))) self"

section \<open>Sequences of public operations and the keep-alive count\<close>

text \<open>
  A caller's script is a list of calls of the public operations. A call that raises ends
  the script with that exception; the values returned by the queries are dropped.
\<close>

datatype operation =
    Op_Initialize int
  | Op_Identify int
  | Op_Enable_Channel int
  | Op_Disable_Channel int
  | Op_Home int bool
  | Op_Move_Absolute pyfloat int bool
  | Op_getPosition int
  | Op_get_status_Update int
  | Op_getEncCounter int
  | Op_Stay_Alive int

definition discard :: "('s, 'a) io \<Rightarrow> 's \<Rightarrow> ((error + unit) \<times> 's) option" where
  "discard m s = Some (io_then m (io_return ()) s)"

fun perform :: "operation \<Rightarrow> ThorController \<Rightarrow> ((error + unit) \<times> ThorController) option" where
  "perform (Op_Initialize c) self = discard (Initialize c) self"
| "perform (Op_Identify c) self = discard (Identify c) self"
| "perform (Op_Enable_Channel c) self = discard (Enable_Channel c) self"
| "perform (Op_Disable_Channel c) self = discard (Disable_Channel c) self"
| "perform (Op_Home c w) self = Home c w self"
| "perform (Op_Move_Absolute p c w) self = Move_Absolute p c w self"
| "perform (Op_getPosition c) self = discard (getPosition c) self"
| "perform (Op_get_status_Update c) self = discard (get_status_Update c) self"
| "perform (Op_getEncCounter c) self = discard (getEncCounter c) self"
| "perform (Op_Stay_Alive c) self = discard (Stay_Alive c) self"

fun run_ops :: "operation list \<Rightarrow> ThorController \<Rightarrow> ((error + unit) \<times> ThorController) option" where
  "run_ops [] self = Some (Inr (), self)"
| "run_ops (x # xs) self =
     (case perform x self of
        None \<Rightarrow> None
      | Some (Inl e, self') \<Rightarrow> Some (Inl e, self')
      | Some (Inr u, self') \<Rightarrow> run_ops xs self')"

text \<open>How many calls of \<^verbatim>\<open>Initialize\<close> a script makes.\<close>

fun is_Initialize :: "operation \<Rightarrow> bool" where
  "is_Initialize (Op_Initialize c) = True"
| "is_Initialize _ = False"

definition initializations :: "operation list \<Rightarrow> nat" where
  "initializations ops = length (filter is_Initialize ops)"

text \<open>
  The number of protocol commands written since the last keep-alive message (id
  \<open>0x0492\<close>, first two bytes \<open>0x92 0x04\<close>), read off the trace of the connection.
\<close>

definition is_keep_alive :: "byte list \<Rightarrow> bool" where
  "is_keep_alive msg = (take 2 msg = [0x92, 0x04])"

fun tick :: "event \<Rightarrow> nat \<Rightarrow> nat" where
  "tick (Write msg) c = (if is_keep_alive msg then 0 else Suc c)"
| "tick _ c = c"

definition since_keep_alive :: "nat \<Rightarrow> event list \<Rightarrow> nat" where
  "since_keep_alive c evs = fold tick evs c"

text \<open>The largest value the count takes while the events happen, starting from \<open>c\<close>.\<close>

fun peak :: "nat \<Rightarrow> event list \<Rightarrow> nat" where
  "peak c [] = c"
| "peak c (e # es) = max c (peak (tick e c) es)"

definition the_trace :: "ThorController \<Rightarrow> event list" where
  "the_trace self = (case Serial_Port self of None \<Rightarrow> [] | Some sp \<Rightarrow> trace sp)"

section \<open>Notions used in the statements\<close>

text \<open>What \<^verbatim>\<open>__init__\<close> establishes on every object it returns.\<close>

definition constructed :: "ThorController \<Rightarrow> bool" where
  "constructed self \<longleftrightarrow> Controller_Type self \<in> set Controller_Types \<and> source_byte self = 0x01"

text \<open>
  \<open>advanced self evs self'\<close>: the object \<open>self'\<close> is \<open>self\<close> after the calls \<open>evs\<close>
  on its connection, which is open before and after.
\<close>

definition advanced :: "ThorController \<Rightarrow> event list \<Rightarrow> ThorController \<Rightarrow> bool" where
  "advanced self evs self' \<longleftrightarrow>
     (case Serial_Port self of
        None \<Rightarrow> False
      | Some sp \<Rightarrow>
          (case Serial_Port self' of
             None \<Rightarrow> False
           | Some sp' \<Rightarrow> is_open sp \<and> is_open sp' \<and> trace sp' = trace sp @ evs \<and>
                         self' = self\<lparr>Serial_Port := Some sp'\<rparr>))"

fun is_read :: "event \<Rightarrow> bool" where
  "is_read (Read n bs) = True"
| "is_read _ = False"

text \<open>
  What \<^verbatim>\<open>Move_Absolute\<close> does after it has written its message (lines 313 to 325):
  the optional wait for the move-completed code, the flush and the keep-alive.
\<close>

definition Move_Absolute_after_write ::
  "int \<Rightarrow> bool \<Rightarrow> ThorController \<Rightarrow> ((error + unit) \<times> ThorController) option" where
  "Move_Absolute_after_write channel_num wait s1 =
     (case (if wait then wait_for 0x0464 s1 else Some (Inr (), s1)) of
        None \<Rightarrow> None
      | Some (Inl e, s2) \<Rightarrow> Some (Inl e, s2)
      | Some (Inr u, s2) \<Rightarrow> Some (io_then Flush_Buffers (Stay_Alive channel_num) s2))"

text \<open>The bytes that the next \<^verbatim>\<open>read(n)\<close> on the connection returns.\<close>

definition next_read :: "nat \<Rightarrow> serial_port \<Rightarrow> byte list" where
  "next_read n sp = (case incoming sp of [] \<Rightarrow> [] | c # cs \<Rightarrow> take n c)"

text \<open>
  The session of the docstring's cube example (\<^verbatim>\<open>KBD101 = ThorController('COM14',
  [2000., 13421.77, 1.374])\<close>) and of its benchtop example, on a connection that has just
  been opened and on which the device stays silent. The scale factors \<^verbatim>\<open>13421.77\<close>
  and \<^verbatim>\<open>1.374\<close> are the doubles nearest to these decimals.
\<close>

definition KBD101_scale_factors :: "pyfloat list" where
  "KBD101_scale_factors =
     [Float 2000, Float (3689348045083771 / 2 ^ 38), Float (3093972944003531 / 2 ^ 51)]"

definition BSC202_scale_factors :: "pyfloat list" where
  "BSC202_scale_factors = [Float 409600, Float 21987328, Float 4506]"

definition fresh_port :: serial_port where
  "fresh_port = \<lparr>is_open = True, incoming = [], trace = []\<rparr>"

definition KBD101 :: ThorController where
  "KBD101 = \<lparr>Controller_Type = ''cube'', port = ''COM14'', posScaleFactor = Float 2000,
              velScaleFactor = Float (3689348045083771 / 2 ^ 38),
              accScaleFactor = Float (3093972944003531 / 2 ^ 51), source_byte = 0x01,
              Serial_Port = Some fresh_port\<rparr>"

definition BSC202 :: ThorController where
  "BSC202 = \<lparr>Controller_Type = ''benchtop'', port = ''COM14'', posScaleFactor = Float 409600,
              velScaleFactor = Float 21987328, accScaleFactor = Float 4506, source_byte = 0x01,
              Serial_Port = Some fresh_port\<rparr>"

section \<open>Rounding to the nearest double\<close>

lemma rne_ge: "real_of_int A \<le> y \<Longrightarrow> A \<le> rne y"
proof -
  assume "real_of_int A \<le> y"
  then have "A \<le> \<lfloor>y\<rfloor>" by (simp add: le_floor_iff)
  then show ?thesis by (simp add: rne_def Let_def)
qed

lemma rne_le: "y \<le> real_of_int B \<Longrightarrow> rne y \<le> B"
proof (cases "y = real_of_int \<lfloor>y\<rfloor>")
  case True
  assume "y \<le> real_of_int B"
  then have "\<lfloor>y\<rfloor> \<le> B" by (simp add: floor_le_iff)
  moreover have "rne y = \<lfloor>y\<rfloor>" using True by (simp add: rne_def Let_def)
  ultimately show ?thesis by simp
next
  case False
  assume b: "y \<le> real_of_int B"
  have "real_of_int \<lfloor>y\<rfloor> < y" using False of_int_floor_le [of y] by linarith
  with b have "real_of_int \<lfloor>y\<rfloor> < real_of_int B" by linarith
  then have "\<lfloor>y\<rfloor> + 1 \<le> B" by simp
  moreover have "rne y \<le> \<lfloor>y\<rfloor> + 1" by (simp add: rne_def Let_def)
  ultimately show ?thesis by simp
qed

lemma rne_of_int: "rne (real_of_int A) = A"
  by (simp add: rne_def)

lemma binade_le:
  assumes "x \<noteq> 0" "\<bar>x\<bar> < 2 ^ n"
  shows "binade x < int n"
proof -
  have "log 2 \<bar>x\<bar> < real n"
    using assms by (subst log_less_iff) (simp_all add: powr_realpow)
  then show ?thesis unfolding binade_def by (simp add: floor_less_iff)
qed

lemma binade_ge:
  assumes "2 ^ n \<le> \<bar>x\<bar>"
  shows "int n \<le> binade x"
proof -
  have "0 < \<bar>x\<bar>" using assms by (smt (verit) zero_less_power)
  then have "real n \<le> log 2 \<bar>x\<bar>"
    using assms by (subst le_log_iff) (simp_all add: powr_realpow)
  then show ?thesis unfolding binade_def by (simp add: le_floor_iff)
qed

lemma powr_binade_le:
  assumes "x \<noteq> 0"
  shows "2 powr real_of_int (binade x) \<le> \<bar>x\<bar>"
proof -
  have "real_of_int (binade x) \<le> log 2 \<bar>x\<bar>" unfolding binade_def by simp
  then show ?thesis using assms by (subst (asm) le_log_iff) simp_all
qed

text \<open>Below \<open>2^53\<close> the spacing of the doubles is \<open>1 / 2^m\<close> for a natural \<open>m\<close>.\<close>

lemma ulp_small:
  assumes "x \<noteq> 0" "\<bar>x\<bar> < 2 ^ 53"
  shows "\<exists>m. ulp x = 1 / 2 ^ m"
proof -
  let ?j = "max (binade x) (- 1022) - 52"
  have "binade x < 53" using binade_le [OF assms] by simp
  then have j: "?j \<le> 0" by simp
  have "2 powr real_of_int ?j = 1 / 2 ^ nat (- ?j)"
  proof (cases "?j = 0")
    case True
    then show ?thesis by simp
  next
    case False
    with j have "?j < 0" by simp
    then show ?thesis by (simp add: powr_real_of_int inverse_eq_divide del: of_int_diff)
  qed
  then show ?thesis unfolding ulp_def by blast
qed

lemma nearest_between:
  assumes "\<bar>x\<bar> < 2 ^ 53" "real_of_int A \<le> x" "x \<le> real_of_int B"
  shows "real_of_int A \<le> nearest x \<and> nearest x \<le> real_of_int B"
proof (cases "x = 0")
  case True
  with assms show ?thesis by (simp add: nearest_def)
next
  case False
  from ulp_small [OF False assms(1)] obtain m where u: "ulp x = 1 / 2 ^ m" by blast
  have n: "nearest x = real_of_int (rne (x * 2 ^ m)) / 2 ^ m"
    using False by (simp add: nearest_def u)
  have "real_of_int (A * 2 ^ m) \<le> x * 2 ^ m" using assms(2) by simp
  then have a: "A * 2 ^ m \<le> rne (x * 2 ^ m)" by (rule rne_ge)
  have "x * 2 ^ m \<le> real_of_int (B * 2 ^ m)" using assms(3) by simp
  then have b: "rne (x * 2 ^ m) \<le> B * 2 ^ m" by (rule rne_le)
  have "real_of_int (A * 2 ^ m) \<le> real_of_int (rne (x * 2 ^ m))" using a by (simp only: of_int_le_iff)
  then have a': "real_of_int A \<le> nearest x" unfolding n by (simp add: field_simps)
  have "real_of_int (rne (x * 2 ^ m)) \<le> real_of_int (B * 2 ^ m)" using b by (simp only: of_int_le_iff)
  then have b': "nearest x \<le> real_of_int B" unfolding n by (simp add: field_simps)
  from a' b' show ?thesis ..
qed

lemma nearest_binade:
  assumes "53 \<le> binade x" and nz: "x \<noteq> 0"
  shows "2 powr real_of_int (binade x) \<le> \<bar>nearest x\<bar>"
proof -
  have j: "max (binade x) (- 1022) - 52 = binade x - 52" using assms by simp
  define u where "u = ulp x"
  have u: "u = 2 powr real_of_int (binade x - 52)" unfolding u_def ulp_def j ..
  have up: "0 < u" unfolding u by simp
  have "2 powr real_of_int (binade x) = 2 powr (52 + real_of_int (binade x - 52))" by simp
  also have "\<dots> = 2 powr 52 * u" unfolding u by (rule powr_add)
  also have "(2::real) powr 52 = 2 ^ 52" by simp
  finally have e: "2 powr real_of_int (binade x) = 2 ^ 52 * u" .
  then have "2 ^ 52 * u \<le> \<bar>x\<bar>" using powr_binade_le [OF nz] by simp
  then have y: "2 ^ 52 \<le> \<bar>x\<bar> / u" using up by (simp add: field_simps)
  have "2 ^ 52 \<le> \<bar>real_of_int (rne (x / u))\<bar>"
  proof (cases "0 \<le> x")
    case True
    with y have "real_of_int (2 ^ 52) \<le> x / u" by simp
    then have "2 ^ 52 \<le> rne (x / u)" by (rule rne_ge)
    then have "real_of_int (2 ^ 52) \<le> real_of_int (rne (x / u))" by (simp only: of_int_le_iff)
    then have "(2 ^ 52 :: real) \<le> real_of_int (rne (x / u))" by simp
    then show ?thesis by simp
  next
    case False
    with y have "x / u \<le> real_of_int (- (2 ^ 52))" by simp
    then have "rne (x / u) \<le> - (2 ^ 52)" by (rule rne_le)
    then have "real_of_int (rne (x / u)) \<le> real_of_int (- (2 ^ 52))" by (simp only: of_int_le_iff)
    then have "real_of_int (rne (x / u)) \<le> - (2 ^ 52 :: real)" by simp
    then show ?thesis by simp
  qed
  then have "2 ^ 52 * u \<le> \<bar>real_of_int (rne (x / u))\<bar> * u"
    using up by (intro mult_right_mono) simp_all
  moreover have "\<bar>nearest x\<bar> = \<bar>real_of_int (rne (x / u))\<bar> * u"
    using nz up by (simp add: nearest_def u_def [symmetric] abs_mult)
  ultimately show ?thesis unfolding e by simp
qed

lemma nearest_large:
  assumes "2 ^ n \<le> \<bar>x\<bar>" "53 \<le> n"
  shows "2 ^ n \<le> \<bar>nearest x\<bar>"
proof -
  have b: "int n \<le> binade x" by (rule binade_ge [OF assms(1)])
  then have "53 \<le> binade x" using assms(2) by simp
  moreover have "x \<noteq> 0"
  proof
    assume "x = 0"
    with assms(1) have "(2::real) ^ n \<le> 0" by simp
    moreover have "0 < (2::real) ^ n" by simp
    ultimately show False by linarith
  qed
  ultimately have "2 powr real_of_int (binade x) \<le> \<bar>nearest x\<bar>" by (rule nearest_binade)
  moreover have "2 powr real n \<le> 2 powr real_of_int (binade x)"
    using b by (intro powr_mono) simp_all
  moreover have "2 powr real n = (2::real) ^ n" by (simp add: powr_realpow)
  ultimately show ?thesis by simp
qed

lemma round_double_small:
  assumes "\<bar>x\<bar> < 2 ^ 53"
  shows "round_double x = Float (nearest x)"
proof -
  have "real_of_int (- (2 ^ 53)) \<le> x" "x \<le> real_of_int (2 ^ 53)" using assms by simp_all
  from nearest_between [OF assms this] have "\<bar>nearest x\<bar> \<le> 2 ^ 53" by (auto simp: abs_if)
  moreover have "(2::real) ^ 53 < 2 ^ 1024" by (rule power_strict_increasing) simp_all
  moreover have "(2::real) powr 1024 = 2 ^ 1024"
    using powr_realpow [of "2::real" 1024] by simp
  ultimately have "\<not> 2 powr 1024 \<le> \<bar>nearest x\<bar>" by linarith
  then show ?thesis by (simp add: round_double_def)
qed

lemma round_double_huge:
  assumes "2 ^ 1024 \<le> \<bar>x\<bar>"
  shows "round_double x = (if 0 < x then PosInf else NegInf)"
proof -
  have "2 ^ 1024 \<le> \<bar>nearest x\<bar>" by (rule nearest_large [OF assms]) simp
  moreover have "(2::real) powr 1024 = 2 ^ 1024"
    using powr_realpow [of "2::real" 1024] by simp
  ultimately show ?thesis by (simp add: round_double_def)
qed

lemma nearest_of_int:
  assumes "\<bar>n\<bar> < 2 ^ 53"
  shows "nearest (real_of_int n) = real_of_int n"
proof -
  have "real_of_int \<bar>n\<bar> < real_of_int (2 ^ 53)" using assms by (simp only: of_int_less_iff)
  then have "\<bar>real_of_int n\<bar> < 2 ^ 53" by simp
  from nearest_between [OF this, of n n] show ?thesis by simp
qed

text \<open>
  Truncating the rounded value: when the result lies in the unsigned 32-bit range it is
  less than one away from the exact value.
\<close>

lemma trunc_nearest_error:
  assumes "0 \<le> py_trunc (nearest x)" "py_trunc (nearest x) < 2 ^ 32"
  shows "\<bar>real_of_int (py_trunc (nearest x)) - x\<bar> < 1"
proof -
  define y where "y = nearest x"
  have ylo: "- 1 < y"
  proof (rule ccontr)
    assume "\<not> - 1 < y"
    then have "y \<le> - 1" by simp
    then have "\<lceil>y\<rceil> \<le> - 1" by (simp add: ceiling_le_iff)
    with \<open>y \<le> - 1\<close> have "py_trunc y < 0" by (simp add: py_trunc_def)
    with assms(1) show False unfolding y_def by simp
  qed
  have yhi: "y < 2 ^ 32"
  proof (rule ccontr)
    assume "\<not> y < 2 ^ 32"
    then have h: "real_of_int (2 ^ 32) \<le> y" by simp
    then have "2 ^ 32 \<le> \<lfloor>y\<rfloor>" by (simp only: le_floor_iff)
    moreover have "0 \<le> y" using h by simp
    ultimately have "2 ^ 32 \<le> py_trunc y" by (simp add: py_trunc_def)
    with assms(2) show False unfolding y_def by simp
  qed
  have small: "\<bar>x\<bar> < 2 ^ 53"
  proof (rule ccontr)
    assume "\<not> \<bar>x\<bar> < 2 ^ 53"
    then have "2 ^ 53 \<le> \<bar>x\<bar>" by simp
    then have "2 ^ 53 \<le> \<bar>y\<bar>" unfolding y_def by (rule nearest_large) simp
    moreover have "\<bar>y\<bar> < 2 ^ 32" using ylo yhi by simp
    ultimately show False by simp
  qed
  have xlo: "- 1 < x"
  proof (rule ccontr)
    assume "\<not> - 1 < x"
    then have "x \<le> real_of_int (- 1)" by simp
    moreover have "real_of_int (- (2 ^ 53)) \<le> x" using small by simp
    ultimately have "y \<le> real_of_int (- 1)"
      unfolding y_def using nearest_between [OF small] by blast
    with ylo show False by simp
  qed
  have br: "real_of_int \<lfloor>x\<rfloor> \<le> y" "y \<le> real_of_int \<lceil>x\<rceil>"
    unfolding y_def using nearest_between [OF small, of "\<lfloor>x\<rfloor>" "\<lceil>x\<rceil>"] by simp_all
  show ?thesis
  proof (cases "0 \<le> x")
    case True
    then have "0 \<le> \<lfloor>x\<rfloor>" by simp
    with br(1) have y0: "0 \<le> y" by linarith
    then have t: "py_trunc y = \<lfloor>y\<rfloor>" by (simp add: py_trunc_def)
    have lo: "\<lfloor>x\<rfloor> \<le> \<lfloor>y\<rfloor>" using br(1) by (simp only: le_floor_iff)
    have hi: "\<lfloor>y\<rfloor> \<le> \<lceil>x\<rceil>" using br(2) by (simp add: floor_le_iff)
    show ?thesis
    proof (cases "x = real_of_int \<lfloor>x\<rfloor>")
      case True
      then have "\<lceil>x\<rceil> = \<lfloor>x\<rfloor>" by (metis ceiling_of_int)
      with lo hi have "\<lfloor>y\<rfloor> = \<lfloor>x\<rfloor>" by simp
      then show ?thesis unfolding y_def [symmetric] t using True by simp
    next
      case False
      then have f: "real_of_int \<lfloor>x\<rfloor> < x" using of_int_floor_le [of x] by linarith
      have c: "\<lceil>x\<rceil> \<le> \<lfloor>x\<rfloor> + 1" by linarith
      have g: "x < real_of_int \<lfloor>x\<rfloor> + 1" by linarith
      from lo hi c have "\<lfloor>y\<rfloor> = \<lfloor>x\<rfloor> \<or> \<lfloor>y\<rfloor> = \<lfloor>x\<rfloor> + 1" by linarith
      then have "\<bar>real_of_int \<lfloor>y\<rfloor> - x\<bar> < 1"
      proof
        assume "\<lfloor>y\<rfloor> = \<lfloor>x\<rfloor>"
        then have "real_of_int \<lfloor>y\<rfloor> = real_of_int \<lfloor>x\<rfloor>" by simp
        with f g show ?thesis by linarith
      next
        assume "\<lfloor>y\<rfloor> = \<lfloor>x\<rfloor> + 1"
        then have "real_of_int \<lfloor>y\<rfloor> = real_of_int \<lfloor>x\<rfloor> + 1" by simp
        with f g show ?thesis by linarith
      qed
      then show ?thesis unfolding y_def [symmetric] t .
    qed
  next
    case False
    then have "\<lceil>x\<rceil> \<le> 0" by (simp add: ceiling_le_iff)
    with br(2) have "y \<le> 0" by linarith
    with ylo have "py_trunc y = 0"
      by (cases "y = 0") (simp_all add: py_trunc_def ceiling_eq_iff)
    then show ?thesis unfolding y_def [symmetric] using False xlo by simp
  qed
qed

text \<open>Evaluating the rounding at a value whose binade is known.\<close>

lemma nearest_at_binade:
  assumes "2 ^ e \<le> \<bar>x\<bar>" "\<bar>x\<bar> < 2 * 2 ^ e" "e \<le> 52"
  shows "nearest x = real_of_int (rne (x * 2 ^ (52 - e))) / 2 ^ (52 - e)"
proof -
  have nz: "x \<noteq> 0"
  proof
    assume "x = 0"
    with assms(1) have "(2::real) ^ e \<le> 0" by simp
    moreover have "0 < (2::real) ^ e" by simp
    ultimately show False by linarith
  qed
  have "\<bar>x\<bar> < 2 ^ Suc e" using assms(2) by simp
  from binade_le [OF nz this] binade_ge [OF assms(1)] have b: "binade x = int e" by simp
  have "max (binade x) (- 1022) - 52 = - int (52 - e)" unfolding b using assms(3) by simp
  then have "ulp x = 2 powr real_of_int (- int (52 - e))" unfolding ulp_def by (simp only:)
  also have "\<dots> = 2 powr (- real (52 - e))" by simp
  also have "\<dots> = 1 / 2 ^ (52 - e)" by (simp only: powr_minus powr_realpow zero_less_numeral inverse_eq_divide)
  finally show ?thesis using nz by (simp add: nearest_def)
qed

lemma nearest_below_one:
  assumes "1 \<le> \<bar>x\<bar> * 2 ^ m" "\<bar>x\<bar> * 2 ^ m < 2" "m \<le> 1022"
  shows "nearest x = real_of_int (rne (x * 2 ^ (52 + m))) / 2 ^ (52 + m)"
proof -
  have nz: "x \<noteq> 0" using assms(1) by auto
  have l: "2 powr (- real m) \<le> \<bar>x\<bar>"
    using assms(1) by (simp add: powr_minus powr_realpow field_simps)
  have h: "\<bar>x\<bar> < 2 powr (1 - real m)"
    using assms(2) by (simp add: powr_diff powr_realpow field_simps)
  have "- real m \<le> log 2 \<bar>x\<bar>" using l nz by (subst le_log_iff) simp_all
  moreover have "log 2 \<bar>x\<bar> < 1 - real m" using h nz by (subst log_less_iff) simp_all
  ultimately have b: "binade x = - int m" unfolding binade_def by (simp add: floor_eq_iff)
  have "max (binade x) (- 1022) - 52 = - int (52 + m)" unfolding b using assms(3) by simp
  then have "ulp x = 2 powr real_of_int (- int (52 + m))" unfolding ulp_def by (simp only:)
  also have "\<dots> = 2 powr (- real (52 + m))" by simp
  also have "\<dots> = 1 / 2 ^ (52 + m)" by (simp only: powr_minus powr_realpow zero_less_numeral inverse_eq_divide)
  finally show ?thesis using nz by (simp add: nearest_def)
qed

section \<open>Codec lemmas\<close>

lemma uint_byte_of_int: "uint (word_of_int v :: byte) = v mod 256"
  by (simp add: uint_word_of_int)

lemma le_uint_B: "0 \<le> v \<Longrightarrow> v < 256 \<Longrightarrow> le_uint [word_of_int v] = v"
  by (simp add: uint_byte_of_int)

lemma le_uint_H:
  assumes "0 \<le> v" "v < 65536"
  shows "le_uint [word_of_int (v mod 256), word_of_int (v div 256)] = v"
proof -
  have "v div 256 < 256" using assms by simp
  moreover have "0 \<le> v div 256" using assms by simp
  ultimately have "(v div 256) mod 256 = v div 256" by simp
  then show ?thesis by (simp add: uint_byte_of_int)
qed

text \<open>
  C4. A short message whose fields are in range (16-bit id, four 8-bit fields) is packed
  into exactly 6 bytes by the transmit layout \<^verbatim>\<open><HBBBB\<close>, and unpacking these bytes with
  the receive-side header layout \<^verbatim>\<open><HHBB\<close> gives back the id, the destination and the
  source, and a 16-bit middle word whose low byte is param1 and whose high byte is param2.
\<close>

theorem short_message_roundtrip:
  assumes "0 \<le> msgid" "msgid < 65536" "0 \<le> p1" "p1 < 256" "0 \<le> p2" "p2 < 256"
    "0 \<le> dest" "dest < 256" "0 \<le> src" "src < 256"
  shows "\<exists>bs w. pack_HBBBB msgid p1 p2 dest src = Inr bs \<and> length bs = 6 \<and>
           unpack_HHBB bs = Inr (msgid, w, dest, src) \<and>
           w mod 256 = p1 \<and> w div 256 = p2"
proof -
  let ?bs = "[word_of_int (msgid mod 256), word_of_int (msgid div 256), word_of_int p1,
              word_of_int p2, word_of_int dest, word_of_int src] :: byte list"
  have p: "pack_HBBBB msgid p1 p2 dest src = Inr ?bs"
    using assms by (simp add: pack_HBBBB_def)
  have m: "le_uint (take 2 ?bs) = msgid"
    using le_uint_H [OF assms(1,2)] by simp
  have w: "le_uint (take 2 (drop 2 ?bs)) = p1 + 256 * p2"
    using assms by (simp add: uint_byte_of_int)
  have d: "le_uint (take 1 (drop 4 ?bs)) = dest"
    using assms by (simp add: uint_byte_of_int)
  have s: "le_uint (drop 5 ?bs) = src"
    using assms by (simp add: uint_byte_of_int)
  have u: "unpack_HHBB ?bs = Inr (msgid, p1 + 256 * p2, dest, src)"
    unfolding unpack_HHBB_def using m w d s by simp
  have lo: "(p1 + 256 * p2) mod 256 = p1" using assms by simp
  have hi: "(p1 + 256 * p2) div 256 = p2" using assms by simp
  show ?thesis using p u lo hi by simp
qed

theorem short_message_roundtrip_witness:
  "\<exists>bs w. pack_HBBBB 0x0210 1 2 0x50 1 = Inr bs \<and> length bs = 6 \<and>
      unpack_HHBB bs = Inr (0x0210, w, 0x50, 1) \<and> w mod 256 = 1 \<and> w div 256 = 2"
  using short_message_roundtrip [of "0x0210" 1 2 "0x50" 1] by simp

section \<open>Calls that return normally\<close>

lemma pack_field_B_Inr:
  "pack_field Fmt_B v = Inr bs \<longleftrightarrow> 0 \<le> v \<and> v < 256 \<and> bs = [word_of_int v]"
  by auto

lemma pack_field_H_Inr:
  "pack_field Fmt_H v = Inr bs \<longleftrightarrow>
     0 \<le> v \<and> v < 65536 \<and> bs = [word_of_int (v mod 256), word_of_int (v div 256)]"
  by auto

lemma pack_field_I_Inr:
  "pack_field Fmt_I v = Inr bs \<longleftrightarrow>
     0 \<le> v \<and> v < 4294967296 \<and>
     bs = [word_of_int (v mod 256), word_of_int (v div 256 mod 256),
           word_of_int (v div 65536 mod 256), word_of_int (v div 16777216)]"
  by auto

lemma pack_Cons_Inr:
  "pack ((f, v) # rest) = Inr m \<longleftrightarrow>
     (\<exists>bs cs. pack_field f v = Inr bs \<and> pack rest = Inr cs \<and> m = bs @ cs)"
  by (auto split: sum.splits)

lemma pack_Nil_Inr: "pack [] = Inr m \<longleftrightarrow> m = []"
  by auto

lemmas pack_Inr = pack_Cons_Inr pack_Nil_Inr pack_field_B_Inr pack_field_H_Inr pack_field_I_Inr

lemma pack_HBBBB_Inr:
  "pack_HBBBB a b c d e = Inr m \<longleftrightarrow>
     (0 \<le> a \<and> a < 65536) \<and> (0 \<le> b \<and> b < 256) \<and> (0 \<le> c \<and> c < 256) \<and>
     (0 \<le> d \<and> d < 256) \<and> (0 \<le> e \<and> e < 256) \<and>
     m = [word_of_int (a mod 256), word_of_int (a div 256), word_of_int b,
          word_of_int c, word_of_int d, word_of_int e]"
  unfolding pack_HBBBB_def pack_Inr by auto

lemma pack_HBBBBHI_Inr:
  "pack_HBBBBHI a b c d e f g = Inr m \<longleftrightarrow>
     (0 \<le> a \<and> a < 65536) \<and> (0 \<le> b \<and> b < 256) \<and> (0 \<le> c \<and> c < 256) \<and>
     (0 \<le> d \<and> d < 256) \<and> (0 \<le> e \<and> e < 256) \<and> (0 \<le> f \<and> f < 65536) \<and>
     (0 \<le> g \<and> g < 4294967296) \<and>
     m = [word_of_int (a mod 256), word_of_int (a div 256), word_of_int b,
          word_of_int c, word_of_int d, word_of_int e,
          word_of_int (f mod 256), word_of_int (f div 256),
          word_of_int (g mod 256), word_of_int (g div 256 mod 256),
          word_of_int (g div 65536 mod 256), word_of_int (g div 16777216)]"
  unfolding pack_HBBBBHI_def pack_Inr by auto

lemma radix_combine:
  fixes g :: int
  shows "g = r0 + 256 * q1 \<Longrightarrow> q1 = r1 + 256 * q2 \<Longrightarrow> q2 = r2 + 256 * q3 \<Longrightarrow>
         g = r0 + 256 * (r1 + 256 * (r2 + 256 * q3))"
  by simp

lemma split4:
  fixes g :: int
  shows "g = g mod 256 + 256 * (g div 256 mod 256 + 256 * (g div 65536 mod 256 + 256 * (g div 16777216)))"
proof -
  have 1: "g div 65536 = g div 256 div 256"
    using zdiv_zmult2_eq [of 256 g 256] by simp
  have 2: "g div 16777216 = g div 65536 div 256"
    using zdiv_zmult2_eq [of 256 g 65536] by simp
  have a: "g = g mod 256 + 256 * (g div 256)" by (rule mod_mult_div_eq [symmetric])
  have b: "g div 256 = g div 256 mod 256 + 256 * (g div 65536)"
    unfolding 1 by (rule mod_mult_div_eq [symmetric])
  have c: "g div 65536 = g div 65536 mod 256 + 256 * (g div 16777216)"
    unfolding 2 by (rule mod_mult_div_eq [symmetric])
  show ?thesis by (rule radix_combine [OF a b c])
qed

lemma le_uint_I:
  assumes "0 \<le> g" "g < 4294967296"
  shows "le_uint [word_of_int (g mod 256), word_of_int (g div 256 mod 256),
                  word_of_int (g div 65536 mod 256), word_of_int (g div 16777216) :: byte] = g"
proof -
  have "0 \<le> g div 16777216" "g div 16777216 < 256" using assms by simp_all
  then have a: "g div 16777216 mod 256 = g div 16777216" by simp
  have e: "le_uint [word_of_int (g mod 256), word_of_int (g div 256 mod 256),
                  word_of_int (g div 65536 mod 256), word_of_int (g div 16777216) :: byte]
        = g mod 256 + 256 * (g div 256 mod 256 + 256 * (g div 65536 mod 256 + 256 * (g div 16777216)))"
    by (simp add: uint_byte_of_int a)
  show ?thesis unfolding e by (rule split4 [symmetric])
qed

lemma dest_flag_range:
  fixes d :: int
  shows "0 \<le> (d OR 0x80) \<and> (d OR 0x80) < 256 \<longleftrightarrow> 0 \<le> d \<and> d < 256"
proof
  assume h: "0 \<le> (d OR 0x80) \<and> (d OR 0x80) < 256"
  then have "0 \<le> d" by simp
  moreover have "d \<le> d OR 0x80" by (rule or_greater_eq) simp
  ultimately show "0 \<le> d \<and> d < 256" using h by linarith
next
  assume h: "0 \<le> d \<and> d < 256"
  have "d OR 0x80 < 2 ^ 8" by (rule OR_upper) (use h in simp_all)
  then show "0 \<le> (d OR 0x80) \<and> (d OR 0x80) < 256" using h by simp
qed

lemma io_bind_Inr:
  "io_bind m f s = (Inr y, s'') \<longleftrightarrow> (\<exists>x s'. m s = (Inr x, s') \<and> f x s' = (Inr y, s''))"
  by (auto simp: io_bind_def split: prod.splits sum.splits)

lemma io_then_Inr:
  "io_then m n s = (Inr y, s'') \<longleftrightarrow> (\<exists>x s'. m s = (Inr x, s') \<and> n s' = (Inr y, s''))"
  by (simp add: io_then_def io_bind_Inr)

lemma io_lift_Inr: "io_lift r s = (Inr y, s') \<longleftrightarrow> r = Inr y \<and> s' = s"
  by (auto simp: io_lift_def)

lemma io_return_Inr: "io_return x s = (Inr y, s') \<longleftrightarrow> y = x \<and> s' = s"
  by (auto simp: io_return_def)

lemma advanced_trans:
  "advanced a xs b \<Longrightarrow> advanced b ys c \<Longrightarrow> advanced a (xs @ ys) c"
  by (auto simp: advanced_def split: option.splits)

lemma advanced_config:
  assumes "advanced self evs self'"
  shows "get_destination_byte self' c = get_destination_byte self c"
    and "source_byte self' = source_byte self"
    and "Controller_Type self' = Controller_Type self"
    and "posScaleFactor self' = posScaleFactor self"
    and "the_trace self' = the_trace self @ evs"
  using assms by (auto simp: advanced_def get_destination_byte_def the_trace_def split: option.splits)

lemma call_Inr:
  "Serial_Port_call f self = (Inr x, self') \<longleftrightarrow>
     (\<exists>sp sp'. Serial_Port self = Some sp \<and> f sp = (Inr x, sp') \<and>
        self' = self\<lparr>Serial_Port := Some sp'\<rparr>)"
  by (auto simp: Serial_Port_call_def split: option.splits prod.splits)

lemma write_Inr:
  "Serial_Port_write packed self = (Inr u, self') \<Longrightarrow>
     \<exists>msg. packed = Inr msg \<and> advanced self [Write msg] self'"
  by (auto simp: Serial_Port_write_def call_Inr port_write_def record_event_def advanced_def
      split: option.splits sum.splits if_splits)

lemma read_Inr:
  "Serial_Port_call (port_read n) self = (Inr rx, self') \<Longrightarrow> advanced self [Read n rx] self'"
  by (auto simp: call_Inr port_read_def record_event_def advanced_def
      split: option.splits sum.splits if_splits list.splits)

lemma reset_input_Inr:
  "Serial_Port_call reset_input_buffer self = (Inr u, self') \<Longrightarrow> advanced self [Reset_Input] self'"
  by (auto simp: call_Inr reset_input_buffer_def record_event_def advanced_def
      split: option.splits sum.splits if_splits)

lemma reset_output_Inr:
  "Serial_Port_call reset_output_buffer self = (Inr u, self') \<Longrightarrow> advanced self [Reset_Output] self'"
  by (auto simp: call_Inr reset_output_buffer_def record_event_def advanced_def
      split: option.splits sum.splits if_splits)

lemma Flush_Buffers_Inr:
  "Flush_Buffers self = (Inr u, self') \<Longrightarrow> advanced self [Reset_Input, Reset_Output] self'"
  unfolding Flush_Buffers_def io_then_Inr
  using advanced_trans [of self "[Reset_Input]" _ "[Reset_Output]" self']
  by (auto dest!: reset_input_Inr reset_output_Inr)

lemma Stay_Alive_Inr:
  "Stay_Alive c self = (Inr u, self') \<Longrightarrow>
     \<exists>ka. pack_HBBBB 0x0492 0 0 (get_destination_byte self c) (source_byte self) = Inr ka \<and>
          advanced self [Write ka] self'"
  unfolding Stay_Alive_def by (rule write_Inr)

lemma wait_loop_Inr:
  "wait_loop code Rx self = Some y \<Longrightarrow> y = (Inr u, self') \<Longrightarrow>
     (Rx = code \<and> self' = self) \<or>
     (Rx \<noteq> code \<and> (\<exists>rs. advanced self rs self' \<and> (\<forall>e\<in>set rs. is_read e)))"
proof (induction arbitrary: u self' rule: wait_loop.raw_induct [rotated 1, consumes 1])
  case (1 wl code Rx self y)
  show ?case
  proof (cases "Rx = code")
    case True
    with 1(2,3) show ?thesis by simp
  next
    case False
    with 1(2,3) obtain Rx' s1 where
      r: "Serial_Port_call (port_read 2) self = (Inr Rx', s1)" and w: "wl code Rx' s1 = Some y"
      by (auto split: prod.splits sum.splits)
    have a: "advanced self [Read 2 Rx'] s1" using r by (rule read_Inr)
    from 1(1) [OF w 1(3)] show ?thesis
    proof
      assume "Rx' = code \<and> self' = s1"
      with a False show ?thesis by auto
    next
      assume "Rx' \<noteq> code \<and> (\<exists>rs. advanced s1 rs self' \<and> (\<forall>e\<in>set rs. is_read e))"
      then obtain rs where "advanced s1 rs self'" "\<forall>e\<in>set rs. is_read e" by blast
      with advanced_trans [OF a] have "advanced self ([Read 2 Rx'] @ rs) self'"
        and "\<forall>e\<in>set ([Read 2 Rx'] @ rs). is_read e" by auto
      with False show ?thesis by blast
    qed
  qed
qed

lemma wait_for_Inr:
  assumes "wait_for code self = Some (Inr u, self')"
  shows "\<exists>rs. advanced self rs self' \<and> (\<forall>e\<in>set rs. is_read e)"
proof -
  from assms obtain bs where p: "pack [(Fmt_H, code)] = Inr bs" and w: "wait_loop bs [] self = Some (Inr u, self')"
    by (auto simp: wait_for_def split: sum.splits)
  from p have "bs \<noteq> []" by (auto split: if_splits)
  with wait_loop_Inr [OF w refl] show ?thesis by auto
qed

lemma advanced_open:
  "advanced self evs self' \<Longrightarrow> \<exists>sp. Serial_Port self = Some sp \<and> is_open sp"
  by (auto simp: advanced_def split: option.splits)

lemma Home_Inr:
  assumes "Home c w self = Some (Inr u, self')"
  shows "\<exists>home ka rs.
     pack_HBBBB 0x0443 0x01 0x00 (get_destination_byte self c) (source_byte self) = Inr home \<and>
     pack_HBBBB 0x0492 0x00 0x00 (get_destination_byte self c) (source_byte self) = Inr ka \<and>
     advanced self (Write home # rs @ [Reset_Input, Reset_Output, Write ka]) self' \<and>
     (\<forall>e\<in>set rs. is_read e) \<and> (\<not> w \<longrightarrow> rs = [])"
proof -
  from assms obtain s1 where
    w1: "Serial_Port_write (pack_HBBBB 0x0443 0x01 0x00 (get_destination_byte self c) (source_byte self)) self
          = (Inr (), s1)"
    by (auto simp: Home_def split: prod.splits sum.splits)
  from assms w1 obtain s2 where
    w2: "(if w then wait_for 0x0444 s1 else Some (Inr (), s1)) = Some (Inr (), s2)" and
    w3: "io_then Flush_Buffers (Stay_Alive c) s2 = (Inr u, self')"
    by (auto simp: Home_def split: prod.splits sum.splits option.splits)
  from write_Inr [OF w1] obtain home where
    h: "pack_HBBBB 0x0443 0x01 0x00 (get_destination_byte self c) (source_byte self) = Inr home"
    and a1: "advanced self [Write home] s1" by blast
  from w2 obtain rs where a2: "advanced s1 rs s2" and rs: "\<forall>e\<in>set rs. is_read e" "\<not> w \<longrightarrow> rs = []"
  proof (cases w)
    case True
    with w2 wait_for_Inr [of "0x0444" s1 "()" s2] that show ?thesis by auto
  next
    case False
    with w2 have "s2 = s1" by simp
    moreover have "advanced s1 [] s1" using a1 by (auto simp: advanced_def split: option.splits)
    ultimately show ?thesis using that [of "[]"] False by simp
  qed
  from w3 obtain s3 where f: "Flush_Buffers s2 = (Inr (), s3)" and k: "Stay_Alive c s3 = (Inr u, self')"
    by (auto simp: io_then_Inr)
  have a3: "advanced s2 [Reset_Input, Reset_Output] s3" using f by (rule Flush_Buffers_Inr)
  from Stay_Alive_Inr [OF k] obtain ka where
    k1: "pack_HBBBB 0x0492 0 0 (get_destination_byte s3 c) (source_byte s3) = Inr ka"
    and a4: "advanced s3 [Write ka] self'" by blast
  have a13: "advanced self ([Write home] @ rs @ [Reset_Input, Reset_Output]) s3"
    using advanced_trans [OF a1 advanced_trans [OF a2 a3]] .
  have cfg: "get_destination_byte s3 c = get_destination_byte self c" "source_byte s3 = source_byte self"
    using advanced_config [OF a13] by simp_all
  have "advanced self (([Write home] @ rs @ [Reset_Input, Reset_Output]) @ [Write ka]) self'"
    using advanced_trans [OF a13 a4] .
  then show ?thesis using h k1 cfg rs by auto
qed

text \<open>
  C5. For every channel number, the destination byte of a cube session is \<open>0x50\<close>
  whatever the channel, and the destination byte of a benchtop session is
  \<open>0x20 + channel\<close>.
\<close>

theorem destination_byte_by_topology:
  "(Controller_Type self = ''cube'' \<longrightarrow> get_destination_byte self channel_num = 0x50) \<and>
   (Controller_Type self = ''benchtop'' \<longrightarrow>
      get_destination_byte self channel_num = 0x20 + channel_num)"
  by (simp add: get_destination_byte_def)

theorem destination_byte_by_topology_witness:
  "Controller_Type KBD101 = ''cube'' \<and> get_destination_byte KBD101 7 = 0x50 \<and>
   Controller_Type BSC202 = ''benchtop'' \<and> get_destination_byte BSC202 2 = 0x22"
  using destination_byte_by_topology [of KBD101 7] destination_byte_by_topology [of BSC202 2]
  by (simp add: KBD101_def BSC202_def)

text \<open>
  C8. A controller-type string whose lower-case form is neither \<open>cube\<close> nor
  \<open>benchtop\<close> makes the constructor raise the configuration exception at once, before
  \<^verbatim>\<open>serial.Serial\<close> is called on any port; with a string whose lower-case form is
  one of the two, the constructor does not raise that exception.
\<close>

theorem invalid_controller_type_rejected:
  "(lower ct \<notin> {''cube'', ''benchtop''} \<longrightarrow>
      outcome (init serial_Serial PORT Scale_Factors ct) =
        Inl (Exception ''Error: Invalid Controller Type'') \<and>
      open_attempts (init serial_Serial PORT Scale_Factors ct) = []) \<and>
   (lower ct \<in> {''cube'', ''benchtop''} \<longrightarrow>
      (\<forall>m. outcome (init serial_Serial PORT Scale_Factors ct) \<noteq> Inl (Exception m)))"
  by (auto simp: init_def Controller_Types_def Let_def split: list.splits sum.splits)

theorem invalid_controller_type_rejected_witness:
  "lower ''rack'' \<notin> {''cube'', ''benchtop''} \<and>
   outcome (init (\<lambda>p. Inr fresh_port) ''COM14'' KBD101_scale_factors ''rack'') =
     Inl (Exception ''Error: Invalid Controller Type'') \<and>
   open_attempts (init (\<lambda>p. Inr fresh_port) ''COM14'' KBD101_scale_factors ''rack'') = [] \<and>
   lower ''BenchTop'' \<in> {''cube'', ''benchtop''} \<and>
   outcome (init (\<lambda>p. Inr fresh_port) ''COM14'' BSC202_scale_factors ''BenchTop'') \<noteq>
     Inl (Exception ''Error: Invalid Controller Type'')"
  using invalid_controller_type_rejected
          [of "''rack''" "\<lambda>p. Inr fresh_port" "''COM14''" "KBD101_scale_factors"]
        invalid_controller_type_rejected
          [of "''BenchTop''" "\<lambda>p. Inr fresh_port" "''COM14''" "BSC202_scale_factors"]
  by (simp add: lower_def lower_char_def)

text \<open>
  C9. On an open connection the probe never raises. It writes the info request addressed
  to \<open>0x50\<close>, reads up to 90 bytes, resets the input and the output buffer, and returns
  \<open>0x50\<close> when the read delivered at least one byte and \<open>0x11\<close> when it delivered
  none.
\<close>

theorem probe_reply_or_absent:
  assumes "is_open sp"
  shows "\<exists>sp'. getDestination sp =
            (Inr (if length (next_read 90 sp) > 0 then 0x50 else 0x11), sp') \<and>
          trace sp' = trace sp @
            [Write [0x05, 0x00, 0x00, 0x00, 0x50, 0x01], Read 90 (next_read 90 sp),
             Reset_Input, Reset_Output]"
  using assms
  by (cases "incoming sp")
     (simp_all add: getDestination_def next_read_def io_bind_def io_then_def io_lift_def
        io_return_def pack_HBBBB_def port_write_def port_read_def reset_input_buffer_def
        reset_output_buffer_def record_event_def)

theorem probe_reply_or_absent_witness:
  "is_open fresh_port \<and>
   (\<exists>sp'. getDestination fresh_port = (Inr 0x11, sp') \<and>
      trace sp' = [Write [0x05, 0x00, 0x00, 0x00, 0x50, 0x01], Read 90 [],
                   Reset_Input, Reset_Output]) \<and>
   is_open (fresh_port\<lparr>incoming := [[0x06, 0x00]]\<rparr>) \<and>
   (\<exists>sp'. getDestination (fresh_port\<lparr>incoming := [[0x06, 0x00]]\<rparr>) = (Inr 0x50, sp') \<and>
      trace sp' = [Write [0x05, 0x00, 0x00, 0x00, 0x50, 0x01], Read 90 [0x06, 0x00],
                   Reset_Input, Reset_Output])"
  using probe_reply_or_absent [of fresh_port]
        probe_reply_or_absent [of "fresh_port\<lparr>incoming := [[0x06, 0x00]]\<rparr>"]
  by (simp add: fresh_port_def next_read_def)

lemma Move_Absolute_Inr:
  assumes "Move_Absolute p c w self = Some (Inr u, self')"
  shows "\<exists>t msg ka rs.
     py_int (float_mul (posScaleFactor self) p) = Inr t \<and>
     pack_HBBBBHI 0x0453 0x06 0x00 (get_destination_byte self c OR 0x80) (source_byte self)
        0x01 t = Inr msg \<and>
     pack_HBBBB 0x0492 0x00 0x00 (get_destination_byte self c) (source_byte self) = Inr ka \<and>
     advanced self (Write msg # rs @ [Reset_Input, Reset_Output, Write ka]) self' \<and>
     (\<forall>e\<in>set rs. is_read e) \<and> (\<not> w \<longrightarrow> rs = [])"
proof -
  from assms obtain t where t: "py_int (float_mul (posScaleFactor self) p) = Inr t"
    by (auto simp: Move_Absolute_def split: sum.splits)
  let ?packed = "pack_HBBBBHI 0x0453 0x06 0x00 (get_destination_byte self c OR 0x80)
        (source_byte self) 0x01 t"
  from assms t obtain s1 where w1: "Serial_Port_write ?packed self = (Inr (), s1)"
    by (auto simp: Move_Absolute_def split: prod.splits sum.splits)
  from assms t w1 obtain s2 where
    w2: "(if w then wait_for 0x0464 s1 else Some (Inr (), s1)) = Some (Inr (), s2)" and
    w3: "io_then Flush_Buffers (Stay_Alive c) s2 = (Inr u, self')"
    by (auto simp: Move_Absolute_def split: prod.splits sum.splits option.splits)
  from write_Inr [OF w1] obtain msg where h: "?packed = Inr msg"
    and a1: "advanced self [Write msg] s1" by blast
  from w2 obtain rs where a2: "advanced s1 rs s2" and rs: "\<forall>e\<in>set rs. is_read e" "\<not> w \<longrightarrow> rs = []"
  proof (cases w)
    case True
    with w2 wait_for_Inr [of "0x0464" s1 "()" s2] that show ?thesis by auto
  next
    case False
    with w2 have "s2 = s1" by simp
    moreover have "advanced s1 [] s1" using a1 by (auto simp: advanced_def split: option.splits)
    ultimately show ?thesis using that [of "[]"] False by simp
  qed
  from w3 obtain s3 where f: "Flush_Buffers s2 = (Inr (), s3)" and k: "Stay_Alive c s3 = (Inr u, self')"
    by (auto simp: io_then_Inr)
  have a3: "advanced s2 [Reset_Input, Reset_Output] s3" using f by (rule Flush_Buffers_Inr)
  from Stay_Alive_Inr [OF k] obtain ka where
    k1: "pack_HBBBB 0x0492 0 0 (get_destination_byte s3 c) (source_byte s3) = Inr ka"
    and a4: "advanced s3 [Write ka] self'" by blast
  have a13: "advanced self ([Write msg] @ rs @ [Reset_Input, Reset_Output]) s3"
    using advanced_trans [OF a1 advanced_trans [OF a2 a3]] .
  have cfg: "get_destination_byte s3 c = get_destination_byte self c" "source_byte s3 = source_byte self"
    using advanced_config [OF a13] by simp_all
  have "advanced self (([Write msg] @ rs @ [Reset_Input, Reset_Output]) @ [Write ka]) self'"
    using advanced_trans [OF a13 a4] .
  then show ?thesis using t h k1 cfg rs by auto
qed

section \<open>A session without a connection\<close>

lemma no_port_call: "Serial_Port self = None \<Longrightarrow> Serial_Port_call f self = (Inl AttributeError, self)"
  by (simp add: Serial_Port_call_def)

lemma no_port_write: "Serial_Port self = None \<Longrightarrow> Serial_Port_write m self = (Inl AttributeError, self)"
  by (simp add: Serial_Port_write_def)

lemma io_then_Inl: "m s = (Inl e, s') \<Longrightarrow> io_then m n s = (Inl e, s')"
  by (simp add: io_then_def io_bind_def)

lemma no_port_Flush: "Serial_Port self = None \<Longrightarrow> Flush_Buffers self = (Inl AttributeError, self)"
  by (simp add: Flush_Buffers_def io_then_Inl no_port_call)

lemma no_port_Stay_Alive: "Serial_Port self = None \<Longrightarrow> Stay_Alive c self = (Inl AttributeError, self)"
  by (simp add: Stay_Alive_def no_port_write)

lemma no_port_Initialize: "Serial_Port self = None \<Longrightarrow> Initialize c self = (Inl AttributeError, self)"
  by (simp add: Initialize_def io_then_Inl no_port_write)

lemma no_port_Identify: "Serial_Port self = None \<Longrightarrow> Identify c self = (Inl AttributeError, self)"
  by (simp add: Identify_def io_then_Inl no_port_write no_port_Stay_Alive io_then_def io_bind_def io_return_def)

lemma no_port_Enable: "Serial_Port self = None \<Longrightarrow> Enable_Channel c self = (Inl AttributeError, self)"
  by (simp add: Enable_Channel_def io_then_Inl no_port_write)

lemma no_port_Disable: "Serial_Port self = None \<Longrightarrow> Disable_Channel c self = (Inl AttributeError, self)"
  by (simp add: Disable_Channel_def io_then_Inl no_port_write)

lemma no_port_Home: "Serial_Port self = None \<Longrightarrow> Home c w self = Some (Inl AttributeError, self)"
  by (simp add: Home_def no_port_write)

lemma no_port_Move_Absolute:
  "Serial_Port self = None \<Longrightarrow>
     Move_Absolute p c w self =
       Some (Inl (case py_int (float_mul (posScaleFactor self) p) of
                    Inl e \<Rightarrow> e | Inr t \<Rightarrow> AttributeError), self)"
  by (simp add: Move_Absolute_def no_port_write split: sum.splits)

lemma no_port_getPosition: "Serial_Port self = None \<Longrightarrow> getPosition c self = (Inl AttributeError, self)"
  by (simp add: getPosition_def io_then_Inl no_port_Flush)

lemma no_port_get_status_Update:
  "Serial_Port self = None \<Longrightarrow> get_status_Update c self = (Inl AttributeError, self)"
  by (simp add: get_status_Update_def io_then_Inl no_port_Flush)

lemma no_port_getEncCounter: "Serial_Port self = None \<Longrightarrow> getEncCounter c self = (Inl AttributeError, self)"
  by (simp add: getEncCounter_def io_then_Inl no_port_Flush)

lemmas no_port = no_port_Flush no_port_Stay_Alive no_port_Initialize no_port_Identify
  no_port_Enable no_port_Disable no_port_Home no_port_Move_Absolute no_port_getPosition
  no_port_get_status_Update no_port_getEncCounter

text \<open>
  C10 (as the code has it). When \<^verbatim>\<open>serial.Serial\<close> raises on the port, the
  constructor of a session with a valid controller type and three scale factors still
  returns an object: it has printed the port-error line, and the attribute
  \<^verbatim>\<open>Serial_Port\<close> was never set. Every operation on that object then raises and
  leaves it as it is: \<^verbatim>\<open>AttributeError\<close> in every case but one, namely that
  \<^verbatim>\<open>Move_Absolute\<close> converts the product of scale factor and position with
  \<^verbatim>\<open>int\<close> before it looks the connection up, so that an infinite product raises
  \<^verbatim>\<open>OverflowError\<close> and a NaN product \<^verbatim>\<open>ValueError\<close> instead.
\<close>

theorem port_open_failure_swallowed:
  assumes "lower ct \<in> set Controller_Types" "Scale_Factors = [p, v, a]"
    "serial_Serial PORT = Inl e"
  shows "\<exists>self.
     init serial_Serial PORT Scale_Factors ct =
       \<lparr>outcome = Inr self, open_attempts = [PORT], printed = [port_error_message PORT]\<rparr> \<and>
     Serial_Port self = None \<and>
     (\<forall>c w x.
        Initialize c self = (Inl AttributeError, self) \<and>
        Identify c self = (Inl AttributeError, self) \<and>
        Enable_Channel c self = (Inl AttributeError, self) \<and>
        Disable_Channel c self = (Inl AttributeError, self) \<and>
        Home c w self = Some (Inl AttributeError, self) \<and>
        Move_Absolute x c w self =
          Some (Inl (case float_mul p x of
                       Float y \<Rightarrow> AttributeError
                     | NaN \<Rightarrow> ValueError
                     | _ \<Rightarrow> OverflowError), self) \<and>
        getPosition c self = (Inl AttributeError, self) \<and>
        get_status_Update c self = (Inl AttributeError, self) \<and>
        getEncCounter c self = (Inl AttributeError, self) \<and>
        Stay_Alive c self = (Inl AttributeError, self) \<and>
        Flush_Buffers self = (Inl AttributeError, self) \<and>
        Close_Port self = (Inl AttributeError, self) \<and>
        Open_Port self = (Inl AttributeError, self))"
proof -
  let ?self = "\<lparr>Controller_Type = lower ct, port = PORT, posScaleFactor = p,
                 velScaleFactor = v, accScaleFactor = a, source_byte = 0x01,
                 Serial_Port = None\<rparr>"
  have i: "init serial_Serial PORT Scale_Factors ct =
       \<lparr>outcome = Inr ?self, open_attempts = [PORT], printed = [port_error_message PORT]\<rparr>"
    using assms by (simp add: init_def Let_def)
  have n: "Serial_Port ?self = None" by simp
  have m: "Move_Absolute x c w ?self =
          Some (Inl (case float_mul p x of
                       Float y \<Rightarrow> AttributeError
                     | NaN \<Rightarrow> ValueError
                     | _ \<Rightarrow> OverflowError), ?self)" for x c w
    unfolding no_port_Move_Absolute [OF n]
    by (cases "float_mul p x") simp_all
  show ?thesis
    using i n m no_port [OF n] no_port_call [OF n, of port_close] no_port_call [OF n, of port_open]
    by (intro exI [of _ ?self]) (simp add: Close_Port_def Open_Port_def)
qed

theorem port_open_failure_swallowed_witness:
  "lower ''cube'' \<in> set Controller_Types \<and>
   (\<exists>self.
     init (\<lambda>p. Inl SerialException) ''COM14'' KBD101_scale_factors ''cube'' =
       \<lparr>outcome = Inr self, open_attempts = [''COM14''],
        printed = [port_error_message ''COM14'']\<rparr> \<and>
     Serial_Port self = None \<and>
     Initialize 1 self = (Inl AttributeError, self) \<and>
     Home 1 True self = Some (Inl AttributeError, self) \<and>
     Move_Absolute (Float 25) 1 True self = Some (Inl AttributeError, self) \<and>
     Move_Absolute NaN 1 True self = Some (Inl ValueError, self) \<and>
     getPosition 1 self = (Inl AttributeError, self))"
proof -
  have h: "lower ''cube'' \<in> set Controller_Types"
    by (simp add: lower_def lower_char_def Controller_Types_def)
  have f: "float_mul (Float 2000) (Float 25) = Float 50000"
    using round_double_small [of 50000] nearest_of_int [of 50000] by simp
  from port_open_failure_swallowed [OF h KBD101_scale_factors_def,
      of "\<lambda>p. Inl SerialException" "''COM14''" SerialException]
  obtain self where s: "init (\<lambda>p. Inl SerialException) ''COM14'' KBD101_scale_factors ''cube'' =
       \<lparr>outcome = Inr self, open_attempts = [''COM14''],
        printed = [port_error_message ''COM14'']\<rparr>"
    "Serial_Port self = None"
    and ops: "\<And>c w x.
        Initialize c self = (Inl AttributeError, self) \<and>
        Identify c self = (Inl AttributeError, self) \<and>
        Enable_Channel c self = (Inl AttributeError, self) \<and>
        Disable_Channel c self = (Inl AttributeError, self) \<and>
        Home c w self = Some (Inl AttributeError, self) \<and>
        Move_Absolute x c w self =
          Some (Inl (case float_mul (Float 2000) x of
                       Float y \<Rightarrow> AttributeError
                     | NaN \<Rightarrow> ValueError
                     | _ \<Rightarrow> OverflowError), self) \<and>
        getPosition c self = (Inl AttributeError, self) \<and>
        get_status_Update c self = (Inl AttributeError, self) \<and>
        getEncCounter c self = (Inl AttributeError, self) \<and>
        Stay_Alive c self = (Inl AttributeError, self) \<and>
        Flush_Buffers self = (Inl AttributeError, self) \<and>
        Close_Port self = (Inl AttributeError, self) \<and>
        Open_Port self = (Inl AttributeError, self)"
    by auto
  from ops [of 1 True "Float 25"] ops [of 1 True NaN] s h f show ?thesis
    by (intro conjI exI [of _ self]) simp_all
qed

text \<open>
  The claim as stated fails on the object that the constructor returns for the
  docstring's cube example when the port cannot be opened: \<^verbatim>\<open>Move_Absolute\<close> with a
  NaN position raises \<^verbatim>\<open>ValueError\<close>, and with the finite position \<open>2^1023\<close>, whose
  product with the scale factor \<open>2000\<close> overflows, it raises \<^verbatim>\<open>OverflowError\<close>;
  neither is an \<^verbatim>\<open>AttributeError\<close>.
\<close>

theorem port_open_failure_counterexample:
  "init (\<lambda>p. Inl SerialException) ''COM14'' KBD101_scale_factors ''cube'' =
     \<lparr>outcome = Inr (KBD101\<lparr>Serial_Port := None\<rparr>), open_attempts = [''COM14''],
      printed = [port_error_message ''COM14'']\<rparr> \<and>
   Move_Absolute NaN 1 True (KBD101\<lparr>Serial_Port := None\<rparr>) =
     Some (Inl ValueError, KBD101\<lparr>Serial_Port := None\<rparr>) \<and>
   Move_Absolute (Float (2 ^ 1023)) 1 True (KBD101\<lparr>Serial_Port := None\<rparr>) =
     Some (Inl OverflowError, KBD101\<lparr>Serial_Port := None\<rparr>)"
proof -
  have i: "init (\<lambda>p. Inl SerialException) ''COM14'' KBD101_scale_factors ''cube'' =
     \<lparr>outcome = Inr (KBD101\<lparr>Serial_Port := None\<rparr>), open_attempts = [''COM14''],
      printed = [port_error_message ''COM14'']\<rparr>"
    by (simp add: init_def KBD101_scale_factors_def KBD101_def lower_def lower_char_def
        Controller_Types_def)
  have "(2::real) ^ 1024 \<le> \<bar>2000 * 2 ^ 1023\<bar>" by simp
  from round_double_huge [OF this] have o: "float_mul (Float 2000) (Float (2 ^ 1023)) = PosInf"
    by simp
  have 1: "Move_Absolute NaN 1 True (KBD101\<lparr>Serial_Port := None\<rparr>) =
     Some (Inl ValueError, KBD101\<lparr>Serial_Port := None\<rparr>)"
    by (simp add: Move_Absolute_def KBD101_def)
  have 2: "Move_Absolute (Float (2 ^ 1023)) 1 True (KBD101\<lparr>Serial_Port := None\<rparr>) =
     Some (Inl OverflowError, KBD101\<lparr>Serial_Port := None\<rparr>)"
    using o by (simp add: Move_Absolute_def KBD101_def)
  from i 1 2 show ?thesis by simp
qed

lemma Home_no_wait:
  assumes "Serial_Port self = Some sp" "is_open sp" "source_byte self = 0x01"
    "0 \<le> get_destination_byte self c" "get_destination_byte self c < 256"
  shows "Home c False self =
      Some (Inr (), self\<lparr>Serial_Port := Some (sp\<lparr>trace := trace sp @
        [Write [0x43, 0x04, 0x01, 0x00, word_of_int (get_destination_byte self c), 0x01],
         Reset_Input, Reset_Output,
         Write [0x92, 0x04, 0x00, 0x00, word_of_int (get_destination_byte self c), 0x01]]\<rparr>)\<rparr>)"
proof -
  define d where "d = get_destination_byte self c"
  have d': "get_destination_byte (self\<lparr>Serial_Port := x\<rparr>) c = d" for x
    by (simp add: d_def get_destination_byte_def)
  show ?thesis
    using assms unfolding d_def [symmetric]
    by (simp add: Home_def Serial_Port_write_def Serial_Port_call_def port_write_def
        record_event_def io_then_def io_bind_def Flush_Buffers_def Stay_Alive_def
        reset_input_buffer_def reset_output_buffer_def pack_HBBBB_def d' d_def [symmetric])
qed

text \<open>
  C7. On a constructed session with an open connection and a channel whose destination
  fits in a byte, \<^verbatim>\<open>Home(channel, wait=False)\<close> returns after exactly four calls on the
  connection: the write of the short home message, the two buffer resets and the write
  of one keep-alive message; it reads nothing. Whenever \<^verbatim>\<open>Home\<close> returns, with
  \<^verbatim>\<open>wait\<close> true or false, what it did on the connection is the write of the home
  message, then reads only, then the two buffer resets, then the write of one keep-alive
  message.
\<close>

theorem home_returns_after_flush_and_keep_alive:
  assumes "constructed self" "Serial_Port self = Some sp" "is_open sp"
    "0 \<le> get_destination_byte self c" "get_destination_byte self c < 256"
  shows
    "Home c False self =
      Some (Inr (), self\<lparr>Serial_Port := Some (sp\<lparr>trace := trace sp @
        [Write [0x43, 0x04, 0x01, 0x00, word_of_int (get_destination_byte self c), 0x01],
         Reset_Input, Reset_Output,
         Write [0x92, 0x04, 0x00, 0x00, word_of_int (get_destination_byte self c), 0x01]]\<rparr>)\<rparr>) \<and>
     (\<forall>w u self'. Home c w self = Some (Inr u, self') \<longrightarrow>
        (\<exists>rs. (\<forall>e\<in>set rs. is_read e) \<and>
           the_trace self' = trace sp @
             Write [0x43, 0x04, 0x01, 0x00, word_of_int (get_destination_byte self c), 0x01] #
             rs @
             [Reset_Input, Reset_Output,
              Write [0x92, 0x04, 0x00, 0x00, word_of_int (get_destination_byte self c), 0x01]]))"
proof (intro conjI allI impI)
  have s: "source_byte self = 0x01" using assms(1) by (simp add: constructed_def)
  show "Home c False self =
      Some (Inr (), self\<lparr>Serial_Port := Some (sp\<lparr>trace := trace sp @
        [Write [0x43, 0x04, 0x01, 0x00, word_of_int (get_destination_byte self c), 0x01],
         Reset_Input, Reset_Output,
         Write [0x92, 0x04, 0x00, 0x00, word_of_int (get_destination_byte self c), 0x01]]\<rparr>)\<rparr>)"
    by (rule Home_no_wait [OF assms(2,3) s assms(4,5)])
next
  fix w u self'
  assume h: "Home c w self = Some (Inr u, self')"
  from Home_Inr [OF h] obtain home ka rs where
    p1: "pack_HBBBB 0x0443 0x01 0x00 (get_destination_byte self c) (source_byte self) = Inr home"
    and p2: "pack_HBBBB 0x0492 0x00 0x00 (get_destination_byte self c) (source_byte self) = Inr ka"
    and a: "advanced self (Write home # rs @ [Reset_Input, Reset_Output, Write ka]) self'"
    and r: "\<forall>e\<in>set rs. is_read e" by blast
  have s: "source_byte self = 0x01" using assms(1) by (simp add: constructed_def)
  have home: "home = [0x43, 0x04, 0x01, 0x00, word_of_int (get_destination_byte self c), 0x01]"
    using p1 unfolding pack_HBBBB_Inr s by simp
  have ka: "ka = [0x92, 0x04, 0x00, 0x00, word_of_int (get_destination_byte self c), 0x01]"
    using p2 unfolding pack_HBBBB_Inr s by simp
  have "the_trace self' = the_trace self @ Write home # rs @ [Reset_Input, Reset_Output, Write ka]"
    by (rule advanced_config(5) [OF a])
  then have "the_trace self' = trace sp @ Write home # rs @ [Reset_Input, Reset_Output, Write ka]"
    using assms(2) by (simp add: the_trace_def)
  with r home ka
  show "\<exists>rs. (\<forall>e\<in>set rs. is_read e) \<and>
           the_trace self' = trace sp @
             Write [0x43, 0x04, 0x01, 0x00, word_of_int (get_destination_byte self c), 0x01] #
             rs @
             [Reset_Input, Reset_Output,
              Write [0x92, 0x04, 0x00, 0x00, word_of_int (get_destination_byte self c), 0x01]]"
    by blast
qed

lemma Home_example_wait:
  "Home 1 True (KBD101\<lparr>Serial_Port := Some (fresh_port\<lparr>incoming := [[0x91, 0x04], [0x44, 0x04]]\<rparr>)\<rparr>) =
     Some (Inr (), KBD101\<lparr>Serial_Port := Some (fresh_port\<lparr>trace :=
       [Write [0x43, 0x04, 0x01, 0x00, 0x50, 0x01], Read 2 [0x91, 0x04], Read 2 [0x44, 0x04],
        Reset_Input, Reset_Output, Write [0x92, 0x04, 0x00, 0x00, 0x50, 0x01]]\<rparr>)\<rparr>)"
  by (simp add: Home_def KBD101_def fresh_port_def wait_for_def wait_loop.simps
      get_destination_byte_def Serial_Port_write_def Serial_Port_call_def port_write_def
      port_read_def record_event_def io_then_def io_bind_def Flush_Buffers_def Stay_Alive_def
      reset_input_buffer_def reset_output_buffer_def pack_HBBBB_def)

theorem home_returns_after_flush_and_keep_alive_witness:
  "constructed KBD101 \<and> Serial_Port KBD101 = Some fresh_port \<and> is_open fresh_port \<and>
   0 \<le> get_destination_byte KBD101 1 \<and> get_destination_byte KBD101 1 < 256 \<and>
   Home 1 False KBD101 =
     Some (Inr (), KBD101\<lparr>Serial_Port := Some (fresh_port\<lparr>trace :=
       [Write [0x43, 0x04, 0x01, 0x00, 0x50, 0x01], Reset_Input, Reset_Output,
        Write [0x92, 0x04, 0x00, 0x00, 0x50, 0x01]]\<rparr>)\<rparr>) \<and>
   Home 1 True (KBD101\<lparr>Serial_Port := Some (fresh_port\<lparr>incoming := [[0x91, 0x04], [0x44, 0x04]]\<rparr>)\<rparr>) =
     Some (Inr (), KBD101\<lparr>Serial_Port := Some (fresh_port\<lparr>trace :=
       [Write [0x43, 0x04, 0x01, 0x00, 0x50, 0x01], Read 2 [0x91, 0x04], Read 2 [0x44, 0x04],
        Reset_Input, Reset_Output, Write [0x92, 0x04, 0x00, 0x00, 0x50, 0x01]]\<rparr>)\<rparr>) \<and>
   (\<exists>rs. (\<forall>e\<in>set rs. is_read e) \<and>
      the_trace (KBD101\<lparr>Serial_Port := Some (fresh_port\<lparr>trace :=
       [Write [0x43, 0x04, 0x01, 0x00, 0x50, 0x01], Read 2 [0x91, 0x04], Read 2 [0x44, 0x04],
        Reset_Input, Reset_Output, Write [0x92, 0x04, 0x00, 0x00, 0x50, 0x01]]\<rparr>)\<rparr>) =
      Write [0x43, 0x04, 0x01, 0x00, 0x50, 0x01] # rs @
        [Reset_Input, Reset_Output, Write [0x92, 0x04, 0x00, 0x00, 0x50, 0x01]])"
proof -
  let ?sp = "fresh_port\<lparr>incoming := [[0x91, 0x04], [0x44, 0x04]]\<rparr>"
  let ?K = "KBD101\<lparr>Serial_Port := Some ?sp\<rparr>"
  have h: "constructed KBD101" "Serial_Port KBD101 = Some fresh_port" "is_open fresh_port"
    "0 \<le> get_destination_byte KBD101 1" "get_destination_byte KBD101 1 < 256"
    by (simp_all add: constructed_def KBD101_def fresh_port_def Controller_Types_def
        get_destination_byte_def)
  have k: "constructed ?K" "Serial_Port ?K = Some ?sp" "is_open ?sp"
    "0 \<le> get_destination_byte ?K 1" "get_destination_byte ?K 1 < 256"
    by (simp_all add: constructed_def KBD101_def fresh_port_def Controller_Types_def
        get_destination_byte_def)
  have d: "get_destination_byte KBD101 1 = 0x50" "trace fresh_port = []"
    "get_destination_byte ?K 1 = 0x50" "trace ?sp = []"
    by (simp_all add: KBD101_def fresh_port_def get_destination_byte_def)
  have 1: "Home 1 False KBD101 =
     Some (Inr (), KBD101\<lparr>Serial_Port := Some (fresh_port\<lparr>trace :=
       [Write [0x43, 0x04, 0x01, 0x00, 0x50, 0x01], Reset_Input, Reset_Output,
        Write [0x92, 0x04, 0x00, 0x00, 0x50, 0x01]]\<rparr>)\<rparr>)"
    using home_returns_after_flush_and_keep_alive [OF h] unfolding d by simp
  have 2: "\<exists>rs. (\<forall>e\<in>set rs. is_read e) \<and>
      the_trace (KBD101\<lparr>Serial_Port := Some (fresh_port\<lparr>trace :=
       [Write [0x43, 0x04, 0x01, 0x00, 0x50, 0x01], Read 2 [0x91, 0x04], Read 2 [0x44, 0x04],
        Reset_Input, Reset_Output, Write [0x92, 0x04, 0x00, 0x00, 0x50, 0x01]]\<rparr>)\<rparr>) =
      Write [0x43, 0x04, 0x01, 0x00, 0x50, 0x01] # rs @
        [Reset_Input, Reset_Output, Write [0x92, 0x04, 0x00, 0x00, 0x50, 0x01]]"
    using home_returns_after_flush_and_keep_alive [OF k, THEN conjunct2, rule_format,
        OF Home_example_wait]
    unfolding d by simp
  show ?thesis using h 1 2 Home_example_wait by simp
qed

section \<open>The device-unit target of \<^verbatim>\<open>Move_Absolute\<close>\<close>

lemma rne_error: "\<bar>real_of_int (rne y) - y\<bar> \<le> 1 / 2"
proof -
  have "real_of_int \<lfloor>y\<rfloor> \<le> y" "y < real_of_int \<lfloor>y\<rfloor> + 1" by linarith+
  then show ?thesis by (auto simp: rne_def Let_def)
qed

lemma ulp_pos: "0 < ulp x"
  by (simp add: ulp_def)

lemma nearest_error: "\<bar>nearest x - x\<bar> \<le> ulp x / 2"
proof (cases "x = 0")
  case True
  then show ?thesis using ulp_pos [of x] by (simp add: nearest_def)
next
  case False
  have "real_of_int (rne (x / ulp x)) * ulp x - x = (real_of_int (rne (x / ulp x)) - x / ulp x) * ulp x"
    using ulp_pos [of x] by (simp add: field_simps)
  then have "\<bar>nearest x - x\<bar> = \<bar>real_of_int (rne (x / ulp x)) - x / ulp x\<bar> * ulp x"
    using False ulp_pos [of x] by (simp add: nearest_def abs_mult)
  also have "\<dots> \<le> 1 / 2 * ulp x"
    using rne_error [of "x / ulp x"] ulp_pos [of x] by (intro mult_right_mono) simp_all
  finally show ?thesis by simp
qed

lemma py_int_round_double:
  "py_int (round_double x) = Inr t \<Longrightarrow> t = py_trunc (nearest x) \<and> round_double x = Float (nearest x)"
  by (auto simp: round_double_def split: if_splits)

lemma round_double_in_range:
  assumes "0 \<le> py_trunc (nearest x)" "py_trunc (nearest x) < 4294967296"
  shows "round_double x = Float (nearest x)"
proof -
  have "- 1 < nearest x" using assms(1) by (auto simp: py_trunc_def split: if_splits)
  moreover have "nearest x < 4294967296" using assms by (auto simp: py_trunc_def split: if_splits)
  moreover have "(4294967296::real) < 2 ^ 1024"
  proof -
    have "(2::real) ^ 32 < 2 ^ 1024" by (rule power_strict_increasing) simp_all
    then show ?thesis by simp
  qed
  moreover have "(2::real) powr 1024 = 2 ^ 1024"
    using powr_realpow [of "2::real" 1024] by simp
  ultimately have "\<not> 2 powr 1024 \<le> \<bar>nearest x\<bar>" by linarith
  then show ?thesis by (simp add: round_double_def)
qed

lemma float_mul_finite:
  "\<bar>a * b\<bar> < 2 ^ 53 \<Longrightarrow> nearest (a * b) = y \<Longrightarrow> float_mul (Float a) (Float b) = Float y"
  by (simp only: float_mul.simps round_double_small)

lemma drop8_message:
  "drop 8 [b0, b1, b2, b3, b4, b5, b6, b7, b8, b9, b10, b11] = [b8, b9, b10, b11]"
  by simp

lemma Move_Absolute_write:
  assumes "Serial_Port self = Some sp" "is_open sp" "source_byte self = 0x01"
    "0 \<le> get_destination_byte self c" "get_destination_byte self c < 256"
    "py_int (float_mul (posScaleFactor self) p) = Inr t" "0 \<le> t" "t < 4294967296"
  shows "Move_Absolute p c w self =
      Move_Absolute_after_write c w (self\<lparr>Serial_Port := Some (sp\<lparr>trace := trace sp @
        [Write [0x53, 0x04, 0x06, 0x00, word_of_int (get_destination_byte self c OR 0x80), 0x01,
                0x01, 0x00,
                word_of_int (t mod 256), word_of_int (t div 256 mod 256),
                word_of_int (t div 65536 mod 256), word_of_int (t div 16777216)]]\<rparr>)\<rparr>)"
proof -
  define d where "d = get_destination_byte self c"
  have r: "0 \<le> (d OR 0x80) \<and> (d OR 0x80) < 256"
    using assms(4,5) unfolding d_def [symmetric] by (simp only: dest_flag_range)
  have pk: "pack_HBBBBHI 0x0453 0x06 0x00 (d OR 0x80) 0x01 0x01 t =
      Inr [0x53, 0x04, 0x06, 0x00, word_of_int (d OR 0x80), 0x01, 0x01, 0x00,
           word_of_int (t mod 256), word_of_int (t div 256 mod 256),
           word_of_int (t div 65536 mod 256), word_of_int (t div 16777216)]"
    unfolding pack_HBBBBHI_Inr using r assms(7,8) by simp
  show ?thesis
    using assms(1,2,3,6) unfolding d_def [symmetric]
    by (simp add: Move_Absolute_def Move_Absolute_after_write_def Serial_Port_write_def
        Serial_Port_call_def port_write_def record_event_def d_def [symmetric] pk)
qed

lemma Move_Absolute_out_of_range:
  assumes "Serial_Port self = Some sp" "py_int (float_mul (posScaleFactor self) p) = Inr t"
    "t < 0 \<or> 4294967296 \<le> t"
  shows "Move_Absolute p c w self = Some (Inl StructError, self)"
proof -
  have "\<And>m. pack_HBBBBHI 0x0453 0x06 0x00 (get_destination_byte self c OR 0x80)
           (source_byte self) 0x01 t \<noteq> Inr m"
    unfolding pack_HBBBBHI_Inr using assms(3) by auto
  moreover have "\<And>e. pack_HBBBBHI a b c' d e' f g = Inl e \<Longrightarrow> e = StructError" for a b c' d e' f g
    by (auto simp: pack_HBBBBHI_def split: if_splits sum.splits)
  ultimately obtain "pack_HBBBBHI 0x0453 0x06 0x00 (get_destination_byte self c OR 0x80)
           (source_byte self) 0x01 t = Inl StructError"
    by (cases "pack_HBBBBHI 0x0453 0x06 0x00 (get_destination_byte self c OR 0x80)
           (source_byte self) 0x01 t") auto
  then show ?thesis using assms(1,2)
    by (simp add: Move_Absolute_def Serial_Port_write_def)
qed

lemma Move_Absolute_not_finite:
  assumes "py_int (float_mul (posScaleFactor self) p) = Inl e"
  shows "(e = OverflowError \<or> e = ValueError) \<and> Move_Absolute p c w self = Some (Inl e, self)"
proof -
  have "e = OverflowError \<or> e = ValueError"
    using assms by (cases "float_mul (posScaleFactor self) p") auto
  then show ?thesis using assms by (simp add: Move_Absolute_def)
qed

lemma Move_Absolute_target:
  assumes "Move_Absolute p c w self = Some (Inr u, self')"
  shows "\<exists>t msg rest. py_int (float_mul (posScaleFactor self) p) = Inr t \<and>
           the_trace self' = the_trace self @ Write msg # rest \<and> length msg = 12 \<and>
           le_uint (drop 8 msg) = t \<and> 0 \<le> t \<and> t < 4294967296 \<and>
           0 \<le> get_destination_byte self c \<and> get_destination_byte self c < 256 \<and>
           0 \<le> source_byte self \<and> source_byte self < 256 \<and>
           (\<exists>sp'. Serial_Port self' = Some sp' \<and> is_open sp') \<and>
           posScaleFactor self' = posScaleFactor self \<and>
           get_destination_byte self' c = get_destination_byte self c \<and>
           source_byte self' = source_byte self"
proof -
  from Move_Absolute_Inr [OF assms] obtain t msg ka rs where
    pi: "py_int (float_mul (posScaleFactor self) p) = Inr t"
    and pk: "pack_HBBBBHI 0x0453 0x06 0x00 (get_destination_byte self c OR 0x80) (source_byte self)
            0x01 t = Inr msg"
    and a: "advanced self (Write msg # rs @ [Reset_Input, Reset_Output, Write ka]) self'"
    by blast
  from pk have t: "0 \<le> t" "t < 4294967296"
    and d: "0 \<le> (get_destination_byte self c OR 0x80) \<and> (get_destination_byte self c OR 0x80) < 256"
    and s: "0 \<le> source_byte self" "source_byte self < 256"
    and m: "msg = [word_of_int (0x0453 mod 256), word_of_int (0x0453 div 256), word_of_int 0x06,
          word_of_int 0x00, word_of_int (get_destination_byte self c OR 0x80),
          word_of_int (source_byte self),
          word_of_int (0x01 mod 256), word_of_int (0x01 div 256),
          word_of_int (t mod 256), word_of_int (t div 256 mod 256),
          word_of_int (t div 65536 mod 256), word_of_int (t div 16777216)]"
    unfolding pack_HBBBBHI_Inr by blast+
  have dd: "0 \<le> get_destination_byte self c \<and> get_destination_byte self c < 256"
    using d by (simp only: dest_flag_range)
  have l: "length msg = 12" unfolding m by simp
  have v: "le_uint (drop 8 msg) = t"
    unfolding m drop8_message by (rule le_uint_I [OF t])
  have o: "\<exists>sp'. Serial_Port self' = Some sp' \<and> is_open sp'"
    using a by (auto simp: advanced_def split: option.splits)
  show ?thesis
    using advanced_config [OF a] pi l v t dd s o by blast
qed

text \<open>Whatever a call returns, it has only added events to the record of the connection.\<close>

lemma call_extends:
  assumes "\<And>sp r sp'. f sp = (r, sp') \<Longrightarrow> \<exists>evs. trace sp' = trace sp @ evs"
    and "Serial_Port_call f s = (r, s')"
  shows "\<exists>evs. the_trace s' = the_trace s @ evs"
proof (cases "Serial_Port s")
  case None
  with assms(2) show ?thesis by (simp add: Serial_Port_call_def)
next
  case (Some sp)
  obtain r0 sp' where f: "f sp = (r0, sp')" by (cases "f sp")
  with Some assms(2) have "s' = s\<lparr>Serial_Port := Some sp'\<rparr>"
    by (simp add: Serial_Port_call_def)
  with Some assms(1) [OF f] show ?thesis by (simp add: the_trace_def)
qed

lemma read_extends:
  "Serial_Port_call (port_read n) s = (r, s') \<Longrightarrow> \<exists>evs. the_trace s' = the_trace s @ evs"
  by (erule call_extends [rotated])
     (auto simp: port_read_def record_event_def split: if_splits list.splits)

lemma reset_input_extends:
  "Serial_Port_call reset_input_buffer s = (r, s') \<Longrightarrow> \<exists>evs. the_trace s' = the_trace s @ evs"
  by (erule call_extends [rotated])
     (auto simp: reset_input_buffer_def record_event_def split: if_splits)

lemma reset_output_extends:
  "Serial_Port_call reset_output_buffer s = (r, s') \<Longrightarrow> \<exists>evs. the_trace s' = the_trace s @ evs"
  by (erule call_extends [rotated])
     (auto simp: reset_output_buffer_def record_event_def split: if_splits)

lemma write_extends:
  assumes "Serial_Port_write packed s = (r, s')"
  shows "\<exists>evs. the_trace s' = the_trace s @ evs"
proof (cases "\<exists>sp msg. Serial_Port s = Some sp \<and> packed = Inr msg")
  case True
  then obtain sp msg where "Serial_Port s = Some sp" "packed = Inr msg" by blast
  with assms have "Serial_Port_call (port_write msg) s = (r, s')"
    by (simp add: Serial_Port_write_def)
  then show ?thesis
    by (rule call_extends [rotated])
       (auto simp: port_write_def record_event_def split: if_splits)
next
  case False
  with assms have "s' = s"
    by (auto simp: Serial_Port_write_def split: option.splits sum.splits)
  then show ?thesis by simp
qed

lemma io_then_extends:
  assumes "\<And>s r s'. m s = (r, s') \<Longrightarrow> \<exists>evs. the_trace s' = the_trace s @ evs"
    and "\<And>s r s'. n s = (r, s') \<Longrightarrow> \<exists>evs. the_trace s' = the_trace s @ evs"
    and "io_then m n s = (r, s')"
  shows "\<exists>evs. the_trace s' = the_trace s @ evs"
proof -
  obtain r1 s1 where m: "m s = (r1, s1)" by (cases "m s")
  from assms(1) [OF m] obtain e1 where e1: "the_trace s1 = the_trace s @ e1" by blast
  show ?thesis
  proof (cases r1)
    case (Inl e)
    with m assms(3) have "s' = s1" by (simp add: io_then_def io_bind_def)
    with e1 show ?thesis by blast
  next
    case (Inr x)
    with m assms(3) have "n s1 = (r, s')" by (simp add: io_then_def io_bind_def)
    from assms(2) [OF this] obtain e2 where "the_trace s' = the_trace s1 @ e2" by blast
    with e1 show ?thesis by simp
  qed
qed

lemma Flush_Buffers_extends:
  "Flush_Buffers s = (r, s') \<Longrightarrow> \<exists>evs. the_trace s' = the_trace s @ evs"
  unfolding Flush_Buffers_def
  by (erule io_then_extends [rotated 2]) (erule reset_input_extends reset_output_extends)+

lemma Stay_Alive_extends:
  "Stay_Alive c s = (r, s') \<Longrightarrow> \<exists>evs. the_trace s' = the_trace s @ evs"
  unfolding Stay_Alive_def by (rule write_extends)

lemma wait_loop_extends:
  "wait_loop code Rx s = Some y \<Longrightarrow> \<exists>evs. the_trace (snd y) = the_trace s @ evs"
proof (induction rule: wait_loop.raw_induct [rotated 1, consumes 1])
  case (1 wl code Rx s y)
  show ?case
  proof (cases "Rx = code")
    case True
    with 1(2) have "y = (Inr (), s)" by simp
    then show ?thesis by simp
  next
    case False
    obtain r1 s1 where c: "Serial_Port_call (port_read 2) s = (r1, s1)"
      by (cases "Serial_Port_call (port_read 2) s")
    from read_extends [OF c] obtain e1 where e1: "the_trace s1 = the_trace s @ e1" by blast
    show ?thesis
    proof (cases r1)
      case (Inl e)
      with False c 1(2) have "y = (Inl e, s1)" by simp
      with e1 show ?thesis by simp
    next
      case (Inr Rx')
      with False c 1(2) have "wl code Rx' s1 = Some y" by simp
      from 1(1) [OF this] obtain e2 where "the_trace (snd y) = the_trace s1 @ e2" by blast
      with e1 show ?thesis by simp
    qed
  qed
qed

lemma wait_for_extends:
  assumes "wait_for code s = Some (r, s')"
  shows "\<exists>evs. the_trace s' = the_trace s @ evs"
proof (cases "pack [(Fmt_H, code)]")
  case (Inl e)
  with assms have "s' = s" by (simp add: wait_for_def)
  then show ?thesis by simp
next
  case (Inr bs)
  with assms have "wait_loop bs [] s = Some (r, s')" by (simp add: wait_for_def)
  from wait_loop_extends [OF this] show ?thesis by simp
qed

lemma after_write_extends:
  assumes "Move_Absolute_after_write c w s1 = Some (r, s')"
  shows "\<exists>evs. the_trace s' = the_trace s1 @ evs"
proof -
  have fk: "\<exists>evs. the_trace b = the_trace a @ evs"
    if "io_then Flush_Buffers (Stay_Alive c) a = (q, b)" for a q b
    using that by (rule io_then_extends [rotated 2]) (erule Flush_Buffers_extends Stay_Alive_extends)+
  show ?thesis
  proof (cases w)
    case False
    with assms have "io_then Flush_Buffers (Stay_Alive c) s1 = (r, s')"
      by (simp add: Move_Absolute_after_write_def)
    then show ?thesis by (rule fk)
  next
    case True
    with assms obtain r2 s2 where w2: "wait_for 0x0464 s1 = Some (r2, s2)"
      by (auto simp: Move_Absolute_after_write_def split: option.splits)
    from wait_for_extends [OF w2] obtain e1 where e1: "the_trace s2 = the_trace s1 @ e1" by blast
    show ?thesis
    proof (cases r2)
      case (Inl e)
      with True assms w2 have "s' = s2" by (simp add: Move_Absolute_after_write_def)
      with e1 show ?thesis by blast
    next
      case (Inr u)
      with True assms w2 have "io_then Flush_Buffers (Stay_Alive c) s2 = (r, s')"
        by (simp add: Move_Absolute_after_write_def)
      from fk [OF this] obtain e2 where "the_trace s' = the_trace s2 @ e2" by blast
      with e1 show ?thesis by simp
    qed
  qed
qed

lemma Move_Absolute_written:
  assumes "Serial_Port self = Some sp"
    "Move_Absolute p c w self =
       Move_Absolute_after_write c w (self\<lparr>Serial_Port := Some (sp\<lparr>trace := trace sp @ [Write msg]\<rparr>)\<rparr>)"
    "Move_Absolute p c w self = Some (r, s')"
  shows "\<exists>rest. the_trace s' = the_trace self @ Write msg # rest"
proof -
  from assms(2,3) have "Move_Absolute_after_write c w
      (self\<lparr>Serial_Port := Some (sp\<lparr>trace := trace sp @ [Write msg]\<rparr>)\<rparr>) = Some (r, s')" by simp
  from after_write_extends [OF this] assms(1) show ?thesis by (simp add: the_trace_def)
qed

lemma product_example: "float_mul (Float 2000) (Float (1 / 2048)) = Float (125 / 128)"
proof (rule float_mul_finite)
  show "\<bar>2000 * (1 / 2048)\<bar> < (2::real) ^ 53" by simp
  show "nearest (2000 * (1 / 2048)) = 125 / 128"
    by (subst nearest_below_one [where m = 1]) (simp_all add: rne_def)
qed

lemma KBD101_ready:
  "constructed KBD101" "Serial_Port KBD101 = Some fresh_port" "is_open fresh_port"
  "0 \<le> get_destination_byte KBD101 1" "get_destination_byte KBD101 1 < 256"
  by (simp_all add: constructed_def KBD101_def fresh_port_def Controller_Types_def
      get_destination_byte_def)

lemma KBD101_moving_ready:
  "constructed (KBD101\<lparr>Serial_Port := Some (fresh_port\<lparr>incoming := [[0x64, 0x04]]\<rparr>)\<rparr>)"
  "Serial_Port (KBD101\<lparr>Serial_Port := Some (fresh_port\<lparr>incoming := [[0x64, 0x04]]\<rparr>)\<rparr>) =
     Some (fresh_port\<lparr>incoming := [[0x64, 0x04]]\<rparr>)"
  "is_open (fresh_port\<lparr>incoming := [[0x64, 0x04]]\<rparr>)"
  "0 \<le> get_destination_byte (KBD101\<lparr>Serial_Port := Some (fresh_port\<lparr>incoming := [[0x64, 0x04]]\<rparr>)\<rparr>) 1"
  "get_destination_byte (KBD101\<lparr>Serial_Port := Some (fresh_port\<lparr>incoming := [[0x64, 0x04]]\<rparr>)\<rparr>) 1 < 256"
  by (simp_all add: constructed_def KBD101_def fresh_port_def Controller_Types_def
      get_destination_byte_def)

lemma after_write_example:
  "Move_Absolute_after_write 1 False (KBD101\<lparr>Serial_Port := Some (fresh_port\<lparr>trace :=
       [Write [0x53, 0x04, 0x06, 0x00, 0xD0, 0x01, 0x01, 0x00, b8, b9, b10, b11]]\<rparr>)\<rparr>) =
     Some (Inr (), KBD101\<lparr>Serial_Port := Some (fresh_port\<lparr>trace :=
       [Write [0x53, 0x04, 0x06, 0x00, 0xD0, 0x01, 0x01, 0x00, b8, b9, b10, b11],
        Reset_Input, Reset_Output, Write [0x92, 0x04, 0x00, 0x00, 0x50, 0x01]]\<rparr>)\<rparr>)"
  by (simp add: Move_Absolute_after_write_def KBD101_def fresh_port_def
      get_destination_byte_def Serial_Port_write_def Serial_Port_call_def port_write_def
      record_event_def io_then_def io_bind_def Flush_Buffers_def Stay_Alive_def
      reset_input_buffer_def reset_output_buffer_def pack_HBBBB_def)

lemma after_write_example_wait:
  "Move_Absolute_after_write 1 True (KBD101\<lparr>Serial_Port := Some (fresh_port\<lparr>
       incoming := [[0x64, 0x04]], trace :=
       [Write [0x53, 0x04, 0x06, 0x00, 0xD0, 0x01, 0x01, 0x00, b8, b9, b10, b11]]\<rparr>)\<rparr>) =
     Some (Inr (), KBD101\<lparr>Serial_Port := Some (fresh_port\<lparr>trace :=
       [Write [0x53, 0x04, 0x06, 0x00, 0xD0, 0x01, 0x01, 0x00, b8, b9, b10, b11],
        Read 2 [0x64, 0x04],
        Reset_Input, Reset_Output, Write [0x92, 0x04, 0x00, 0x00, 0x50, 0x01]]\<rparr>)\<rparr>)"
  by (simp add: Move_Absolute_after_write_def KBD101_def fresh_port_def wait_for_def
      wait_loop.simps get_destination_byte_def Serial_Port_write_def Serial_Port_call_def
      port_write_def port_read_def record_event_def io_then_def io_bind_def Flush_Buffers_def
      Stay_Alive_def reset_input_buffer_def reset_output_buffer_def pack_HBBBB_def)

text \<open>
  C2 (as the code has it). Let the session have an open connection, a channel whose
  destination fits in a byte and a finite position scale factor \<open>s\<close>, and let the
  position \<open>p\<close> be finite with a finite double product \<open>x = s * p\<close> (the exact product
  rounded to the nearest double). If \<^verbatim>\<open>int(x)\<close>, which is \<open>x\<close> truncated towards
  zero, lies between \<open>0\<close> and \<open>2^32 - 1\<close>, then \<^verbatim>\<open>Move_Absolute(p, channel, wait)\<close>,
  with either value of \<^verbatim>\<open>wait\<close>, first writes a 12-byte message whose last four
  bytes are that number as a little-endian unsigned integer, and goes on with the
  optional wait, the flush and the keep-alive; whatever the call returns, the record of
  the connection continues with that message. The target is less than one device unit
  away from the exact product; it is not the product rounded to the nearest integer.
\<close>

theorem move_absolute_target_truncates:
  assumes "constructed self" "Serial_Port self = Some sp" "is_open sp"
    "0 \<le> get_destination_byte self c" "get_destination_byte self c < 256"
    "posScaleFactor self = Float s" "float_mul (Float s) (Float p) = Float x"
    "0 \<le> py_trunc x" "py_trunc x < 4294967296"
  shows "\<exists>msg. length msg = 12 \<and>
           Move_Absolute (Float p) c w self =
             Move_Absolute_after_write c w
               (self\<lparr>Serial_Port := Some (sp\<lparr>trace := trace sp @ [Write msg]\<rparr>)\<rparr>) \<and>
           (\<forall>r s'. Move_Absolute (Float p) c w self = Some (r, s') \<longrightarrow>
              (\<exists>rest. the_trace s' = the_trace self @ Write msg # rest)) \<and>
           le_uint (drop 8 msg) = py_trunc x \<and>
           x = nearest (s * p) \<and>
           \<bar>real_of_int (le_uint (drop 8 msg)) - s * p\<bar> < 1"
proof -
  let ?t = "py_trunc x"
  let ?msg = "[0x53, 0x04, 0x06, 0x00, word_of_int (get_destination_byte self c OR 0x80), 0x01,
               0x01, 0x00,
               word_of_int (?t mod 256), word_of_int (?t div 256 mod 256),
               word_of_int (?t div 65536 mod 256), word_of_int (?t div 16777216)] :: byte list"
  from assms(7) have "round_double (s * p) = Float x" by simp
  then have xn: "x = nearest (s * p)" by (auto simp: round_double_def split: if_splits)
  have pi: "py_int (float_mul (posScaleFactor self) (Float p)) = Inr ?t"
    unfolding assms(6,7) by simp
  have src: "source_byte self = 0x01" using assms(1) by (simp add: constructed_def)
  have eq: "Move_Absolute (Float p) c w self =
      Move_Absolute_after_write c w
        (self\<lparr>Serial_Port := Some (sp\<lparr>trace := trace sp @ [Write ?msg]\<rparr>)\<rparr>)"
    by (rule Move_Absolute_write [OF assms(2,3) src assms(4,5) pi assms(8,9)])
  have tr: "\<forall>r s'. Move_Absolute (Float p) c w self = Some (r, s') \<longrightarrow>
              (\<exists>rest. the_trace s' = the_trace self @ Write ?msg # rest)"
    using Move_Absolute_written [OF assms(2) eq] by blast
  have len: "length ?msg = 12" by simp
  have v: "le_uint (drop 8 ?msg) = ?t"
    unfolding drop8_message by (rule le_uint_I [OF assms(8,9)])
  have "\<bar>real_of_int (py_trunc x) - s * p\<bar> < 1"
    using assms(8,9) unfolding xn by (intro trunc_nearest_error) simp_all
  then have err: "\<bar>real_of_int (le_uint (drop 8 ?msg)) - s * p\<bar> < 1"
    unfolding v .
  show ?thesis using len eq tr v xn err by (intro exI [of _ ?msg] conjI)
qed

lemma truncation_example: "py_trunc (125 / 128) = 0"
  by (simp add: py_trunc_def)

text \<open>
  The position \<open>0.0045\<close> is the double \<open>5188146770730811 / 2^60\<close>. Its exact product
  with \<open>2000\<close> is a little less than \<open>9\<close>; the double product is \<open>9\<close>.
\<close>

lemma product_example_9:
  "float_mul (Float 2000) (Float (5188146770730811 / 2 ^ 60)) = Float 9"
proof (rule float_mul_finite)
  show "\<bar>2000 * (5188146770730811 / 2 ^ 60)\<bar> < (2::real) ^ 53" by simp
  show "nearest (2000 * (5188146770730811 / 2 ^ 60)) = 9"
    by (subst nearest_at_binade [where e = 3]) (simp_all add: rne_def)
qed

lemma truncation_example_9: "py_trunc 9 = 9"
  by (simp add: py_trunc_def)

theorem move_absolute_target_truncates_witness:
  "constructed KBD101 \<and> Serial_Port KBD101 = Some fresh_port \<and> is_open fresh_port \<and>
   0 \<le> get_destination_byte KBD101 1 \<and> get_destination_byte KBD101 1 < 256 \<and>
   posScaleFactor KBD101 = Float 2000 \<and>
   float_mul (Float 2000) (Float (5188146770730811 / 2 ^ 60)) = Float 9 \<and>
   py_trunc 9 = 9 \<and>
   2000 * (5188146770730811 / 2 ^ 60) < (9 :: real) \<and>
   Move_Absolute (Float (5188146770730811 / 2 ^ 60)) 1 False KBD101 =
     Some (Inr (), (KBD101\<lparr>Serial_Port := Some (fresh_port\<lparr>trace :=
       [Write [0x53, 0x04, 0x06, 0x00, 0xD0, 0x01, 0x01, 0x00, 0x09, 0x00, 0x00, 0x00],
        Reset_Input, Reset_Output, Write [0x92, 0x04, 0x00, 0x00, 0x50, 0x01]]\<rparr>)\<rparr>)) \<and>
   (\<exists>msg. length msg = 12 \<and>
      Move_Absolute (Float (5188146770730811 / 2 ^ 60)) 1 False KBD101 =
        Move_Absolute_after_write 1 False
          (KBD101\<lparr>Serial_Port := Some (fresh_port\<lparr>trace := trace fresh_port @ [Write msg]\<rparr>)\<rparr>) \<and>
      (\<exists>rest. the_trace (KBD101\<lparr>Serial_Port := Some (fresh_port\<lparr>trace :=
       [Write [0x53, 0x04, 0x06, 0x00, 0xD0, 0x01, 0x01, 0x00, 0x09, 0x00, 0x00, 0x00],
        Reset_Input, Reset_Output, Write [0x92, 0x04, 0x00, 0x00, 0x50, 0x01]]\<rparr>)\<rparr>) = the_trace KBD101 @ Write msg # rest) \<and>
      le_uint (drop 8 msg) = 9 \<and>
      \<bar>real_of_int (le_uint (drop 8 msg)) - 2000 * (5188146770730811 / 2 ^ 60)\<bar> < 1) \<and>
   float_mul (Float 2000) (Float (1 / 2048)) = Float (125 / 128) \<and>
   py_trunc (125 / 128) = 0 \<and>
   Move_Absolute (Float (1 / 2048)) 1 True
       (KBD101\<lparr>Serial_Port := Some (fresh_port\<lparr>incoming := [[0x64, 0x04]]\<rparr>)\<rparr>) =
     Some (Inr (), (KBD101\<lparr>Serial_Port := Some (fresh_port\<lparr>trace :=
       [Write [0x53, 0x04, 0x06, 0x00, 0xD0, 0x01, 0x01, 0x00, 0x00, 0x00, 0x00, 0x00],
        Read 2 [0x64, 0x04],
        Reset_Input, Reset_Output, Write [0x92, 0x04, 0x00, 0x00, 0x50, 0x01]]\<rparr>)\<rparr>)) \<and>
   (\<exists>msg. length msg = 12 \<and>
      Move_Absolute (Float (1 / 2048)) 1 True
          (KBD101\<lparr>Serial_Port := Some (fresh_port\<lparr>incoming := [[0x64, 0x04]]\<rparr>)\<rparr>) =
        Move_Absolute_after_write 1 True
          (KBD101\<lparr>Serial_Port := Some (fresh_port\<lparr>incoming := [[0x64, 0x04]],
             trace := trace (fresh_port\<lparr>incoming := [[0x64, 0x04]]\<rparr>) @ [Write msg]\<rparr>)\<rparr>) \<and>
      (\<exists>rest. the_trace (KBD101\<lparr>Serial_Port := Some (fresh_port\<lparr>trace :=
       [Write [0x53, 0x04, 0x06, 0x00, 0xD0, 0x01, 0x01, 0x00, 0x00, 0x00, 0x00, 0x00],
        Read 2 [0x64, 0x04],
        Reset_Input, Reset_Output, Write [0x92, 0x04, 0x00, 0x00, 0x50, 0x01]]\<rparr>)\<rparr>) =
         the_trace (KBD101\<lparr>Serial_Port := Some (fresh_port\<lparr>incoming := [[0x64, 0x04]]\<rparr>)\<rparr>) @ Write msg # rest) \<and>
      le_uint (drop 8 msg) = 0 \<and>
      \<bar>real_of_int (le_uint (drop 8 msg)) - 2000 * (1 / 2048)\<bar> < 1)"
proof -
  let ?K = "KBD101\<lparr>Serial_Port := Some (fresh_port\<lparr>incoming := [[0x64, 0x04]]\<rparr>)\<rparr>"
  let ?KB = "(KBD101\<lparr>Serial_Port := Some (fresh_port\<lparr>trace :=
       [Write [0x53, 0x04, 0x06, 0x00, 0xD0, 0x01, 0x01, 0x00, 0x09, 0x00, 0x00, 0x00],
        Reset_Input, Reset_Output, Write [0x92, 0x04, 0x00, 0x00, 0x50, 0x01]]\<rparr>)\<rparr>)"
  let ?K2 = "(KBD101\<lparr>Serial_Port := Some (fresh_port\<lparr>trace :=
       [Write [0x53, 0x04, 0x06, 0x00, 0xD0, 0x01, 0x01, 0x00, 0x00, 0x00, 0x00, 0x00],
        Read 2 [0x64, 0x04],
        Reset_Input, Reset_Output, Write [0x92, 0x04, 0x00, 0x00, 0x50, 0x01]]\<rparr>)\<rparr>)"
  let ?p9 = "(Float (5188146770730811 / 2 ^ 60))"
  have s: "posScaleFactor KBD101 = Float 2000" "posScaleFactor ?K = Float 2000"
    by (simp_all add: KBD101_def)
  have src: "source_byte KBD101 = 0x01" "source_byte ?K = 0x01" by (simp_all add: KBD101_def)
  have lt: "2000 * (5188146770730811 / 2 ^ 60) < (9 :: real)" by simp
  have pi9: "py_int (float_mul (posScaleFactor KBD101) ?p9) = Inr 9"
    unfolding s product_example_9 by (simp add: truncation_example_9)
  have "Move_Absolute ?p9 1 False KBD101 =
      Move_Absolute_after_write 1 False (KBD101\<lparr>Serial_Port := Some (fresh_port\<lparr>trace :=
       [Write [0x53, 0x04, 0x06, 0x00, 0xD0, 0x01, 0x01, 0x00, 0x09, 0x00, 0x00, 0x00]]\<rparr>)\<rparr>)"
    using Move_Absolute_write [OF KBD101_ready(2,3) src(1) KBD101_ready(4,5) pi9, of False]
    by (simp add: get_destination_byte_def KBD101_def fresh_port_def)
  then have c9: "Move_Absolute ?p9 1 False KBD101 = Some (Inr (), ?KB)"
    by (simp only: after_write_example)
  have pi: "py_int (float_mul (posScaleFactor ?K) (Float (1 / 2048))) = Inr 0"
    unfolding s product_example by (simp add: truncation_example)
  have "Move_Absolute (Float (1 / 2048)) 1 True ?K =
      Move_Absolute_after_write 1 True (KBD101\<lparr>Serial_Port := Some (fresh_port\<lparr>
       incoming := [[0x64, 0x04]], trace :=
       [Write [0x53, 0x04, 0x06, 0x00, 0xD0, 0x01, 0x01, 0x00, 0x00, 0x00, 0x00, 0x00]]\<rparr>)\<rparr>)"
    using Move_Absolute_write [OF KBD101_moving_ready(2,3) src(2) KBD101_moving_ready(4,5) pi, of True]
    by (simp add: get_destination_byte_def KBD101_def fresh_port_def)
  then have c: "Move_Absolute (Float (1 / 2048)) 1 True ?K = Some (Inr (), ?K2)"
    by (simp only: after_write_example_wait)
  have r9: "0 \<le> py_trunc 9" "py_trunc 9 < 4294967296"
    unfolding truncation_example_9 by simp_all
  have r: "0 \<le> py_trunc (125 / 128)" "py_trunc (125 / 128) < 4294967296"
    unfolding truncation_example by simp_all
  from move_absolute_target_truncates [OF KBD101_ready s(1) product_example_9 r9, of False]
  obtain m1 where 1: "length m1 = 12"
    "Move_Absolute ?p9 1 False KBD101 =
        Move_Absolute_after_write 1 False
          (KBD101\<lparr>Serial_Port := Some (fresh_port\<lparr>trace := trace fresh_port @ [Write m1]\<rparr>)\<rparr>)"
    "\<And>r s'. Move_Absolute ?p9 1 False KBD101 = Some (r, s') \<Longrightarrow>
       \<exists>rest. the_trace s' = the_trace KBD101 @ Write m1 # rest"
    "le_uint (drop 8 m1) = py_trunc 9"
    "\<bar>real_of_int (le_uint (drop 8 m1)) - 2000 * (5188146770730811 / 2 ^ 60)\<bar> < 1"
    by blast
  from move_absolute_target_truncates [OF KBD101_moving_ready s(2) product_example r, of True]
  obtain m2 where 2: "length m2 = 12"
    "Move_Absolute (Float (1 / 2048)) 1 True ?K =
        Move_Absolute_after_write 1 True
          (?K\<lparr>Serial_Port := Some (fresh_port\<lparr>incoming := [[0x64, 0x04]],
             trace := trace (fresh_port\<lparr>incoming := [[0x64, 0x04]]\<rparr>) @ [Write m2]\<rparr>)\<rparr>)"
    "\<And>r s'. Move_Absolute (Float (1 / 2048)) 1 True ?K = Some (r, s') \<Longrightarrow>
       \<exists>rest. the_trace s' = the_trace ?K @ Write m2 # rest"
    "le_uint (drop 8 m2) = py_trunc (125 / 128)"
    "\<bar>real_of_int (le_uint (drop 8 m2)) - 2000 * (1 / 2048)\<bar> < 1"
    by blast
  have e1: "\<exists>msg. length msg = 12 \<and>
      Move_Absolute ?p9 1 False KBD101 =
        Move_Absolute_after_write 1 False
          (KBD101\<lparr>Serial_Port := Some (fresh_port\<lparr>trace := trace fresh_port @ [Write msg]\<rparr>)\<rparr>) \<and>
      (\<exists>rest. the_trace ?KB = the_trace KBD101 @ Write msg # rest) \<and>
      le_uint (drop 8 msg) = 9 \<and>
      \<bar>real_of_int (le_uint (drop 8 msg)) - 2000 * (5188146770730811 / 2 ^ 60)\<bar> < 1"
    using 1(1,2) 1(3) [OF c9] 1(4,5) unfolding truncation_example_9
    by (intro exI [of _ m1] conjI)
  have e2: "\<exists>msg. length msg = 12 \<and>
      Move_Absolute (Float (1 / 2048)) 1 True ?K =
        Move_Absolute_after_write 1 True
          (KBD101\<lparr>Serial_Port := Some (fresh_port\<lparr>incoming := [[0x64, 0x04]],
             trace := trace (fresh_port\<lparr>incoming := [[0x64, 0x04]]\<rparr>) @ [Write msg]\<rparr>)\<rparr>) \<and>
      (\<exists>rest. the_trace ?K2 = the_trace ?K @ Write msg # rest) \<and>
      le_uint (drop 8 msg) = 0 \<and>
      \<bar>real_of_int (le_uint (drop 8 msg)) - 2000 * (1 / 2048)\<bar> < 1"
    using 2(1,2) 2(3) [OF c] 2(4,5) unfolding truncation_example
    by (intro exI [of _ m2] conjI) simp_all
  show ?thesis
    using KBD101_ready s(1) product_example_9 truncation_example_9 lt c9 e1
      product_example truncation_example c e2
    by (intro conjI)
qed

text \<open>
  The claim as stated fails on the docstring's cube session at the position \<open>2^-11\<close>
  (\<open>0.00048828125\<close>): the product with the scale factor \<open>2000\<close> is the double
  \<open>0.9765625\<close>, the target written is \<open>0\<close>, and the nearest integer is \<open>1\<close>.
\<close>

theorem move_absolute_target_round_counterexample:
  "float_mul (posScaleFactor KBD101) (Float (1 / 2048)) = Float (125 / 128) \<and>
   round (125 / 128 :: real) = (1 :: int) \<and>
   Move_Absolute (Float (1 / 2048)) 1 False KBD101 =
     Some (Inr (), KBD101\<lparr>Serial_Port := Some (fresh_port\<lparr>trace :=
       [Write [0x53, 0x04, 0x06, 0x00, 0xD0, 0x01, 0x01, 0x00, 0x00, 0x00, 0x00, 0x00],
        Reset_Input, Reset_Output, Write [0x92, 0x04, 0x00, 0x00, 0x50, 0x01]]\<rparr>)\<rparr>) \<and>
   le_uint [0x00, 0x00, 0x00, 0x00] = 0"
proof -
  have s: "posScaleFactor KBD101 = Float 2000" by (simp add: KBD101_def)
  have pi: "py_int (float_mul (posScaleFactor KBD101) (Float (1 / 2048))) = Inr 0"
    unfolding s product_example by (simp add: truncation_example)
  have src: "source_byte KBD101 = 0x01" by (simp add: KBD101_def)
  have "Move_Absolute (Float (1 / 2048)) 1 False KBD101 =
      Move_Absolute_after_write 1 False (KBD101\<lparr>Serial_Port := Some (fresh_port\<lparr>trace :=
       [Write [0x53, 0x04, 0x06, 0x00, 0xD0, 0x01, 0x01, 0x00, 0x00, 0x00, 0x00, 0x00]]\<rparr>)\<rparr>)"
    using Move_Absolute_write [OF KBD101_ready(2,3) src KBD101_ready(4,5) pi, of False]
    by (simp add: get_destination_byte_def KBD101_def fresh_port_def)
  then have m: "Move_Absolute (Float (1 / 2048)) 1 False KBD101 =
     Some (Inr (), KBD101\<lparr>Serial_Port := Some (fresh_port\<lparr>trace :=
       [Write [0x53, 0x04, 0x06, 0x00, 0xD0, 0x01, 0x01, 0x00, 0x00, 0x00, 0x00, 0x00],
        Reset_Input, Reset_Output, Write [0x92, 0x04, 0x00, 0x00, 0x50, 0x01]]\<rparr>)\<rparr>)"
    by (simp only: after_write_example)
  have f: "float_mul (posScaleFactor KBD101) (Float (1 / 2048)) = Float (125 / 128)"
    unfolding s by (rule product_example)
  have r: "round (125 / 128 :: real) = (1 :: int)" by (simp add: round_def)
  have l: "le_uint [0x00, 0x00, 0x00, 0x00] = 0" by simp
  from f r m l show ?thesis by (intro conjI)
qed

lemma product_example_25: "float_mul (Float 2000) (Float 25) = Float 50000"
  using round_double_small [of 50000] nearest_of_int [of 50000] by simp

lemma product_example_negative: "float_mul (Float 2000) (Float (- 1)) = Float (- 2000)"
  using round_double_small [of "- 2000"] nearest_of_int [of "- 2000"] by simp

text \<open>
  C3 (as the code has it). The message of \<^verbatim>\<open>Move_Absolute\<close> is packed with the format
  \<^verbatim>\<open><HBBBBHI\<close>: after the six header bytes (destination with the top bit set) comes a
  16-bit field that always holds \<open>1\<close>, then the device-unit target as an unsigned 32-bit
  little-endian number. On a constructed session with an open connection and a channel
  whose destination fits in a byte, every call \<^verbatim>\<open>Move_Absolute(p, channel, wait)\<close>
  does one of three things. With a target from \<open>0\<close> to \<open>2^32 - 1\<close> it writes the message
  in that layout and goes on with the optional wait, the flush and the keep-alive, so
  that whatever the call returns, the record of the connection continues with that
  message. With
  a target outside that range, in particular a negative one, it raises
  \<^verbatim>\<open>struct.error\<close> and nothing is written. When the product of scale factor and
  position is an infinity or a NaN there is no target: \<^verbatim>\<open>int\<close> raises
  \<^verbatim>\<open>OverflowError\<close> or \<^verbatim>\<open>ValueError\<close> and nothing is written.
\<close>

theorem move_absolute_payload_unsigned:
  assumes "constructed self" "Serial_Port self = Some sp" "is_open sp"
    "0 \<le> get_destination_byte self c" "get_destination_byte self c < 256"
  shows
    "(\<forall>t. py_int (float_mul (posScaleFactor self) p) = Inr t \<and> 0 \<le> t \<and> t < 4294967296 \<longrightarrow>
        Move_Absolute p c w self =
          Move_Absolute_after_write c w (self\<lparr>Serial_Port := Some (sp\<lparr>trace := trace sp @
            [Write [0x53, 0x04, 0x06, 0x00, word_of_int (get_destination_byte self c OR 0x80), 0x01,
                    0x01, 0x00,
                    word_of_int (t mod 256), word_of_int (t div 256 mod 256),
                    word_of_int (t div 65536 mod 256), word_of_int (t div 16777216)]]\<rparr>)\<rparr>) \<and>
        (\<forall>r s'. Move_Absolute p c w self = Some (r, s') \<longrightarrow>
           (\<exists>rest. the_trace s' = the_trace self @
              Write [0x53, 0x04, 0x06, 0x00, word_of_int (get_destination_byte self c OR 0x80), 0x01,
                     0x01, 0x00,
                     word_of_int (t mod 256), word_of_int (t div 256 mod 256),
                     word_of_int (t div 65536 mod 256), word_of_int (t div 16777216)] # rest)) \<and>
        le_uint [word_of_int (t mod 256), word_of_int (t div 256 mod 256),
                 word_of_int (t div 65536 mod 256), word_of_int (t div 16777216) :: byte] = t) \<and>
     (\<forall>t. py_int (float_mul (posScaleFactor self) p) = Inr t \<and> (t < 0 \<or> 4294967296 \<le> t) \<longrightarrow>
        Move_Absolute p c w self = Some (Inl StructError, self)) \<and>
     (\<forall>e. py_int (float_mul (posScaleFactor self) p) = Inl e \<longrightarrow>
        (e = OverflowError \<or> e = ValueError) \<and> Move_Absolute p c w self = Some (Inl e, self))"
proof (intro conjI impI allI)
  fix t
  assume r: "py_int (float_mul (posScaleFactor self) p) = Inr t \<and> 0 \<le> t \<and> t < 4294967296"
  have s: "source_byte self = 0x01" using assms(1) by (simp add: constructed_def)
  show "Move_Absolute p c w self =
          Move_Absolute_after_write c w (self\<lparr>Serial_Port := Some (sp\<lparr>trace := trace sp @
            [Write [0x53, 0x04, 0x06, 0x00, word_of_int (get_destination_byte self c OR 0x80), 0x01,
                    0x01, 0x00,
                    word_of_int (t mod 256), word_of_int (t div 256 mod 256),
                    word_of_int (t div 65536 mod 256), word_of_int (t div 16777216)]]\<rparr>)\<rparr>)"
    using Move_Absolute_write [OF assms(2,3) s assms(4,5)] r by blast
  then show "\<exists>rest. the_trace s' = the_trace self @
              Write [0x53, 0x04, 0x06, 0x00, word_of_int (get_destination_byte self c OR 0x80), 0x01,
                     0x01, 0x00,
                     word_of_int (t mod 256), word_of_int (t div 256 mod 256),
                     word_of_int (t div 65536 mod 256), word_of_int (t div 16777216)] # rest"
    if "Move_Absolute p c w self = Some (r, s')" for r s'
    using that by (rule Move_Absolute_written [OF assms(2)])
  show "le_uint [word_of_int (t mod 256), word_of_int (t div 256 mod 256),
                 word_of_int (t div 65536 mod 256), word_of_int (t div 16777216) :: byte] = t"
    using r by (intro le_uint_I) simp_all
next
  fix t
  assume "py_int (float_mul (posScaleFactor self) p) = Inr t \<and> (t < 0 \<or> 4294967296 \<le> t)"
  then show "Move_Absolute p c w self = Some (Inl StructError, self)"
    using Move_Absolute_out_of_range [OF assms(2)] by blast
next
  fix e
  assume a: "py_int (float_mul (posScaleFactor self) p) = Inl e"
  from Move_Absolute_not_finite [OF a] show "e = OverflowError \<or> e = ValueError"
    and "Move_Absolute p c w self = Some (Inl e, self)" by blast+
qed

theorem move_absolute_payload_unsigned_witness:
  "constructed (KBD101\<lparr>Serial_Port := Some (fresh_port\<lparr>incoming := [[0x64, 0x04]]\<rparr>)\<rparr>) \<and>
   is_open (fresh_port\<lparr>incoming := [[0x64, 0x04]]\<rparr>) \<and>
   0 \<le> get_destination_byte (KBD101\<lparr>Serial_Port := Some (fresh_port\<lparr>incoming := [[0x64, 0x04]]\<rparr>)\<rparr>) 1 \<and>
   get_destination_byte (KBD101\<lparr>Serial_Port := Some (fresh_port\<lparr>incoming := [[0x64, 0x04]]\<rparr>)\<rparr>) 1 < 256 \<and>
   py_int (float_mul (Float 2000) (Float 25)) = Inr 50000 \<and>
   Move_Absolute (Float 25) 1 True
       (KBD101\<lparr>Serial_Port := Some (fresh_port\<lparr>incoming := [[0x64, 0x04]]\<rparr>)\<rparr>) =
     Some (Inr (), KBD101\<lparr>Serial_Port := Some (fresh_port\<lparr>trace :=
       [Write [0x53, 0x04, 0x06, 0x00, 0xD0, 0x01, 0x01, 0x00, 0x50, 0xC3, 0x00, 0x00],
        Read 2 [0x64, 0x04],
        Reset_Input, Reset_Output, Write [0x92, 0x04, 0x00, 0x00, 0x50, 0x01]]\<rparr>)\<rparr>) \<and>
   (\<exists>rest. the_trace (KBD101\<lparr>Serial_Port := Some (fresh_port\<lparr>trace :=
       [Write [0x53, 0x04, 0x06, 0x00, 0xD0, 0x01, 0x01, 0x00, 0x50, 0xC3, 0x00, 0x00],
        Read 2 [0x64, 0x04],
        Reset_Input, Reset_Output, Write [0x92, 0x04, 0x00, 0x00, 0x50, 0x01]]\<rparr>)\<rparr>) =
      the_trace (KBD101\<lparr>Serial_Port := Some (fresh_port\<lparr>incoming := [[0x64, 0x04]]\<rparr>)\<rparr>) @
      Write [0x53, 0x04, 0x06, 0x00, 0xD0, 0x01, 0x01, 0x00, 0x50, 0xC3, 0x00, 0x00] # rest) \<and>
   Move_Absolute (Float 25) 1 False KBD101 =
     Some (Inr (), KBD101\<lparr>Serial_Port := Some (fresh_port\<lparr>trace :=
       [Write [0x53, 0x04, 0x06, 0x00, 0xD0, 0x01, 0x01, 0x00, 0x50, 0xC3, 0x00, 0x00],
        Reset_Input, Reset_Output, Write [0x92, 0x04, 0x00, 0x00, 0x50, 0x01]]\<rparr>)\<rparr>) \<and>
   le_uint [0x50, 0xC3, 0x00, 0x00] = 50000 \<and>
   py_int (float_mul (Float 2000) (Float (- 1))) = Inr (- 2000) \<and>
   Move_Absolute (Float (- 1)) 1 True
       (KBD101\<lparr>Serial_Port := Some (fresh_port\<lparr>incoming := [[0x64, 0x04]]\<rparr>)\<rparr>) =
     Some (Inl StructError, KBD101\<lparr>Serial_Port := Some (fresh_port\<lparr>incoming := [[0x64, 0x04]]\<rparr>)\<rparr>) \<and>
   py_int (float_mul (Float 2000) NaN) = Inl ValueError \<and>
   Move_Absolute NaN 1 True
       (KBD101\<lparr>Serial_Port := Some (fresh_port\<lparr>incoming := [[0x64, 0x04]]\<rparr>)\<rparr>) =
     Some (Inl ValueError, KBD101\<lparr>Serial_Port := Some (fresh_port\<lparr>incoming := [[0x64, 0x04]]\<rparr>)\<rparr>)"
proof -
  let ?K = "KBD101\<lparr>Serial_Port := Some (fresh_port\<lparr>incoming := [[0x64, 0x04]]\<rparr>)\<rparr>"
  have s: "posScaleFactor KBD101 = Float 2000" "posScaleFactor ?K = Float 2000"
    by (simp_all add: KBD101_def)
  have t: "py_int (float_mul (Float 2000) (Float 25)) = Inr 50000"
    "py_int (float_mul (Float 2000) (Float (- 1))) = Inr (- 2000)"
    "py_int (float_mul (Float 2000) NaN) = Inl ValueError"
    unfolding product_example_25 product_example_negative by (simp_all add: py_trunc_def)
  note th = move_absolute_payload_unsigned [OF KBD101_moving_ready, of _ True, unfolded s]
  note tf = move_absolute_payload_unsigned [OF KBD101_ready, of _ False, unfolded s]
  from th [of "Float 25", THEN conjunct1, rule_format, of 50000] t(1)
  have "Move_Absolute (Float 25) 1 True ?K =
      Move_Absolute_after_write 1 True (KBD101\<lparr>Serial_Port := Some (fresh_port\<lparr>
       incoming := [[0x64, 0x04]], trace :=
       [Write [0x53, 0x04, 0x06, 0x00, 0xD0, 0x01, 0x01, 0x00, 0x50, 0xC3, 0x00, 0x00]]\<rparr>)\<rparr>)"
    by (simp add: get_destination_byte_def KBD101_def fresh_port_def)
  then have 1: "Move_Absolute (Float 25) 1 True ?K =
     Some (Inr (), KBD101\<lparr>Serial_Port := Some (fresh_port\<lparr>trace :=
       [Write [0x53, 0x04, 0x06, 0x00, 0xD0, 0x01, 0x01, 0x00, 0x50, 0xC3, 0x00, 0x00],
        Read 2 [0x64, 0x04],
        Reset_Input, Reset_Output, Write [0x92, 0x04, 0x00, 0x00, 0x50, 0x01]]\<rparr>)\<rparr>)"
    by (simp only: after_write_example_wait)
  from th [of "Float 25", THEN conjunct1, rule_format, of 50000] t(1) 1
  have 6: "\<exists>rest. the_trace (KBD101\<lparr>Serial_Port := Some (fresh_port\<lparr>trace :=
       [Write [0x53, 0x04, 0x06, 0x00, 0xD0, 0x01, 0x01, 0x00, 0x50, 0xC3, 0x00, 0x00],
        Read 2 [0x64, 0x04],
        Reset_Input, Reset_Output, Write [0x92, 0x04, 0x00, 0x00, 0x50, 0x01]]\<rparr>)\<rparr>) =
      the_trace ?K @
      Write [0x53, 0x04, 0x06, 0x00, 0xD0, 0x01, 0x01, 0x00, 0x50, 0xC3, 0x00, 0x00] # rest"
    by (simp add: get_destination_byte_def KBD101_def fresh_port_def the_trace_def)
  from tf [of "Float 25", THEN conjunct1, rule_format, of 50000] t(1)
  have "Move_Absolute (Float 25) 1 False KBD101 =
      Move_Absolute_after_write 1 False (KBD101\<lparr>Serial_Port := Some (fresh_port\<lparr>trace :=
       [Write [0x53, 0x04, 0x06, 0x00, 0xD0, 0x01, 0x01, 0x00, 0x50, 0xC3, 0x00, 0x00]]\<rparr>)\<rparr>)"
    by (simp add: get_destination_byte_def KBD101_def fresh_port_def)
  then have 2: "Move_Absolute (Float 25) 1 False KBD101 =
     Some (Inr (), KBD101\<lparr>Serial_Port := Some (fresh_port\<lparr>trace :=
       [Write [0x53, 0x04, 0x06, 0x00, 0xD0, 0x01, 0x01, 0x00, 0x50, 0xC3, 0x00, 0x00],
        Reset_Input, Reset_Output, Write [0x92, 0x04, 0x00, 0x00, 0x50, 0x01]]\<rparr>)\<rparr>)"
    by (simp only: after_write_example)
  from th [of "Float 25", THEN conjunct1, rule_format, of 50000] t(1)
  have 3: "le_uint [0x50, 0xC3, 0x00, 0x00] = 50000" by simp
  from th [of "Float (- 1)", THEN conjunct2, THEN conjunct1, rule_format, of "- 2000"] t(2)
  have 4: "Move_Absolute (Float (- 1)) 1 True ?K = Some (Inl StructError, ?K)" by simp
  from th [of NaN, THEN conjunct2, THEN conjunct2, rule_format, of ValueError] t(3)
  have 5: "Move_Absolute NaN 1 True ?K = Some (Inl ValueError, ?K)" by simp
  from KBD101_moving_ready(1,3,4,5) t(1) 1 6 2 3 t(2) 4 t(3) 5 show ?thesis by (intro conjI)
qed

text \<open>
  The claim as stated fails on the docstring's cube session at the position \<open>-1\<close>: the
  device-unit target is \<open>-2000\<close>, the call raises \<^verbatim>\<open>struct.error\<close> and the
  connection is untouched.
\<close>

theorem move_absolute_negative_counterexample:
  "py_int (float_mul (posScaleFactor KBD101) (Float (- 1))) = Inr (- 2000) \<and>
   Move_Absolute (Float (- 1)) 1 False KBD101 = Some (Inl StructError, KBD101) \<and>
   the_trace KBD101 = []"
proof -
  have s: "posScaleFactor KBD101 = Float 2000" by (simp add: KBD101_def)
  have t: "py_int (float_mul (posScaleFactor KBD101) (Float (- 1))) = Inr (- 2000)"
    unfolding s product_example_negative by (simp add: py_trunc_def)
  have m: "Move_Absolute (Float (- 1)) 1 False KBD101 = Some (Inl StructError, KBD101)"
    by (rule Move_Absolute_out_of_range [OF KBD101_ready(2) t]) simp
  have e: "the_trace KBD101 = []" by (simp add: the_trace_def KBD101_def fresh_port_def)
  from t m e show ?thesis by (intro conjI)
qed

section \<open>Reading back the position of a move\<close>

lemma getPosition_reply:
  assumes "Serial_Port s = Some sp" "is_open sp"
    "0 \<le> get_destination_byte s c" "get_destination_byte s c < 256"
    "0 \<le> source_byte s" "source_byte s < 256"
    "length (next_read 12 sp) = 12" "posScaleFactor s = Float f" "f \<noteq> 0"
  shows "\<exists>s2. getPosition c s =
           (Inr (round_double (real_of_int (le_uint (drop 8 (next_read 12 sp))) / f)), s2)"
proof -
  define d where "d = get_destination_byte s c"
  have d': "get_destination_byte (s\<lparr>Serial_Port := x\<rparr>) c = d" for x
    by (simp add: d_def get_destination_byte_def)
  obtain m where m: "pack_HBBBB 0x0411 0x01 0x00 d (source_byte s) = Inr m"
    unfolding pack_HBBBB_Inr using assms(3-6) unfolding d_def [symmetric] by simp
  obtain ka where ka: "pack_HBBBB 0x0492 0x00 0x00 d (source_byte s) = Inr ka"
    unfolding pack_HBBBB_Inr using assms(3-6) unfolding d_def [symmetric] by simp
  from assms(7) obtain ch cs where i: "incoming sp = ch # cs"
    by (cases "incoming sp") (simp_all add: next_read_def)
  then have n: "next_read 12 sp = take 12 ch" by (simp add: next_read_def)
  have l: "length (take 12 ch) = 12" using assms(7) unfolding n .
  show ?thesis
    using assms(1,2,8,9) i l unfolding n d_def [symmetric]
    by (simp add: getPosition_def Serial_Port_write_def Serial_Port_call_def port_write_def
        port_read_def record_event_def io_then_def io_bind_def io_lift_def Flush_Buffers_def
        Stay_Alive_def reset_input_buffer_def reset_output_buffer_def unpack_6sHI_def
        d' d_def [symmetric] m ka del: length_take)
qed

lemma scaled_error:
  fixes s p :: real
  assumes "0 < s" "\<bar>t - s * p\<bar> < 1"
  shows "\<bar>t / s - p\<bar> < 1 / s"
proof -
  have "t / s - p = (t - s * p) / s" using assms(1) by (simp add: field_simps)
  then have "\<bar>t / s - p\<bar> = \<bar>t - s * p\<bar> / s" using assms(1) by (simp add: abs_divide)
  also have "\<dots> < 1 / s" using assms by (simp add: divide_strict_right_mono)
  finally show ?thesis .
qed

text \<open>
  C1 (as the code has it). Let the position scale factor \<open>s\<close> be finite and positive and
  let \<^verbatim>\<open>Move_Absolute(p, channel, wait)\<close> return after writing its message. If the next
  12-byte reply of the device carries in its position field exactly the four bytes of the
  position field of that message, the device-unit target \<open>t\<close>, then
  \<^verbatim>\<open>getPosition(channel)\<close> returns \<open>t / s\<close> rounded to the nearest double. The exact
  quotient \<open>t / s\<close> differs from \<open>p\<close> by less than \<open>1 / s\<close>, one device unit's worth;
  the double returned, when it is finite, differs from \<open>p\<close> by less than \<open>1 / s\<close> plus
  half the spacing of the doubles at \<open>t / s\<close>.
\<close>

theorem position_round_trip:
  assumes "posScaleFactor self = Float s" "0 < s"
    "Move_Absolute (Float p) c w self = Some (Inr u, s1)"
    "the_trace s1 = the_trace self @ Write msg # rest"
    "Serial_Port s1 = Some sp1"
    "next_read 12 sp1 = hdr @ chan @ drop 8 msg" "length hdr = 6" "length chan = 2"
  shows "\<exists>s2. getPosition c s1 =
             (Inr (round_double (real_of_int (le_uint (drop 8 msg)) / s)), s2) \<and>
           \<bar>real_of_int (le_uint (drop 8 msg)) / s - p\<bar> < 1 / s \<and>
           (\<forall>r. round_double (real_of_int (le_uint (drop 8 msg)) / s) = Float r \<longrightarrow>
              \<bar>r - p\<bar> < 1 / s + ulp (real_of_int (le_uint (drop 8 msg)) / s) / 2)"
proof -
  let ?q = "real_of_int (le_uint (drop 8 msg)) / s"
  from Move_Absolute_target [OF assms(3)] obtain t msg' rest' sp' where
    pi: "py_int (float_mul (posScaleFactor self) (Float p)) = Inr t"
    and tr: "the_trace s1 = the_trace self @ Write msg' # rest'" and len: "length msg' = 12"
    and v: "le_uint (drop 8 msg') = t" and t: "0 \<le> t" "t < 4294967296"
    and d: "0 \<le> get_destination_byte self c" "get_destination_byte self c < 256"
    and s: "0 \<le> source_byte self" "source_byte self < 256"
    and o: "Serial_Port s1 = Some sp'" "is_open sp'"
    and cfg: "posScaleFactor s1 = posScaleFactor self"
      "get_destination_byte s1 c = get_destination_byte self c"
      "source_byte s1 = source_byte self"
    by blast
  from tr assms(4) have e: "msg' = msg" by simp
  from o assms(5) have op: "is_open sp1" by simp
  have l12: "length (next_read 12 sp1) = 12"
    unfolding assms(6) using assms(7,8) len e by simp
  have dr: "drop 8 (next_read 12 sp1) = drop 8 msg"
    unfolding assms(6) using assms(7,8) by simp
  have sc: "posScaleFactor s1 = Float s" using cfg(1) assms(1) by simp
  have nz: "s \<noteq> 0" using assms(2) by simp
  have d1: "0 \<le> get_destination_byte s1 c" "get_destination_byte s1 c < 256"
    "0 \<le> source_byte s1" "source_byte s1 < 256"
    using d s cfg by simp_all
  from getPosition_reply [OF assms(5) op d1 l12 sc nz]
  obtain s2 where g: "getPosition c s1 = (Inr (round_double ?q), s2)"
    unfolding dr by blast
  from pi have "py_int (round_double (s * p)) = Inr t" unfolding assms(1) by simp
  then have tn: "t = py_trunc (nearest (s * p))" using py_int_round_double by blast
  have "\<bar>real_of_int (py_trunc (nearest (s * p))) - s * p\<bar> < 1"
    using t unfolding tn by (intro trunc_nearest_error) simp_all
  then have "\<bar>real_of_int (le_uint (drop 8 msg)) - s * p\<bar> < 1"
    using v e tn by simp
  then have b: "\<bar>?q - p\<bar> < 1 / s" by (rule scaled_error [OF assms(2)])
  have r: "\<bar>r - p\<bar> < 1 / s + ulp ?q / 2" if "round_double ?q = Float r" for r
  proof -
    from that have "r = nearest ?q" by (auto simp: round_double_def split: if_splits)
    with nearest_error [of ?q] have "\<bar>r - ?q\<bar> \<le> ulp ?q / 2" by simp
    with b show ?thesis by linarith
  qed
  from g b r show ?thesis by blast
qed

lemma after_write_example_reply:
  "Move_Absolute_after_write 1 False (KBD101\<lparr>Serial_Port := Some (fresh_port\<lparr>
       incoming := inc, trace :=
       [Write [0x53, 0x04, 0x06, 0x00, 0xD0, 0x01, 0x01, 0x00, b8, b9, b10, b11]]\<rparr>)\<rparr>) =
     Some (Inr (), KBD101\<lparr>Serial_Port := Some (fresh_port\<lparr>incoming := inc, trace :=
       [Write [0x53, 0x04, 0x06, 0x00, 0xD0, 0x01, 0x01, 0x00, b8, b9, b10, b11],
        Reset_Input, Reset_Output, Write [0x92, 0x04, 0x00, 0x00, 0x50, 0x01]]\<rparr>)\<rparr>)"
  by (simp add: Move_Absolute_after_write_def KBD101_def fresh_port_def
      get_destination_byte_def Serial_Port_write_def Serial_Port_call_def port_write_def
      record_event_def io_then_def io_bind_def Flush_Buffers_def Stay_Alive_def
      reset_input_buffer_def reset_output_buffer_def pack_HBBBB_def)

lemma Move_Absolute_example_reply:
  assumes "py_int (float_mul (Float 2000) p) = Inr t" "0 \<le> t" "t < 4294967296"
  shows "Move_Absolute p 1 False (KBD101\<lparr>Serial_Port := Some (fresh_port\<lparr>incoming := inc\<rparr>)\<rparr>) =
     Some (Inr (), KBD101\<lparr>Serial_Port := Some (fresh_port\<lparr>incoming := inc, trace :=
       [Write [0x53, 0x04, 0x06, 0x00, 0xD0, 0x01, 0x01, 0x00,
               word_of_int (t mod 256), word_of_int (t div 256 mod 256),
               word_of_int (t div 65536 mod 256), word_of_int (t div 16777216)],
        Reset_Input, Reset_Output, Write [0x92, 0x04, 0x00, 0x00, 0x50, 0x01]]\<rparr>)\<rparr>)"
proof -
  let ?K = "KBD101\<lparr>Serial_Port := Some (fresh_port\<lparr>incoming := inc\<rparr>)\<rparr>"
  have k: "Serial_Port ?K = Some (fresh_port\<lparr>incoming := inc\<rparr>)"
    "is_open (fresh_port\<lparr>incoming := inc\<rparr>)" "source_byte ?K = 0x01"
    "0 \<le> get_destination_byte ?K 1" "get_destination_byte ?K 1 < 256"
    by (simp_all add: KBD101_def fresh_port_def get_destination_byte_def)
  have pi: "py_int (float_mul (posScaleFactor ?K) p) = Inr t"
    using assms(1) by (simp add: KBD101_def)
  have "Move_Absolute p 1 False ?K =
      Move_Absolute_after_write 1 False (KBD101\<lparr>Serial_Port := Some (fresh_port\<lparr>
       incoming := inc, trace :=
       [Write [0x53, 0x04, 0x06, 0x00, 0xD0, 0x01, 0x01, 0x00,
               word_of_int (t mod 256), word_of_int (t div 256 mod 256),
               word_of_int (t div 65536 mod 256), word_of_int (t div 16777216)]]\<rparr>)\<rparr>)"
    using Move_Absolute_write [OF k pi assms(2,3), of False]
    by (simp add: get_destination_byte_def KBD101_def fresh_port_def)
  then show ?thesis by (simp only: after_write_example_reply)
qed

theorem position_round_trip_witness:
  "posScaleFactor (KBD101\<lparr>Serial_Port := Some (fresh_port\<lparr>
       incoming := [[0x12, 0x04, 0x06, 0x00, 0x81, 0x50, 0x01, 0x00, 0x50, 0xC3, 0x00, 0x00]]\<rparr>)\<rparr>) =
     Float 2000 \<and>
   Move_Absolute (Float 25) 1 False (KBD101\<lparr>Serial_Port := Some (fresh_port\<lparr>
       incoming := [[0x12, 0x04, 0x06, 0x00, 0x81, 0x50, 0x01, 0x00, 0x50, 0xC3, 0x00, 0x00]]\<rparr>)\<rparr>) =
     Some (Inr (), KBD101\<lparr>Serial_Port := Some (fresh_port\<lparr>
       incoming := [[0x12, 0x04, 0x06, 0x00, 0x81, 0x50, 0x01, 0x00, 0x50, 0xC3, 0x00, 0x00]],
       trace :=
       [Write [0x53, 0x04, 0x06, 0x00, 0xD0, 0x01, 0x01, 0x00, 0x50, 0xC3, 0x00, 0x00],
        Reset_Input, Reset_Output, Write [0x92, 0x04, 0x00, 0x00, 0x50, 0x01]]\<rparr>)\<rparr>) \<and>
   round_double (50000 / 2000) = Float 25 \<and>
   (\<exists>s2. getPosition 1 (KBD101\<lparr>Serial_Port := Some (fresh_port\<lparr>
       incoming := [[0x12, 0x04, 0x06, 0x00, 0x81, 0x50, 0x01, 0x00, 0x50, 0xC3, 0x00, 0x00]],
       trace :=
       [Write [0x53, 0x04, 0x06, 0x00, 0xD0, 0x01, 0x01, 0x00, 0x50, 0xC3, 0x00, 0x00],
        Reset_Input, Reset_Output, Write [0x92, 0x04, 0x00, 0x00, 0x50, 0x01]]\<rparr>)\<rparr>) =
      (Inr (Float 25), s2)) \<and>
   \<bar>50000 / 2000 - 25\<bar> < (1 / 2000 :: real) \<and>
   \<bar>25 - 25\<bar> < (1 / 2000 :: real) + ulp (50000 / 2000) / 2"
proof -
  let ?reply = "[0x12, 0x04, 0x06, 0x00, 0x81, 0x50, 0x01, 0x00, 0x50, 0xC3, 0x00, 0x00] :: byte list"
  let ?msg = "[0x53, 0x04, 0x06, 0x00, 0xD0, 0x01, 0x01, 0x00, 0x50, 0xC3, 0x00, 0x00] :: byte list"
  let ?rest = "[Reset_Input, Reset_Output, Write [0x92, 0x04, 0x00, 0x00, 0x50, 0x01]]"
  let ?K0 = "KBD101\<lparr>Serial_Port := Some (fresh_port\<lparr>incoming := [?reply]\<rparr>)\<rparr>"
  let ?sp1 = "fresh_port\<lparr>incoming := [?reply], trace := Write ?msg # ?rest\<rparr>"
  let ?K1 = "KBD101\<lparr>Serial_Port := Some ?sp1\<rparr>"
  have p: "posScaleFactor ?K0 = Float 2000" "0 < (2000 :: real)" by (simp_all add: KBD101_def)
  have pi: "py_int (float_mul (Float 2000) (Float 25)) = Inr 50000"
    unfolding product_example_25 by (simp add: py_trunc_def)
  have m: "Move_Absolute (Float 25) 1 False ?K0 = Some (Inr (), ?K1)"
    using Move_Absolute_example_reply [OF pi, of "[?reply]"] by simp
  have t: "the_trace ?K1 = the_trace ?K0 @ Write ?msg # ?rest"
    by (simp add: the_trace_def fresh_port_def)
  have q: "Serial_Port ?K1 = Some ?sp1" by simp
  have n: "next_read 12 ?sp1 = [0x12, 0x04, 0x06, 0x00, 0x81, 0x50] @ [0x01, 0x00] @ drop 8 ?msg"
    by (simp add: next_read_def)
  have v: "real_of_int (le_uint (drop 8 ?msg)) = 50000" by simp
  have rd: "round_double (50000 / 2000) = Float 25"
    using round_double_small [of 25] nearest_of_int [of 25] by simp
  from position_round_trip [OF p m t q n] obtain s2 where
    g: "getPosition 1 ?K1 = (Inr (round_double (50000 / 2000)), s2)"
    and b: "\<bar>50000 / 2000 - 25\<bar> < (1 / 2000 :: real)"
    and r: "\<And>r. round_double (50000 / 2000) = Float r \<Longrightarrow>
              \<bar>r - 25\<bar> < 1 / 2000 + ulp (50000 / 2000) / 2"
    unfolding v by auto
  from g have g': "\<exists>s2. getPosition 1 ?K1 = (Inr (Float 25), s2)" unfolding rd by blast
  from p(1) m rd g' b r [OF rd] show ?thesis by (intro conjI)
qed

text \<open>
  The claim as stated fails on the docstring's cube session, scale factor \<open>2000\<close>, at the
  position \<open>64.002\<close> (the double \<open>4503740364858851 / 2^46\<close>): the double product is a
  little above \<open>128003\<close>, so \<open>128003\<close> is written, and when the device reports
  \<open>128003\<close> back \<^verbatim>\<open>getPosition\<close> returns the double nearest to \<open>64.0015\<close>, which is
  \<open>4503705180486762 / 2^46\<close>. The two doubles differ by more than \<open>1 / 2000\<close>.
\<close>

lemma product_example_64:
  "float_mul (Float 2000) (Float (4503740364858851 / 2 ^ 46)) = Float (8796367900114943 / 2 ^ 36)"
proof (rule float_mul_finite)
  show "\<bar>2000 * (4503740364858851 / 2 ^ 46)\<bar> < (2::real) ^ 53" by simp
  show "nearest (2000 * (4503740364858851 / 2 ^ 46)) = 8796367900114943 / 2 ^ 36"
    by (subst nearest_at_binade [where e = 16]) (simp_all add: rne_def)
qed

lemma quotient_example_64:
  "round_double (real_of_int 128003 / 2000) = Float (4503705180486762 / 2 ^ 46)"
proof -
  have "nearest (128003 / 2000) = 4503705180486762 / 2 ^ 46"
    by (subst nearest_at_binade [where e = 6]) (simp_all add: rne_def)
  moreover have "round_double (128003 / 2000) = Float (nearest (128003 / 2000))"
    by (rule round_double_small) simp
  ultimately show ?thesis by simp
qed

theorem position_round_trip_counterexample:
  "Move_Absolute (Float (4503740364858851 / 2 ^ 46)) 1 False (KBD101\<lparr>Serial_Port := Some (fresh_port\<lparr>
       incoming := [[0x12, 0x04, 0x06, 0x00, 0x81, 0x50, 0x01, 0x00, 0x03, 0xF4, 0x01, 0x00]]\<rparr>)\<rparr>) =
     Some (Inr (), KBD101\<lparr>Serial_Port := Some (fresh_port\<lparr>
       incoming := [[0x12, 0x04, 0x06, 0x00, 0x81, 0x50, 0x01, 0x00, 0x03, 0xF4, 0x01, 0x00]],
       trace :=
       [Write [0x53, 0x04, 0x06, 0x00, 0xD0, 0x01, 0x01, 0x00, 0x03, 0xF4, 0x01, 0x00],
        Reset_Input, Reset_Output, Write [0x92, 0x04, 0x00, 0x00, 0x50, 0x01]]\<rparr>)\<rparr>) \<and>
   fst (getPosition 1 (KBD101\<lparr>Serial_Port := Some (fresh_port\<lparr>
       incoming := [[0x12, 0x04, 0x06, 0x00, 0x81, 0x50, 0x01, 0x00, 0x03, 0xF4, 0x01, 0x00]],
       trace :=
       [Write [0x53, 0x04, 0x06, 0x00, 0xD0, 0x01, 0x01, 0x00, 0x03, 0xF4, 0x01, 0x00],
        Reset_Input, Reset_Output, Write [0x92, 0x04, 0x00, 0x00, 0x50, 0x01]]\<rparr>)\<rparr>)) =
     Inr (Float (4503705180486762 / 2 ^ 46)) \<and>
   (1 / 2000 :: real) < \<bar>4503705180486762 / 2 ^ 46 - 4503740364858851 / 2 ^ 46\<bar>"
proof -
  let ?reply = "[0x12, 0x04, 0x06, 0x00, 0x81, 0x50, 0x01, 0x00, 0x03, 0xF4, 0x01, 0x00] :: byte list"
  let ?msg = "[0x53, 0x04, 0x06, 0x00, 0xD0, 0x01, 0x01, 0x00, 0x03, 0xF4, 0x01, 0x00] :: byte list"
  let ?rest = "[Reset_Input, Reset_Output, Write [0x92, 0x04, 0x00, 0x00, 0x50, 0x01]]"
  let ?sp1 = "fresh_port\<lparr>incoming := [?reply], trace := Write ?msg # ?rest\<rparr>"
  let ?K1 = "KBD101\<lparr>Serial_Port := Some ?sp1\<rparr>"
  have pi: "py_int (float_mul (Float 2000) (Float (4503740364858851 / 2 ^ 46))) = Inr 128003"
    unfolding product_example_64 by (simp add: py_trunc_def)
  have m: "Move_Absolute (Float (4503740364858851 / 2 ^ 46)) 1 False
       (KBD101\<lparr>Serial_Port := Some (fresh_port\<lparr>incoming := [?reply]\<rparr>)\<rparr>) = Some (Inr (), ?K1)"
    using Move_Absolute_example_reply [OF pi, of "[?reply]"] by simp
  have k: "Serial_Port ?K1 = Some ?sp1" "is_open ?sp1"
    "0 \<le> get_destination_byte ?K1 1" "get_destination_byte ?K1 1 < 256"
    "0 \<le> source_byte ?K1" "source_byte ?K1 < 256"
    "length (next_read 12 ?sp1) = 12" "posScaleFactor ?K1 = Float 2000" "(2000 :: real) \<noteq> 0"
    by (simp_all add: KBD101_def fresh_port_def get_destination_byte_def next_read_def)
  have v: "le_uint (drop 8 (next_read 12 ?sp1)) = 128003"
    by (simp add: next_read_def)
  from getPosition_reply [OF k] obtain s2 where
    "getPosition 1 ?K1 = (Inr (round_double (real_of_int 128003 / 2000)), s2)"
    unfolding v by blast
  then have g: "fst (getPosition 1 ?K1) = Inr (Float (4503705180486762 / 2 ^ 46))"
    unfolding quotient_example_64 by simp
  have c: "(1 / 2000 :: real) < \<bar>4503705180486762 / 2 ^ 46 - 4503740364858851 / 2 ^ 46\<bar>"
    by simp
  from m g c show ?thesis by (intro conjI)
qed

section \<open>What each operation does on the connection when it returns\<close>

lemma write_trace:
  "Serial_Port_write packed s = (Inr u, s') \<Longrightarrow>
     \<exists>msg. packed = Inr msg \<and> the_trace s' = the_trace s @ [Write msg]"
  using write_Inr advanced_config(5) by blast

lemma read_trace:
  "Serial_Port_call (port_read n) s = (Inr rx, s') \<Longrightarrow> the_trace s' = the_trace s @ [Read n rx]"
  using read_Inr advanced_config(5) by blast

lemma reset_input_trace:
  "Serial_Port_call reset_input_buffer s = (Inr u, s') \<Longrightarrow> the_trace s' = the_trace s @ [Reset_Input]"
  using reset_input_Inr advanced_config(5) by blast

lemma reset_output_trace:
  "Serial_Port_call reset_output_buffer s = (Inr u, s') \<Longrightarrow> the_trace s' = the_trace s @ [Reset_Output]"
  using reset_output_Inr advanced_config(5) by blast

lemma Flush_Buffers_trace:
  "Flush_Buffers s = (Inr u, s') \<Longrightarrow> the_trace s' = the_trace s @ [Reset_Input, Reset_Output]"
  using Flush_Buffers_Inr advanced_config(5) by blast

lemma keep_alive_packed: "pack_HBBBB 0x0492 b c d e = Inr ka \<Longrightarrow> is_keep_alive ka"
  unfolding pack_HBBBB_Inr by (simp add: is_keep_alive_def)

lemma Stay_Alive_trace:
  "Stay_Alive c s = (Inr u, s') \<Longrightarrow>
     \<exists>ka. is_keep_alive ka \<and> the_trace s' = the_trace s @ [Write ka]"
  using Stay_Alive_Inr keep_alive_packed advanced_config(5) by blast

lemma Initialize_trace:
  assumes "Initialize c s = (Inr u, s')"
  shows "\<exists>m1 m2. the_trace s' = the_trace s @
           [Write m1, Reset_Input, Reset_Output, Write m2, Reset_Input, Reset_Output]"
  using assms unfolding Initialize_def io_then_Inr
  by (auto dest!: write_trace reset_input_trace reset_output_trace Flush_Buffers_trace)

lemma Identify_trace:
  assumes "Identify c s = (Inr u, s')"
  shows "\<exists>ms ka. length ms \<le> 1 \<and> is_keep_alive ka \<and>
           the_trace s' = the_trace s @ map Write ms @ [Write ka, Reset_Input, Reset_Output]"
proof -
  from assms obtain s1 s2 where
    1: "(if Controller_Type s = ''cube''
         then Serial_Port_write (pack_HBBBB 0x0223 0x01 0x00 0x50 (source_byte s))
         else if Controller_Type s = ''benchtop''
         then Serial_Port_write (pack_HBBBB 0x0223 c 0x00 0x11 (source_byte s))
         else io_return ()) s = (Inr (), s1)"
    and 2: "Stay_Alive c s1 = (Inr (), s2)" and 3: "Flush_Buffers s2 = (Inr u, s')"
    unfolding Identify_def io_then_Inr by auto
  from 1 have "\<exists>ms. length ms \<le> 1 \<and> the_trace s1 = the_trace s @ map Write ms"
  proof (cases "Controller_Type s = ''cube'' \<or> Controller_Type s = ''benchtop''")
    case True
    with 1 obtain m where "the_trace s1 = the_trace s @ [Write m]"
      by (auto dest!: write_trace split: if_splits)
    then have "length [m] \<le> 1 \<and> the_trace s1 = the_trace s @ map Write [m]" by simp
    then show ?thesis by blast
  next
    case False
    with 1 have "s1 = s" by (simp add: io_return_def)
    then have "length ([] :: byte list list) \<le> 1 \<and> the_trace s1 = the_trace s @ map Write []" by simp
    then show ?thesis by blast
  qed
  then obtain ms where "length ms \<le> 1" "the_trace s1 = the_trace s @ map Write ms" by blast
  moreover from Stay_Alive_trace [OF 2] obtain ka where
    "is_keep_alive ka" "the_trace s2 = the_trace s1 @ [Write ka]" by blast
  moreover note Flush_Buffers_trace [OF 3]
  ultimately show ?thesis by auto
qed

lemma switch_tail_trace:
  assumes "(if b then io_then (Serial_Port_write packed) (io_then Flush_Buffers (Stay_Alive c))
            else io_return ()) s = (Inr u, s')"
  shows "the_trace s' = the_trace s \<or>
         (\<exists>m ka. is_keep_alive ka \<and>
            the_trace s' = the_trace s @ [Write m, Reset_Input, Reset_Output, Write ka])"
proof (cases b)
  case True
  with assms have "io_then (Serial_Port_write packed) (io_then Flush_Buffers (Stay_Alive c)) s
      = (Inr u, s')" by simp
  then show ?thesis
    by (auto simp: io_then_Inr dest!: write_trace Flush_Buffers_trace Stay_Alive_trace)
next
  case False
  with assms show ?thesis by (simp add: io_return_def)
qed

lemma switch_head_trace:
  assumes "io_then (Serial_Port_write packed) (io_then Flush_Buffers (io_then (Stay_Alive c) rest)) s
            = (Inr u, s')"
  shows "\<exists>m ka s1. is_keep_alive ka \<and>
           the_trace s1 = the_trace s @ [Write m, Reset_Input, Reset_Output, Write ka] \<and>
           rest s1 = (Inr u, s')"
proof -
  from assms obtain s1 s2 s3 where
    1: "Serial_Port_write packed s = (Inr (), s1)" and 2: "Flush_Buffers s1 = (Inr (), s2)"
    and 3: "Stay_Alive c s2 = (Inr (), s3)" and 4: "rest s3 = (Inr u, s')"
    by (auto simp: io_then_Inr)
  from write_trace [OF 1] Flush_Buffers_trace [OF 2] Stay_Alive_trace [OF 3]
  obtain m ka where "is_keep_alive ka"
    "the_trace s3 = the_trace s @ [Write m, Reset_Input, Reset_Output, Write ka]"
    by auto
  with 4 show ?thesis by blast
qed

lemma Enable_Channel_trace:
  assumes "Enable_Channel c s = (Inr u, s')"
  shows "\<exists>m ka tail. is_keep_alive ka \<and>
           the_trace s' = the_trace s @ [Write m, Reset_Input, Reset_Output, Write ka] @ tail \<and>
           (tail = [] \<or> (\<exists>m2 ka2. is_keep_alive ka2 \<and>
              tail = [Write m2, Reset_Input, Reset_Output, Write ka2]))"
proof -
  from switch_head_trace [OF assms [unfolded Enable_Channel_def Let_def]]
  obtain m ka s1 where k: "is_keep_alive ka"
    and 1: "the_trace s1 = the_trace s @ [Write m, Reset_Input, Reset_Output, Write ka]"
    and 2: "(if Controller_Type s = ''benchtop''
             then io_then (Serial_Port_write
               (pack_HBBBB 0x0210 0x01 0x01 (get_destination_byte s c) (source_byte s)))
               (io_then Flush_Buffers (Stay_Alive c))
             else io_return ()) s1 = (Inr u, s')"
    by blast
  from switch_tail_trace [OF 2] k 1 show ?thesis by auto
qed

lemma Disable_Channel_trace:
  assumes "Disable_Channel c s = (Inr u, s')"
  shows "\<exists>m ka tail. is_keep_alive ka \<and>
           the_trace s' = the_trace s @ [Write m, Reset_Input, Reset_Output, Write ka] @ tail \<and>
           (tail = [] \<or> (\<exists>m2 ka2. is_keep_alive ka2 \<and>
              tail = [Write m2, Reset_Input, Reset_Output, Write ka2]))"
proof -
  from switch_head_trace [OF assms [unfolded Disable_Channel_def Let_def]]
  obtain m ka s1 where k: "is_keep_alive ka"
    and 1: "the_trace s1 = the_trace s @ [Write m, Reset_Input, Reset_Output, Write ka]"
    and 2: "(if Controller_Type s = ''benchtop''
             then io_then (Serial_Port_write
               (pack_HBBBB 0x0210 0x01 0x02 (get_destination_byte s c) (source_byte s)))
               (io_then Flush_Buffers (Stay_Alive c))
             else io_return ()) s1 = (Inr u, s')"
    by blast
  from switch_tail_trace [OF 2] k 1 show ?thesis by auto
qed

lemma getPosition_trace:
  assumes "getPosition c s = (Inr r, s')"
  shows "\<exists>m rx ka. is_keep_alive ka \<and> the_trace s' = the_trace s @
           [Reset_Input, Reset_Output, Write m, Read 12 rx, Write ka, Reset_Input, Reset_Output]"
  using assms
  by (auto simp: getPosition_def io_then_Inr io_bind_Inr io_lift_Inr split: prod.splits
      dest!: write_trace read_trace Flush_Buffers_trace Stay_Alive_trace)

lemma getEncCounter_trace:
  assumes "getEncCounter c s = (Inr r, s')"
  shows "\<exists>m rx ka. is_keep_alive ka \<and> the_trace s' = the_trace s @
           [Reset_Input, Reset_Output, Write m, Read 12 rx, Write ka, Reset_Input, Reset_Output]"
  using assms
  by (auto simp: getEncCounter_def io_then_Inr io_bind_Inr io_lift_Inr split: prod.splits
      dest!: write_trace read_trace Flush_Buffers_trace Stay_Alive_trace)

lemma get_status_Update_trace:
  assumes "get_status_Update c s = (Inr r, s')"
  shows "\<exists>m rx ka. is_keep_alive ka \<and> the_trace s' = the_trace s @
           [Reset_Input, Reset_Output, Write m, Read 20 rx, Reset_Input, Reset_Output, Write ka]"
  using assms
  by (auto simp: get_status_Update_def io_then_Inr io_bind_Inr io_lift_Inr io_return_Inr
      split: prod.splits
      dest!: write_trace read_trace Flush_Buffers_trace Stay_Alive_trace)

lemma Home_trace:
  assumes "Home c w s = Some (Inr u, s')"
  shows "\<exists>m rs ka. is_keep_alive ka \<and> (\<forall>e\<in>set rs. is_read e) \<and>
           the_trace s' = the_trace s @ Write m # rs @ [Reset_Input, Reset_Output, Write ka]"
  using Home_Inr [OF assms] keep_alive_packed advanced_config(5) by blast

lemma Move_Absolute_trace:
  assumes "Move_Absolute p c w s = Some (Inr u, s')"
  shows "\<exists>m rs ka. is_keep_alive ka \<and> (\<forall>e\<in>set rs. is_read e) \<and>
           the_trace s' = the_trace s @ Write m # rs @ [Reset_Input, Reset_Output, Write ka]"
  using Move_Absolute_Inr [OF assms] keep_alive_packed advanced_config(5) by blast

section \<open>The count of commands since the last keep-alive\<close>

lemma since_Cons [simp]: "since_keep_alive c (e # es) = since_keep_alive (tick e c) es"
  by (simp add: since_keep_alive_def)

lemma since_Nil [simp]: "since_keep_alive c [] = c"
  by (simp add: since_keep_alive_def)

lemma since_append: "since_keep_alive c (xs @ ys) = since_keep_alive (since_keep_alive c xs) ys"
  by (simp add: since_keep_alive_def)

lemma peak_append: "peak c (xs @ ys) = max (peak c xs) (peak (since_keep_alive c xs) ys)"
proof (induction xs arbitrary: c)
  case Nil
  have "c \<le> peak c ys" by (cases ys) simp_all
  then show ?case by simp
next
  case (Cons x xs)
  then show ?case by (simp add: max.assoc)
qed

lemma peak_ge: "c \<le> peak c evs"
  by (cases evs) simp_all

lemma since_le_peak: "since_keep_alive c evs \<le> peak c evs"
proof (induction evs arbitrary: c)
  case Nil
  then show ?case by simp
next
  case (Cons e es)
  have "since_keep_alive (tick e c) es \<le> peak (tick e c) es" by (rule Cons.IH)
  then show ?case by simp
qed

lemma prefix_le_peak: "since_keep_alive c (take n evs) \<le> peak c evs"
proof -
  have "peak c (take n evs) \<le> peak c (take n evs @ drop n evs)"
    unfolding peak_append by simp
  then show ?thesis using since_le_peak [of c "take n evs"] by simp
qed

lemma reads_quiet:
  "\<forall>e\<in>set rs. is_read e \<Longrightarrow> since_keep_alive c rs = c \<and> peak c rs = c"
proof (induction rs)
  case Nil
  then show ?case by simp
next
  case (Cons e rs)
  then have "is_read e" by simp
  then have "tick e c = c" by (cases e) simp_all
  with Cons show ?case by simp
qed

lemma discard_Inr:
  "discard m s = Some (Inr u, s') \<longleftrightarrow> (\<exists>r. m s = (Inr r, s'))"
  by (auto simp: discard_def io_then_Inr io_return_Inr)

text \<open>One command, then possibly reads and resets, then a keep-alive.\<close>

lemma wait_block:
  assumes "is_keep_alive ka" "\<forall>e\<in>set rs. is_read e"
  shows "peak c (Write m # rs @ [Reset_Input, Reset_Output, Write ka]) \<le> Suc c \<and>
         since_keep_alive c (Write m # rs @ [Reset_Input, Reset_Output, Write ka]) = 0"
  using assms reads_quiet [OF assms(2), of "tick (Write m) c"]
  by (simp add: peak_append since_append)

lemma perform_cadence:
  assumes "perform x s = Some (Inr u, s')"
  shows "\<exists>evs. the_trace s' = the_trace s @ evs \<and>
           peak c evs \<le> c + 2 * (if is_Initialize x then 1 else 0) + 1 \<and>
           since_keep_alive c evs \<le> c + 2 * (if is_Initialize x then 1 else 0) \<and>
           (\<not> is_Initialize x \<longrightarrow> since_keep_alive c evs = 0)"
proof (cases x)
  case (Op_Initialize ch)
  with assms obtain r where "Initialize ch s = (Inr r, s')" by (auto simp: discard_Inr)
  from Initialize_trace [OF this] obtain m1 m2 where
    "the_trace s' = the_trace s @
       [Write m1, Reset_Input, Reset_Output, Write m2, Reset_Input, Reset_Output]" by blast
  then show ?thesis using Op_Initialize by simp
next
  case (Op_Identify ch)
  with assms obtain r where "Identify ch s = (Inr r, s')" by (auto simp: discard_Inr)
  from Identify_trace [OF this] obtain ms ka where l: "length ms \<le> 1" and k: "is_keep_alive ka"
    and t: "the_trace s' = the_trace s @ map Write ms @ [Write ka, Reset_Input, Reset_Output]"
    by blast
  from l have "ms = [] \<or> (\<exists>m. ms = [m])" by (cases ms) auto
  then show ?thesis using t k Op_Identify by auto
next
  case (Op_Enable_Channel ch)
  with assms obtain r where "Enable_Channel ch s = (Inr r, s')" by (auto simp: discard_Inr)
  from Enable_Channel_trace [OF this] show ?thesis using Op_Enable_Channel by auto
next
  case (Op_Disable_Channel ch)
  with assms obtain r where "Disable_Channel ch s = (Inr r, s')" by (auto simp: discard_Inr)
  from Disable_Channel_trace [OF this] show ?thesis using Op_Disable_Channel by auto
next
  case (Op_Home ch w)
  with assms have "Home ch w s = Some (Inr u, s')" by simp
  from Home_trace [OF this] obtain m rs ka where k: "is_keep_alive ka" "\<forall>e\<in>set rs. is_read e"
    and t: "the_trace s' = the_trace s @ Write m # rs @ [Reset_Input, Reset_Output, Write ka]"
    by blast
  from wait_block [OF k, of c m] t show ?thesis using Op_Home by auto
next
  case (Op_Move_Absolute p ch w)
  with assms have "Move_Absolute p ch w s = Some (Inr u, s')" by simp
  from Move_Absolute_trace [OF this] obtain m rs ka where k: "is_keep_alive ka" "\<forall>e\<in>set rs. is_read e"
    and t: "the_trace s' = the_trace s @ Write m # rs @ [Reset_Input, Reset_Output, Write ka]"
    by blast
  from wait_block [OF k, of c m] t show ?thesis using Op_Move_Absolute by auto
next
  case (Op_getPosition ch)
  with assms obtain r where "getPosition ch s = (Inr r, s')" by (auto simp: discard_Inr)
  from getPosition_trace [OF this] show ?thesis using Op_getPosition by auto
next
  case (Op_get_status_Update ch)
  with assms obtain r where "get_status_Update ch s = (Inr r, s')" by (auto simp: discard_Inr)
  from get_status_Update_trace [OF this] show ?thesis using Op_get_status_Update by auto
next
  case (Op_getEncCounter ch)
  with assms obtain r where "getEncCounter ch s = (Inr r, s')" by (auto simp: discard_Inr)
  from getEncCounter_trace [OF this] show ?thesis using Op_getEncCounter by auto
next
  case (Op_Stay_Alive ch)
  with assms obtain r where "Stay_Alive ch s = (Inr r, s')" by (auto simp: discard_Inr)
  from Stay_Alive_trace [OF this] show ?thesis using Op_Stay_Alive by auto
qed

lemma initializations_Cons:
  "initializations (x # xs) = (if is_Initialize x then 1 else 0) + initializations xs"
  by (simp add: initializations_def)

lemma run_ops_cadence:
  assumes "run_ops ops s = Some (Inr u, s')"
  shows "\<exists>evs. the_trace s' = the_trace s @ evs \<and>
           peak c evs \<le> c + 2 * initializations ops + 1 \<and>
           since_keep_alive c evs \<le> c + 2 * initializations ops \<and>
           (initializations ops = 0 \<and> ops \<noteq> [] \<longrightarrow> since_keep_alive c evs = 0)"
  using assms
proof (induction ops arbitrary: s c)
  case Nil
  then have "the_trace s' = the_trace s @ []" by simp
  moreover have "peak c [] \<le> c + 2 * initializations [] + 1"
    "since_keep_alive c [] \<le> c + 2 * initializations []" by simp_all
  ultimately show ?case by blast
next
  case (Cons x xs)
  let ?i = "(if is_Initialize x then 1 else 0) :: nat"
  from Cons.prems obtain v s1 where p: "perform x s = Some (Inr v, s1)"
    and r: "run_ops xs s1 = Some (Inr u, s')"
    by (auto split: option.splits prod.splits sum.splits)
  from perform_cadence [OF p, of c] obtain e1 where
    t1: "the_trace s1 = the_trace s @ e1" and p1: "peak c e1 \<le> c + 2 * ?i + 1"
    and c1: "since_keep_alive c e1 \<le> c + 2 * ?i"
    and z1: "\<not> is_Initialize x \<longrightarrow> since_keep_alive c e1 = 0" by blast
  from Cons.IH [OF r, of "since_keep_alive c e1"] obtain e2 where
    t2: "the_trace s' = the_trace s1 @ e2"
    and p2: "peak (since_keep_alive c e1) e2 \<le> since_keep_alive c e1 + 2 * initializations xs + 1"
    and c2: "since_keep_alive (since_keep_alive c e1) e2 \<le> since_keep_alive c e1 + 2 * initializations xs"
    by blast
  have k: "initializations (x # xs) = ?i + initializations xs" by (rule initializations_Cons)
  have a: "the_trace s' = the_trace s @ (e1 @ e2)" using t1 t2 by simp
  have b: "peak c (e1 @ e2) \<le> c + 2 * initializations (x # xs) + 1"
    unfolding peak_append k using p1 p2 c1 by simp
  have d: "since_keep_alive c (e1 @ e2) \<le> c + 2 * initializations (x # xs)"
    unfolding since_append k using c1 c2 by simp
  have e: "initializations (x # xs) = 0 \<and> x # xs \<noteq> [] \<longrightarrow> since_keep_alive c (e1 @ e2) = 0"
  proof
    assume "initializations (x # xs) = 0 \<and> x # xs \<noteq> []"
    then have "\<not> is_Initialize x" "initializations xs = 0" unfolding k by (auto split: if_splits)
    with z1 c2 show "since_keep_alive c (e1 @ e2) = 0" unfolding since_append by simp
  qed
  from a b d e show ?case by blast
qed

text \<open>
  C6 (as the code has it). The session keeps no count and injects nothing. In a script
  whose operations all return, the count of commands written since the last keep-alive
  never exceeds its value at the start plus twice the number of \<^verbatim>\<open>Initialize\<close> calls
  plus one, at any moment of the run; so it stays below 50 as long as the start value plus
  twice the number of \<^verbatim>\<open>Initialize\<close> calls is below 49. After a script without
  \<^verbatim>\<open>Initialize\<close> the count is 0: every other operation ends with its own keep-alive.
\<close>

theorem keep_alive_cadence:
  assumes "run_ops ops self = Some (Inr u, self')"
  shows "\<exists>evs. the_trace self' = the_trace self @ evs \<and>
     (\<forall>n. since_keep_alive 0 (the_trace self @ take n evs) \<le>
            since_keep_alive 0 (the_trace self) + 2 * initializations ops + 1) \<and>
     (since_keep_alive 0 (the_trace self) + 2 * initializations ops < 49 \<longrightarrow>
        (\<forall>n. since_keep_alive 0 (the_trace self @ take n evs) < 50)) \<and>
     (initializations ops = 0 \<and> ops \<noteq> [] \<longrightarrow> since_keep_alive 0 (the_trace self') = 0)"
proof -
  let ?c = "since_keep_alive 0 (the_trace self)"
  from run_ops_cadence [OF assms, of ?c] obtain evs where
    t: "the_trace self' = the_trace self @ evs"
    and p: "peak ?c evs \<le> ?c + 2 * initializations ops + 1"
    and z: "initializations ops = 0 \<and> ops \<noteq> [] \<longrightarrow> since_keep_alive ?c evs = 0" by blast
  have n: "since_keep_alive 0 (the_trace self @ take n evs) \<le> ?c + 2 * initializations ops + 1" for n
    unfolding since_append using prefix_le_peak [of ?c n evs] p by simp
  have m: "?c + 2 * initializations ops < 49 \<longrightarrow>
      (\<forall>n. since_keep_alive 0 (the_trace self @ take n evs) < 50)"
  proof (intro impI allI)
    fix k
    assume "?c + 2 * initializations ops < 49"
    with n [of k] show "since_keep_alive 0 (the_trace self @ take k evs) < 50" by simp
  qed
  have f: "initializations ops = 0 \<and> ops \<noteq> [] \<longrightarrow> since_keep_alive 0 (the_trace self') = 0"
    unfolding t since_append using z .
  from t n m f show ?thesis by blast
qed

lemma Initialize_ok:
  assumes "Serial_Port s = Some sp" "is_open sp" "source_byte s = 0x01"
    "0 \<le> get_destination_byte s c" "get_destination_byte s c < 256"
  shows "Initialize c s =
      (Inr (), s\<lparr>Serial_Port := Some (sp\<lparr>trace := trace sp @
        [Write [0x05, 0x00, 0x00, 0x00, word_of_int (get_destination_byte s c), 0x01],
         Reset_Input, Reset_Output,
         Write [0x18, 0x00, 0x00, 0x00, word_of_int (get_destination_byte s c), 0x01],
         Reset_Input, Reset_Output]\<rparr>)\<rparr>)"
proof -
  define d where "d = get_destination_byte s c"
  have p1: "pack_HBBBB 0x0005 0x00 0x00 d 0x01 = Inr [0x05, 0x00, 0x00, 0x00, word_of_int d, 0x01]"
    unfolding pack_HBBBB_Inr using assms(4,5) unfolding d_def [symmetric] by simp
  have p2: "pack_HBBBB 0x0018 0x00 0x00 d 0x01 = Inr [0x18, 0x00, 0x00, 0x00, word_of_int d, 0x01]"
    unfolding pack_HBBBB_Inr using assms(4,5) unfolding d_def [symmetric] by simp
  show ?thesis
    using assms(1,2,3) unfolding d_def [symmetric]
    by (simp add: Initialize_def Serial_Port_write_def Serial_Port_call_def port_write_def
        record_event_def io_then_def io_bind_def Flush_Buffers_def
        reset_input_buffer_def reset_output_buffer_def d_def [symmetric] p1 p2)
qed

lemma is_keep_alive_simps:
  "is_keep_alive (0x05 # bs) = False" "is_keep_alive (0x18 # bs) = False"
  by (simp_all add: is_keep_alive_def)

lemma Initialize_repeat:
  assumes "Serial_Port s = Some sp" "is_open sp" "source_byte s = 0x01"
    "0 \<le> get_destination_byte s c" "get_destination_byte s c < 256"
  shows "\<exists>s'. run_ops (replicate n (Op_Initialize c)) s = Some (Inr (), s') \<and>
           since_keep_alive 0 (the_trace s') = since_keep_alive 0 (the_trace s) + 2 * n"
  using assms
proof (induction n arbitrary: s sp)
  case 0
  then show ?case by simp
next
  case (Suc n)
  let ?evs = "[Write [0x05, 0x00, 0x00, 0x00, word_of_int (get_destination_byte s c), 0x01],
         Reset_Input, Reset_Output,
         Write [0x18, 0x00, 0x00, 0x00, word_of_int (get_destination_byte s c), 0x01],
         Reset_Input, Reset_Output]"
  let ?sp1 = "sp\<lparr>trace := trace sp @ ?evs\<rparr>"
  let ?s1 = "s\<lparr>Serial_Port := Some ?sp1\<rparr>"
  have i: "Initialize c s = (Inr (), ?s1)" by (rule Initialize_ok [OF Suc.prems])
  have g: "get_destination_byte ?s1 c = get_destination_byte s c"
    by (simp add: get_destination_byte_def)
  have "\<exists>s'. run_ops (replicate n (Op_Initialize c)) ?s1 = Some (Inr (), s') \<and>
           since_keep_alive 0 (the_trace s') = since_keep_alive 0 (the_trace ?s1) + 2 * n"
    using Suc.prems by (intro Suc.IH [of ?s1 ?sp1]) (simp_all add: g)
  then obtain s' where r: "run_ops (replicate n (Op_Initialize c)) ?s1 = Some (Inr (), s')"
    and k: "since_keep_alive 0 (the_trace s') = since_keep_alive 0 (the_trace ?s1) + 2 * n"
    by blast
  have t: "the_trace ?s1 = the_trace s @ ?evs" using Suc.prems(1) by (simp add: the_trace_def)
  have "since_keep_alive 0 (the_trace ?s1) = since_keep_alive 0 (the_trace s) + 2"
    unfolding t since_append by (simp add: is_keep_alive_simps)
  with k have "since_keep_alive 0 (the_trace s') = since_keep_alive 0 (the_trace s) + 2 * Suc n"
    by simp
  moreover have "run_ops (replicate (Suc n) (Op_Initialize c)) s = Some (Inr (), s')"
    using i r by (simp add: discard_def io_then_def io_bind_def io_return_def)
  ultimately show ?case by blast
qed

text \<open>
  The claim as stated fails on the docstring's cube session: 25 calls of
  \<^verbatim>\<open>Initialize(1)\<close> all return, write 50 commands and no keep-alive.
\<close>

theorem keep_alive_cadence_counterexample:
  "map_option fst (run_ops (replicate 25 (Op_Initialize 1)) KBD101) = Some (Inr ()) \<and>
   since_keep_alive 0 (the_trace (snd (the (run_ops (replicate 25 (Op_Initialize 1)) KBD101)))) = 50"
proof -
  have "since_keep_alive 0 (the_trace KBD101) = 0"
    by (simp add: the_trace_def KBD101_def fresh_port_def)
  with Initialize_repeat [of KBD101 fresh_port 1 25] show ?thesis
    by (auto simp: KBD101_def fresh_port_def get_destination_byte_def)
qed

lemma script_with_Initialize:
  "run_ops [Op_Initialize 1, Op_Stay_Alive 1] KBD101 =
     Some (Inr (), KBD101\<lparr>Serial_Port := Some (fresh_port\<lparr>trace :=
       [Write [0x05, 0x00, 0x00, 0x00, 0x50, 0x01], Reset_Input, Reset_Output,
        Write [0x18, 0x00, 0x00, 0x00, 0x50, 0x01], Reset_Input, Reset_Output,
        Write [0x92, 0x04, 0x00, 0x00, 0x50, 0x01]]\<rparr>)\<rparr>)"
  by (simp add: discard_def Initialize_def Stay_Alive_def KBD101_def fresh_port_def
      get_destination_byte_def Serial_Port_write_def Serial_Port_call_def port_write_def
      record_event_def io_then_def io_bind_def io_return_def Flush_Buffers_def
      reset_input_buffer_def reset_output_buffer_def pack_HBBBB_def)

lemma script_without_Initialize:
  "run_ops [Op_Home 1 False, Op_Identify 1] KBD101 =
     Some (Inr (), KBD101\<lparr>Serial_Port := Some (fresh_port\<lparr>trace :=
       [Write [0x43, 0x04, 0x01, 0x00, 0x50, 0x01], Reset_Input, Reset_Output,
        Write [0x92, 0x04, 0x00, 0x00, 0x50, 0x01],
        Write [0x23, 0x02, 0x01, 0x00, 0x50, 0x01],
        Write [0x92, 0x04, 0x00, 0x00, 0x50, 0x01], Reset_Input, Reset_Output]\<rparr>)\<rparr>)"
  by (simp add: discard_def Home_def Identify_def Stay_Alive_def KBD101_def fresh_port_def
      get_destination_byte_def Serial_Port_write_def Serial_Port_call_def port_write_def
      record_event_def io_then_def io_bind_def io_return_def Flush_Buffers_def
      reset_input_buffer_def reset_output_buffer_def pack_HBBBB_def)

theorem keep_alive_cadence_witness:
  "run_ops [Op_Initialize 1, Op_Stay_Alive 1] KBD101 =
     Some (Inr (), KBD101\<lparr>Serial_Port := Some (fresh_port\<lparr>trace :=
       [Write [0x05, 0x00, 0x00, 0x00, 0x50, 0x01], Reset_Input, Reset_Output,
        Write [0x18, 0x00, 0x00, 0x00, 0x50, 0x01], Reset_Input, Reset_Output,
        Write [0x92, 0x04, 0x00, 0x00, 0x50, 0x01]]\<rparr>)\<rparr>) \<and>
   (\<forall>n. since_keep_alive 0 (take n
       [Write [0x05, 0x00, 0x00, 0x00, 0x50, 0x01], Reset_Input, Reset_Output,
        Write [0x18, 0x00, 0x00, 0x00, 0x50, 0x01], Reset_Input, Reset_Output,
        Write [0x92, 0x04, 0x00, 0x00, 0x50, 0x01]]) \<le> 3) \<and>
   run_ops [Op_Home 1 False, Op_Identify 1] KBD101 =
     Some (Inr (), KBD101\<lparr>Serial_Port := Some (fresh_port\<lparr>trace :=
       [Write [0x43, 0x04, 0x01, 0x00, 0x50, 0x01], Reset_Input, Reset_Output,
        Write [0x92, 0x04, 0x00, 0x00, 0x50, 0x01],
        Write [0x23, 0x02, 0x01, 0x00, 0x50, 0x01],
        Write [0x92, 0x04, 0x00, 0x00, 0x50, 0x01], Reset_Input, Reset_Output]\<rparr>)\<rparr>) \<and>
   initializations [Op_Home 1 False, Op_Identify 1] = 0 \<and>
   since_keep_alive 0
       [Write [0x43, 0x04, 0x01, 0x00, 0x50, 0x01], Reset_Input, Reset_Output,
        Write [0x92, 0x04, 0x00, 0x00, 0x50, 0x01],
        Write [0x23, 0x02, 0x01, 0x00, 0x50, 0x01],
        Write [0x92, 0x04, 0x00, 0x00, 0x50, 0x01], Reset_Input, Reset_Output] = 0"
proof -
  have t: "the_trace KBD101 = []" by (simp add: the_trace_def KBD101_def fresh_port_def)
  have i: "initializations [Op_Initialize 1, Op_Stay_Alive 1] = 1"
    "initializations [Op_Home 1 False, Op_Identify 1] = 0"
    by (simp_all add: initializations_def)
  from keep_alive_cadence [OF script_with_Initialize]
  have 1: "\<forall>n. since_keep_alive 0 (take n
       [Write [0x05, 0x00, 0x00, 0x00, 0x50, 0x01], Reset_Input, Reset_Output,
        Write [0x18, 0x00, 0x00, 0x00, 0x50, 0x01], Reset_Input, Reset_Output,
        Write [0x92, 0x04, 0x00, 0x00, 0x50, 0x01]]) \<le> 3"
    unfolding t i by (simp add: the_trace_def fresh_port_def numeral_3_eq_3)
  from keep_alive_cadence [OF script_without_Initialize]
  have 2: "since_keep_alive 0
       [Write [0x43, 0x04, 0x01, 0x00, 0x50, 0x01], Reset_Input, Reset_Output,
        Write [0x92, 0x04, 0x00, 0x00, 0x50, 0x01],
        Write [0x23, 0x02, 0x01, 0x00, 0x50, 0x01],
        Write [0x92, 0x04, 0x00, 0x00, 0x50, 0x01], Reset_Input, Reset_Output] = 0"
    unfolding t i by (simp add: the_trace_def fresh_port_def)
  show ?thesis using 1 2 i script_with_Initialize script_without_Initialize by simp
qed

section \<open>The blocking wait returns once the awaited code is read\<close>

lemma wait_loop_returns:
  assumes "Serial_Port s = Some sp" "is_open sp" "code \<in> set (map (take 2) (incoming sp))"
  shows "\<exists>s'. wait_loop code Rx s = Some (Inr (), s')"
  using assms
proof (induction "incoming sp" arbitrary: s sp Rx)
  case Nil
  then show ?case by simp
next
  case (Cons ch cs)
  show ?case
  proof (cases "Rx = code")
    case True
    then show ?thesis by (subst wait_loop.simps) simp
  next
    case False
    let ?sp1 = "record_event (Read 2 (take 2 ch)) (sp\<lparr>incoming := cs\<rparr>)"
    let ?s1 = "s\<lparr>Serial_Port := Some ?sp1\<rparr>"
    have i: "incoming sp = ch # cs" using Cons.hyps(2) by simp
    have r: "Serial_Port_call (port_read 2) s = (Inr (take 2 ch), ?s1)"
      using Cons.prems(1,2) i by (simp add: Serial_Port_call_def port_read_def)
    have u: "wait_loop code Rx s = wait_loop code (take 2 ch) ?s1"
      using False r by (subst wait_loop.simps) simp
    show ?thesis
    proof (cases "take 2 ch = code")
      case True
      then have "wait_loop code (take 2 ch) ?s1 = Some (Inr (), ?s1)"
        by (subst wait_loop.simps) simp
      with u show ?thesis by simp
    next
      case False
      with Cons.prems(3) i have m: "code \<in> set (map (take 2) cs)" by auto
      have "\<exists>s'. wait_loop code (take 2 ch) ?s1 = Some (Inr (), s')"
        using Cons.prems(2) m
        by (intro Cons.hyps(1) [of ?sp1 ?s1]) (simp_all add: record_event_def)
      with u show ?thesis by simp
    qed
  qed
qed

end
